theory Spec2Isabelle
  imports Main "HOL-Library.AList"
begin

section \<open>Python values, exceptions and the libraries the two parsers call\<close>

text \<open>
  The exceptions that the two modules can let escape, by class.  \<open>IOError\<close> is Python's
  \<^verbatim>\<open>OSError\<close> (what \<^verbatim>\<open>open\<close> raises for a file it cannot open), \<open>ParseError\<close> the syntax
  error of the XML parser (for a GPX file, gpxpy's \<^verbatim>\<open>GPXXMLSyntaxException\<close>).  Neither
  module has a handler apart from the two \<^verbatim>\<open>except AttributeError\<close> clauses of
  \<^verbatim>\<open>get_gpx_point_data\<close>, so every raise is an \<open>Inl\<close> result that travels unchanged to the
  caller.
\<close>

datatype error =
    AttributeError | TypeError | ValueError | KeyError | IndexError
  | OverflowError | IOError | ParseError

text \<open>
  A Python float is an IEEE double: \<open>Fin m e\<close> is the double whose exact value is
  \<open>m * 2 ^ e\<close>, kept with \<open>m\<close> odd (zero is \<open>Fin 0 0\<close>; the two zeros are not told apart, as
  \<^verbatim>\<open>0.0 == -0.0\<close> in Python).
\<close>

datatype pyfloat = Fin int int | PInf | NInf | NaN

text \<open>
  The values stored in the dicts.  \<open>'dt\<close> is \<^verbatim>\<open>datetime\<close>; a \<^verbatim>\<open>timedelta\<close> is its total
  number of microseconds.
\<close>

datatype 'dt pyval =
    VFloat pyfloat | VInt int | VDatetime 'dt | VTimedelta int | VNone

text \<open>
  A dict is an association list in insertion order; \<^verbatim>\<open>d[k] = v\<close> is \<open>AList.update k v d\<close>
  (replace in place, or append), \<^verbatim>\<open>k in d\<close> is \<open>k \<in> fst ` set d\<close>.
\<close>

type_synonym 'dt pydict = "(string \<times> 'dt pyval) list"

subsection \<open>XML trees (lxml / ElementTree elements)\<close>

text \<open>
  An element has a qualified tag (namespace URI and local name), its attributes, its text
  (\<^verbatim>\<open>None\<close> for an element without character data, as in \<^verbatim>\<open><Value/>\<close>) and its child
  elements in document order.  Comments and processing instructions are left out.
\<close>

type_synonym qname = "string \<times> string"

datatype xml =
  Element (tag: qname) (attrib: "(string \<times> string) list") (text_of: "string option")
    (children: "xml list")

text \<open>\<^verbatim>\<open>elem.findall('p:Tag', NAMESPACES)\<close>: the direct children with that tag, in order.\<close>

definition findall :: "xml \<Rightarrow> qname \<Rightarrow> xml list" where
  "findall elem t = filter (\<lambda>c. tag c = t) (children elem)"

text \<open>\<^verbatim>\<open>elem.find('p:Tag', NAMESPACES)\<close>: the first such child, or \<^verbatim>\<open>None\<close>.\<close>

definition find_child :: "xml \<Rightarrow> qname \<Rightarrow> xml option" where
  "find_child elem t = List.find (\<lambda>c. tag c = t) (children elem)"

text \<open>The descendants of an element in document order (the element itself is not one).\<close>

fun descendants :: "xml \<Rightarrow> xml list" where
  "descendants (Element t a x cs) = concat (map (\<lambda>c. c # descendants c) cs)"

text \<open>\<^verbatim>\<open>elem.find('.//p:Tag', NAMESPACES)\<close>: the first descendant with that tag, at any depth.\<close>

definition find_descendant :: "xml \<Rightarrow> qname \<Rightarrow> xml option" where
  "find_descendant elem t = List.find (\<lambda>c. tag c = t) (descendants elem)"

text \<open>\<^verbatim>\<open>x.text\<close> where \<^verbatim>\<open>x\<close> is the result of a \<^verbatim>\<open>find\<close>: on \<^verbatim>\<open>None\<close> it raises.\<close>

definition dot_text :: "xml option \<Rightarrow> error + string option" where
  "dot_text x = (case x of None \<Rightarrow> Inl AttributeError | Some e \<Rightarrow> Inr (text_of e))"

text \<open>\<^verbatim>\<open>elem.attrib[k]\<close>.\<close>

definition attrib_getitem :: "xml \<Rightarrow> string \<Rightarrow> error + string" where
  "attrib_getitem elem k = (case map_of (attrib elem) k of None \<Rightarrow> Inl KeyError | Some v \<Rightarrow> Inr v)"

subsection \<open>gpxpy objects\<close>

record 'dt gpx_point =
  latitude :: "'dt pyval"
  longitude :: "'dt pyval"
  elevation :: "'dt pyval"
  time :: "'dt pyval"
  extensions :: "xml list"

record 'dt gpx_segment =
  points :: "'dt gpx_point list"

record 'dt gpx_track =
  segments :: "'dt gpx_segment list"

record 'dt gpx =
  tracks :: "'dt gpx_track list"

subsection \<open>The library functions, as parameters\<close>

text \<open>
  What the modules import and call but do not define.  The string parsers are parameters:
  \<^verbatim>\<open>dateutil.parser.parse\<close>, \<^verbatim>\<open>float\<close> and \<^verbatim>\<open>int\<close> on a string, \<^verbatim>\<open>lxml.etree.parse\<close> followed
  by \<^verbatim>\<open>getroot\<close> on a path, \<^verbatim>\<open>open\<close> on a path and \<^verbatim>\<open>gpxpy.parse\<close> on an open file.
  Each returns its value or the exception it raises.
\<close>

record ('dt, 'f) pylib =
  dp_parse :: "string \<Rightarrow> error + 'dt"
  float_str :: "string \<Rightarrow> error + pyfloat"
  int_str :: "string \<Rightarrow> error + int"
  etree_parse :: "string \<Rightarrow> error + xml"
  open_file :: "string \<Rightarrow> error + 'f"
  gpxpy_parse :: "'f \<Rightarrow> error + 'dt gpx"

text \<open>\<^verbatim>\<open>float(x)\<close> and \<^verbatim>\<open>int(x)\<close> for \<^verbatim>\<open>x\<close> an element's text: \<^verbatim>\<open>None\<close> is a \<^verbatim>\<open>TypeError\<close>.\<close>

definition py_float :: "('dt, 'f) pylib \<Rightarrow> string option \<Rightarrow> error + pyfloat" where
  "py_float L x = (case x of None \<Rightarrow> Inl TypeError | Some s \<Rightarrow> float_str L s)"

definition py_int :: "('dt, 'f) pylib \<Rightarrow> string option \<Rightarrow> error + int" where
  "py_int L x = (case x of None \<Rightarrow> Inl TypeError | Some s \<Rightarrow> int_str L s)"

text \<open>\<^verbatim>\<open>dp.parse(x)\<close>: dateutil rejects \<^verbatim>\<open>None\<close> with a \<^verbatim>\<open>TypeError\<close>.\<close>

definition dp_parse_text :: "('dt, 'f) pylib \<Rightarrow> string option \<Rightarrow> error + 'dt" where
  "dp_parse_text L x = (case x of None \<Rightarrow> Inl TypeError | Some s \<Rightarrow> dp_parse L s)"

text \<open>Sequencing of statements that may raise.\<close>

definition and_then :: "error + 'a \<Rightarrow> ('a \<Rightarrow> error + 'b) \<Rightarrow> error + 'b" where
  "and_then m f = (case m of Inl e \<Rightarrow> Inl e | Inr x \<Rightarrow> f x)"

subsection \<open>Rounding to a double, and \<^verbatim>\<open>timedelta(seconds=...)\<close>\<close>

text \<open>The number of binary digits of a positive integer.\<close>

function bitlen :: "int \<Rightarrow> int" where
  "bitlen n = (if n \<le> 0 then 0 else 1 + bitlen (n div 2))"
  by pat_completeness auto
termination
  by (relation "measure nat") auto

declare bitlen.simps [simp del]

text \<open>\<open>n * 2 ^ e\<close> with the factors of two moved out of \<open>n\<close>.\<close>

function normalize_float :: "int \<Rightarrow> int \<Rightarrow> int \<times> int" where
  "normalize_float n e =
     (if n = 0 then (0, 0)
      else if even n then normalize_float (n div 2) (e + 1)
      else (n, e))"
  by pat_completeness auto
termination
  by (relation "measure (\<lambda>(n, e). nat \<bar>n\<bar>)") auto

declare normalize_float.simps [simp del]

text \<open>The integer nearest to \<open>a / b\<close> for \<open>0 < b\<close>, a tie going to the even one.\<close>

definition rhe_div :: "int \<Rightarrow> int \<Rightarrow> int" where
  "rhe_div a b =
     (let f = a div b; r = a mod b
      in if 2 * r < b then f else if b < 2 * r then f + 1 else if even f then f else f + 1)"

definition scale2 :: "int \<Rightarrow> int \<Rightarrow> int" where
  "scale2 n k = (if 0 \<le> k then n * 2 ^ nat k else n)"

text \<open>
  The double nearest to the rational \<open>a / b\<close> (\<open>0 < b\<close>), ties to even: 53 significant bits,
  exponents from \<open>-1022\<close> (below it the spacing stays \<open>2 ^ -1074\<close>) to \<open>1023\<close>, infinity from
  \<open>2 ^ 1024\<close> on.  This is the correctly rounded conversion that both \<^verbatim>\<open>float(str)\<close> and a
  float literal of the language perform on a decimal numeral.
\<close>

definition round_ratio :: "int \<Rightarrow> int \<Rightarrow> pyfloat" where
  "round_ratio a b =
     (if a = 0 then Fin 0 0
      else
        let e0 = bitlen \<bar>a\<bar> - bitlen b;
            e = (if scale2 b e0 \<le> scale2 \<bar>a\<bar> (- e0) then e0 else e0 - 1);
            s = max e (- 1022) - 52;
            n = rhe_div (scale2 \<bar>a\<bar> (- s)) (scale2 b s)
        in if 971 < s \<or> 2 ^ nat (1024 - s) \<le> n then (if a < 0 then NInf else PInf)
           else case normalize_float n s of (m, x) \<Rightarrow> Fin (if a < 0 then - m else m) x)"

text \<open>The double a decimal numeral \<open>d * 10 ^ k\<close> denotes.\<close>

definition decimal_to_double :: "int \<Rightarrow> int \<Rightarrow> pyfloat" where
  "decimal_to_double d k =
     (if 0 \<le> k then round_ratio (d * 10 ^ nat k) 1 else round_ratio d (10 ^ nat (- k)))"

text \<open>
  \<^verbatim>\<open>timedelta(seconds=x)\<close> for a float \<^verbatim>\<open>x\<close>, as the total number of microseconds.  CPython
  splits \<^verbatim>\<open>x\<close> into its whole and fractional part, multiplies the fraction by \<^verbatim>\<open>1e6\<close> as a
  double and rounds that to the nearest microsecond, half to even; NaN is a \<^verbatim>\<open>ValueError\<close>,
  an infinity or more than 999999999 days an \<^verbatim>\<open>OverflowError\<close>.
\<close>

definition timedelta_range :: "int \<Rightarrow> error + int" where
  "timedelta_range us =
     (let days = us div 86400000000
      in if days < - 999999999 \<or> 999999999 < days then Inl OverflowError else Inr us)"

definition timedelta_seconds :: "pyfloat \<Rightarrow> error + int" where
  "timedelta_seconds x =
     (case x of
        NaN \<Rightarrow> Inl ValueError
      | PInf \<Rightarrow> Inl OverflowError
      | NInf \<Rightarrow> Inl OverflowError
      | Fin m e \<Rightarrow>
          if 0 \<le> e then timedelta_range (m * 2 ^ nat e * 1000000)
          else
            let d = 2 ^ nat (- e);
                whole = (if m < 0 then - (\<bar>m\<bar> div d) else m div d);
                r = m - whole * d;
                us = (case round_ratio (r * 1000000) d of
                        Fin u k \<Rightarrow> if 0 \<le> k then u * 2 ^ nat k else rhe_div u (2 ^ nat (- k))
                      | _ \<Rightarrow> 0)
            in timedelta_range (whole * 1000000 + us))"

subsection \<open>pandas tables\<close>

text \<open>
  A \<^verbatim>\<open>DataFrame\<close>: the labels of its columns in order, one row of cells per record, and its
  index (the row keys, with the label of the key column once it has one).  A cell is \<open>None\<close>
  where pandas puts its null marker, and \<open>Some v\<close> where it stores the value \<open>v\<close> that the
  dict of the row holds.  pandas stores a value in the dtype that it infers for the whole
  column (an integer of a column that also has a null cell is stored as the float of the
  same number, and a float \<^verbatim>\<open>nan\<close> that a dict holds is stored as \<^verbatim>\<open>NaN\<close>, which pandas itself
  cannot tell from its null marker); the dtypes are not part of this model, in which
  \<open>Some v\<close> names the value that the cell was made from.
\<close>

record 'dt dataframe =
  index_name :: "string option"
  index :: "'dt pyval option list"
  columns :: "string list"
  rows :: "'dt pyval option list list"

text \<open>
  The cell that pandas makes of a dict under a column label: the null marker when the dict
  lacks the key, and also when the key is there with the value \<^verbatim>\<open>None\<close>; otherwise the value.
\<close>

definition cell :: "'dt pydict \<Rightarrow> string \<Rightarrow> 'dt pyval option" where
  "cell d c =
     (case map_of d c of
        None \<Rightarrow> None
      | Some v \<Rightarrow> if v = VNone then None else Some v)"

text \<open>
  \<^verbatim>\<open>pd.DataFrame(data, columns=cols)\<close> for a list of dicts: exactly the columns \<^verbatim>\<open>cols\<close>, in
  that order; a row takes each cell from its dict by the column's label, keys outside
  \<^verbatim>\<open>cols\<close> are dropped, and a label the dict lacks gives a null cell.  The index counts
  the rows from 0.
\<close>

definition DataFrame :: "'dt pydict list \<Rightarrow> string list \<Rightarrow> 'dt dataframe" where
  "DataFrame data cols =
     \<lparr>index_name = None,
      index = map (\<lambda>i. Some (VInt (int i))) [0..<length data],
      columns = cols,
      rows = map (\<lambda>d. map (cell d) cols) data\<rparr>"

text \<open>
  \<^verbatim>\<open>df.set_index(k, inplace=True)\<close>: column \<^verbatim>\<open>k\<close> leaves the columns and becomes the index;
  a label that is no column is a \<^verbatim>\<open>KeyError\<close>.
\<close>

definition set_index :: "string \<Rightarrow> 'dt dataframe \<Rightarrow> error + 'dt dataframe" where
  "set_index k df =
     (if k \<notin> set (columns df) then Inl KeyError
      else Inr
        \<lparr>index_name = Some k,
         index = map (\<lambda>r. case map_of (zip (columns df) r) k of Some c \<Rightarrow> c | None \<Rightarrow> None)
                   (rows df),
         columns = filter (\<lambda>c. c \<noteq> k) (columns df),
         rows = map (\<lambda>r. map snd (filter (\<lambda>(c, v). c \<noteq> k) (zip (columns df) r))) (rows df)\<rparr>)"

text \<open>\<^verbatim>\<open>xs[0]\<close> on a list.\<close>

definition getitem0 :: "'a list \<Rightarrow> error + 'a" where
  "getitem0 xs = (case xs of [] \<Rightarrow> Inl IndexError | x # _ \<Rightarrow> Inr x)"

section \<open>\<^verbatim>\<open>parse_tcx.py\<close>\<close>

definition NAMESPACES :: "(string \<times> string) list" where
  "NAMESPACES =
     [(''ns'', ''http://www.garmin.com/xmlschemas/TrainingCenterDatabase/v2''),
      (''ns2'', ''http://www.garmin.com/xmlschemas/UserProfile/v2''),
      (''ns3'', ''http://www.garmin.com/xmlschemas/ActivityExtension/v2''),
      (''ns4'', ''http://www.garmin.com/xmlschemas/ProfileExtension/v1''),
      (''ns5'', ''http://www.garmin.com/xmlschemas/ActivityGoals/v1'')]"

text \<open>
  The path \<^verbatim>\<open>'p:Name'\<close> read with a prefix map: the tag it selects.  (A prefix outside the
  map makes lxml raise; the modules only use prefixes of their own maps.)
\<close>

definition qn :: "(string \<times> string) list \<Rightarrow> string \<Rightarrow> string \<Rightarrow> qname" where
  "qn nsmap p name = (case map_of nsmap p of Some uri \<Rightarrow> (uri, name) | None \<Rightarrow> ([], name))"

definition POINTS_COLUMN_NAMES :: "string list" where
  "POINTS_COLUMN_NAMES =
     [''latitude'', ''longitude'', ''elevation'', ''time'', ''heart_rate'', ''cadence'',
      ''speed'', ''lap'']"

definition LAPS_COLUMN_NAMES :: "string list" where
  "LAPS_COLUMN_NAMES =
     [''number'', ''start_time'', ''distance'', ''total_time'', ''max_speed'', ''max_hr'',
      ''avg_hr'']"

subsection \<open>\<^verbatim>\<open>get_tcx_lap_data\<close>, statement by statement\<close>

text \<open>Lines 38-39: the \<^verbatim>\<open>StartTime\<close> attribute, parsed.\<close>

definition lap_start_time ::
  "('dt, 'f) pylib \<Rightarrow> xml \<Rightarrow> 'dt pydict \<Rightarrow> error + 'dt pydict" where
  "lap_start_time L lap data =
     and_then (attrib_getitem lap ''StartTime'') (\<lambda>start_time_str.
     and_then (dp_parse L start_time_str) (\<lambda>t.
       Inr (AList.update ''start_time'' (VDatetime t) data)))"

text \<open>Lines 41-43.\<close>

definition lap_distance ::
  "('dt, 'f) pylib \<Rightarrow> xml \<Rightarrow> 'dt pydict \<Rightarrow> error + 'dt pydict" where
  "lap_distance L lap data =
     (case find_child lap (qn NAMESPACES ''ns'' ''DistanceMeters'') of
        None \<Rightarrow> Inr data
      | Some distance_elem \<Rightarrow>
          and_then (py_float L (text_of distance_elem)) (\<lambda>x.
            Inr (AList.update ''distance'' (VFloat x) data)))"

text \<open>Lines 45-47.\<close>

definition lap_total_time ::
  "('dt, 'f) pylib \<Rightarrow> xml \<Rightarrow> 'dt pydict \<Rightarrow> error + 'dt pydict" where
  "lap_total_time L lap data =
     (case find_child lap (qn NAMESPACES ''ns'' ''TotalTimeSeconds'') of
        None \<Rightarrow> Inr data
      | Some total_time_elem \<Rightarrow>
          and_then (py_float L (text_of total_time_elem)) (\<lambda>x.
          and_then (timedelta_seconds x) (\<lambda>td.
            Inr (AList.update ''total_time'' (VTimedelta td) data))))"

text \<open>Lines 49-51.\<close>

definition lap_max_speed ::
  "('dt, 'f) pylib \<Rightarrow> xml \<Rightarrow> 'dt pydict \<Rightarrow> error + 'dt pydict" where
  "lap_max_speed L lap data =
     (case find_child lap (qn NAMESPACES ''ns'' ''MaximumSpeed'') of
        None \<Rightarrow> Inr data
      | Some max_speed_elem \<Rightarrow>
          and_then (py_float L (text_of max_speed_elem)) (\<lambda>x.
            Inr (AList.update ''max_speed'' (VFloat x) data)))"

text \<open>Lines 53-55.\<close>

definition lap_max_hr ::
  "('dt, 'f) pylib \<Rightarrow> xml \<Rightarrow> 'dt pydict \<Rightarrow> error + 'dt pydict" where
  "lap_max_hr L lap data =
     (case find_child lap (qn NAMESPACES ''ns'' ''MaximumHeartRateBpm'') of
        None \<Rightarrow> Inr data
      | Some max_hr_elem \<Rightarrow>
          and_then (dot_text (find_child max_hr_elem (qn NAMESPACES ''ns'' ''Value''))) (\<lambda>t.
          and_then (py_float L t) (\<lambda>x.
            Inr (AList.update ''max_hr'' (VFloat x) data))))"

text \<open>Lines 57-59.\<close>

definition lap_avg_hr ::
  "('dt, 'f) pylib \<Rightarrow> xml \<Rightarrow> 'dt pydict \<Rightarrow> error + 'dt pydict" where
  "lap_avg_hr L lap data =
     (case find_child lap (qn NAMESPACES ''ns'' ''AverageHeartRateBpm'') of
        None \<Rightarrow> Inr data
      | Some avg_hr_elem \<Rightarrow>
          and_then (dot_text (find_child avg_hr_elem (qn NAMESPACES ''ns'' ''Value''))) (\<lambda>t.
          and_then (py_float L t) (\<lambda>x.
            Inr (AList.update ''avg_hr'' (VFloat x) data))))"

definition get_tcx_lap_data :: "('dt, 'f) pylib \<Rightarrow> xml \<Rightarrow> error + 'dt pydict" where
  "get_tcx_lap_data L lap =
     and_then (lap_start_time L lap []) (\<lambda>data.
     and_then (lap_distance L lap data) (\<lambda>data.
     and_then (lap_total_time L lap data) (\<lambda>data.
     and_then (lap_max_speed L lap data) (\<lambda>data.
     and_then (lap_max_hr L lap data) (\<lambda>data.
     and_then (lap_avg_hr L lap data) (\<lambda>data.
       Inr data))))))"

subsection \<open>\<^verbatim>\<open>get_tcx_point_data\<close>, statement by statement\<close>

text \<open>Lines 76-77, for the \<^verbatim>\<open>Position\<close> element found at line 70.\<close>

definition point_position ::
  "('dt, 'f) pylib \<Rightarrow> xml \<Rightarrow> 'dt pydict \<Rightarrow> error + 'dt pydict" where
  "point_position L position data =
     and_then (dot_text (find_child position (qn NAMESPACES ''ns'' ''LatitudeDegrees''))) (\<lambda>t.
     and_then (py_float L t) (\<lambda>lat.
     let data = AList.update ''latitude'' (VFloat lat) data in
     and_then (dot_text (find_child position (qn NAMESPACES ''ns'' ''LongitudeDegrees''))) (\<lambda>t.
     and_then (py_float L t) (\<lambda>lon.
       Inr (AList.update ''longitude'' (VFloat lon) data)))))"

text \<open>Lines 79-80.\<close>

definition point_time ::
  "('dt, 'f) pylib \<Rightarrow> xml \<Rightarrow> 'dt pydict \<Rightarrow> error + 'dt pydict" where
  "point_time L point data =
     and_then (dot_text (find_child point (qn NAMESPACES ''ns'' ''Time''))) (\<lambda>time_str.
     and_then (dp_parse_text L time_str) (\<lambda>t.
       Inr (AList.update ''time'' (VDatetime t) data)))"

text \<open>Lines 82-84.\<close>

definition point_elevation ::
  "('dt, 'f) pylib \<Rightarrow> xml \<Rightarrow> 'dt pydict \<Rightarrow> error + 'dt pydict" where
  "point_elevation L point data =
     (case find_child point (qn NAMESPACES ''ns'' ''AltitudeMeters'') of
        None \<Rightarrow> Inr data
      | Some elevation_elem \<Rightarrow>
          and_then (py_float L (text_of elevation_elem)) (\<lambda>x.
            Inr (AList.update ''elevation'' (VFloat x) data)))"

text \<open>Lines 86-88.\<close>

definition point_heart_rate ::
  "('dt, 'f) pylib \<Rightarrow> xml \<Rightarrow> 'dt pydict \<Rightarrow> error + 'dt pydict" where
  "point_heart_rate L point data =
     (case find_child point (qn NAMESPACES ''ns'' ''HeartRateBpm'') of
        None \<Rightarrow> Inr data
      | Some hr_elem \<Rightarrow>
          and_then (dot_text (find_child hr_elem (qn NAMESPACES ''ns'' ''Value''))) (\<lambda>t.
          and_then (py_int L t) (\<lambda>n.
            Inr (AList.update ''heart_rate'' (VInt n) data))))"

text \<open>Lines 90-92.\<close>

definition point_cadence ::
  "('dt, 'f) pylib \<Rightarrow> xml \<Rightarrow> 'dt pydict \<Rightarrow> error + 'dt pydict" where
  "point_cadence L point data =
     (case find_child point (qn NAMESPACES ''ns'' ''Cadence'') of
        None \<Rightarrow> Inr data
      | Some cad_elem \<Rightarrow>
          and_then (py_int L (text_of cad_elem)) (\<lambda>n.
            Inr (AList.update ''cadence'' (VInt n) data)))"

text \<open>Lines 96-98: the search is at any depth below the point.\<close>

definition point_speed ::
  "('dt, 'f) pylib \<Rightarrow> xml \<Rightarrow> 'dt pydict \<Rightarrow> error + 'dt pydict" where
  "point_speed L point data =
     (case find_descendant point (qn NAMESPACES ''ns3'' ''Speed'') of
        None \<Rightarrow> Inr data
      | Some speed_elem \<Rightarrow>
          and_then (py_float L (text_of speed_elem)) (\<lambda>x.
            Inr (AList.update ''speed'' (VFloat x) data)))"

text \<open>The result is \<open>Inr None\<close> for Python's \<^verbatim>\<open>return None\<close>, \<open>Inr (Some data)\<close> for a dict.\<close>

definition get_tcx_point_data ::
  "('dt, 'f) pylib \<Rightarrow> xml \<Rightarrow> error + 'dt pydict option" where
  "get_tcx_point_data L point =
     (case find_child point (qn NAMESPACES ''ns'' ''Position'') of
        None \<Rightarrow> Inr None
      | Some position \<Rightarrow>
          and_then (point_position L position []) (\<lambda>data.
          and_then (point_time L point data) (\<lambda>data.
          and_then (point_elevation L point data) (\<lambda>data.
          and_then (point_heart_rate L point data) (\<lambda>data.
          and_then (point_cadence L point data) (\<lambda>data.
          and_then (point_speed L point data) (\<lambda>data.
            Inr (Some data))))))))"

subsection \<open>\<^verbatim>\<open>get_dataframes\<close>\<close>

text \<open>
  \<^verbatim>\<open>if single_point_data:\<close> tests the truth value of an optional dict: \<^verbatim>\<open>None\<close> and the
  empty dict are false.
\<close>

definition truthy :: "'dt pydict option \<Rightarrow> bool" where
  "truthy x = (case x of None \<Rightarrow> False | Some d \<Rightarrow> d \<noteq> [])"

text \<open>Lines 124-128: the inner loop, over the track points of one lap.\<close>

fun points_loop ::
  "('dt, 'f) pylib \<Rightarrow> int \<Rightarrow> xml list \<Rightarrow> 'dt pydict list \<Rightarrow> error + 'dt pydict list" where
  "points_loop L lap_no [] points_data = Inr points_data"
| "points_loop L lap_no (point # rest) points_data =
     (case get_tcx_point_data L point of
        Inl e \<Rightarrow> Inl e
      | Inr single_point_data \<Rightarrow>
          if truthy single_point_data
          then (case single_point_data of
                  Some d \<Rightarrow>
                    points_loop L lap_no rest
                      (points_data @ [AList.update ''lap'' (VInt lap_no) d])
                | None \<Rightarrow> points_loop L lap_no rest points_data)
          else points_loop L lap_no rest points_data)"

text \<open>
  Lines 116-129: the outer loop, over the laps.  \<^verbatim>\<open>track.findall\<close> on the \<^verbatim>\<open>None\<close> that
  \<^verbatim>\<open>lap.find\<close> returns for a lap without a \<^verbatim>\<open>Track\<close> raises.
\<close>

fun laps_loop ::
  "('dt, 'f) pylib \<Rightarrow> int \<Rightarrow> xml list \<Rightarrow> 'dt pydict list \<Rightarrow> 'dt pydict list \<Rightarrow>
   error + 'dt pydict list \<times> 'dt pydict list" where
  "laps_loop L lap_no [] laps_data points_data = Inr (laps_data, points_data)"
| "laps_loop L lap_no (lap # rest) laps_data points_data =
     (case get_tcx_lap_data L lap of
        Inl e \<Rightarrow> Inl e
      | Inr single_lap_data \<Rightarrow>
          (case find_child lap (qn NAMESPACES ''ns'' ''Track'') of
             None \<Rightarrow> Inl AttributeError
           | Some track \<Rightarrow>
               (case points_loop L lap_no (findall track (qn NAMESPACES ''ns'' ''Trackpoint''))
                       points_data of
                  Inl e \<Rightarrow> Inl e
                | Inr points_data' \<Rightarrow>
                    laps_loop L (lap_no + 1) rest
                      (laps_data @ [AList.update ''number'' (VInt lap_no) single_lap_data])
                      points_data')))"

text \<open>
  Line 111: \<^verbatim>\<open>root.find('ns:Activities', NAMESPACES)[0]\<close>, the first child of the
  \<^verbatim>\<open>Activities\<close> element; subscripting \<^verbatim>\<open>None\<close> is a \<^verbatim>\<open>TypeError\<close>, an element without
  children an \<^verbatim>\<open>IndexError\<close>.
\<close>

definition first_activity :: "xml \<Rightarrow> error + xml" where
  "first_activity root =
     (case find_child root (qn NAMESPACES ''ns'' ''Activities'') of
        None \<Rightarrow> Inl TypeError
      | Some activities \<Rightarrow> getitem0 (children activities))"

definition get_dataframes ::
  "('dt, 'f) pylib \<Rightarrow> string \<Rightarrow> error + 'dt dataframe \<times> 'dt dataframe" where
  "get_dataframes L fname =
     and_then (etree_parse L fname) (\<lambda>root.
     and_then (first_activity root) (\<lambda>activity.
     and_then (laps_loop L 1 (findall activity (qn NAMESPACES ''ns'' ''Lap'')) [] [])
       (\<lambda>(laps_data, points_data).
     and_then (set_index ''number'' (DataFrame laps_data LAPS_COLUMN_NAMES)) (\<lambda>laps_df.
       Inr (laps_df, DataFrame points_data POINTS_COLUMN_NAMES)))))"

section \<open>\<^verbatim>\<open>parse_gpx.py\<close>\<close>

definition GPX_NAMESPACES :: "(string \<times> string) list" where
  "GPX_NAMESPACES =
     [(''garmin_tpe'', ''http://www.garmin.com/xmlschemas/TrackPointExtension/v1'')]"

definition COLUMN_NAMES :: "string list" where
  "COLUMN_NAMES =
     [''latitude'', ''longitude'', ''elevation'', ''time'', ''heart_rate'', ''cadence'']"

text \<open>
  \<^verbatim>\<open>try: data[k] = ... except AttributeError: pass\<close>: an \<^verbatim>\<open>AttributeError\<close> of the body
  leaves the dict as it was, any other exception goes on.
\<close>

definition except_AttributeError_pass ::
  "error + 'dt pydict \<Rightarrow> 'dt pydict \<Rightarrow> error + 'dt pydict" where
  "except_AttributeError_pass body data =
     (case body of
        Inl e \<Rightarrow> if e = AttributeError then Inr data else Inl e
      | Inr data' \<Rightarrow> Inr data')"

text \<open>Lines 31-35.\<close>

definition gpx_heart_rate ::
  "('dt, 'f) pylib \<Rightarrow> xml \<Rightarrow> 'dt pydict \<Rightarrow> error + 'dt pydict" where
  "gpx_heart_rate L elem data =
     except_AttributeError_pass
       (and_then (dot_text (find_child elem (qn GPX_NAMESPACES ''garmin_tpe'' ''hr''))) (\<lambda>t.
        and_then (py_int L t) (\<lambda>n.
          Inr (AList.update ''heart_rate'' (VInt n) data))))
       data"

text \<open>Lines 37-40.\<close>

definition gpx_cadence ::
  "('dt, 'f) pylib \<Rightarrow> xml \<Rightarrow> 'dt pydict \<Rightarrow> error + 'dt pydict" where
  "gpx_cadence L elem data =
     except_AttributeError_pass
       (and_then (dot_text (find_child elem (qn GPX_NAMESPACES ''garmin_tpe'' ''cad''))) (\<lambda>t.
        and_then (py_int L t) (\<lambda>n.
          Inr (AList.update ''cadence'' (VInt n) data))))
       data"

definition get_gpx_point_data ::
  "('dt, 'f) pylib \<Rightarrow> 'dt gpx_point \<Rightarrow> error + 'dt pydict" where
  "get_gpx_point_data L point =
     (let data = [(''latitude'', latitude point), (''longitude'', longitude point),
                  (''elevation'', elevation point), (''time'', time point)]
      in and_then (getitem0 (extensions point)) (\<lambda>elem.
         and_then (gpx_heart_rate L elem data) (\<lambda>data.
         and_then (gpx_cadence L elem data) (\<lambda>data.
           Inr data))))"

text \<open>Line 51: the list comprehension, which stops at the first point that raises.\<close>

fun gpx_points_loop ::
  "('dt, 'f) pylib \<Rightarrow> 'dt gpx_point list \<Rightarrow> error + 'dt pydict list" where
  "gpx_points_loop L [] = Inr []"
| "gpx_points_loop L (point # rest) =
     (case get_gpx_point_data L point of
        Inl e \<Rightarrow> Inl e
      | Inr d \<Rightarrow>
          (case gpx_points_loop L rest of
             Inl e \<Rightarrow> Inl e
           | Inr ds \<Rightarrow> Inr (d # ds)))"

definition get_dataframe_from_gpx ::
  "('dt, 'f) pylib \<Rightarrow> string \<Rightarrow> error + 'dt dataframe" where
  "get_dataframe_from_gpx L fname =
     and_then (open_file L fname) (\<lambda>f.
     and_then (gpxpy_parse L f) (\<lambda>gpx.
     and_then (getitem0 (tracks gpx)) (\<lambda>track.
     and_then (getitem0 (segments track)) (\<lambda>segment.
     and_then (gpx_points_loop L (points segment)) (\<lambda>data.
       Inr (DataFrame data COLUMN_NAMES))))))"

section \<open>Python's own parsers, for running the model\<close>

text \<open>
  Reference models of \<^verbatim>\<open>float(str)\<close> and \<^verbatim>\<open>int(str)\<close> on ASCII text, after CPython: blanks
  around the numeral are stripped, an underscore may stand between two digits, the numeral is
  a sign, digits with an optional fraction and exponent (or \<^verbatim>\<open>inf\<close>, \<^verbatim>\<open>infinity\<close>, \<^verbatim>\<open>nan\<close> in
  any case), and the value is the correctly rounded double.  Anything else is a
  \<^verbatim>\<open>ValueError\<close>.  (Digits and blanks outside ASCII, which Python also accepts, and its
  limit on the length of an integer numeral are left out.)  The theorems about the
  extractors hold for every library; these models are only used where a concrete value is
  computed.
\<close>

definition is_digit :: "char \<Rightarrow> bool" where
  "is_digit c = (let n = (of_char c :: int) in 48 \<le> n \<and> n \<le> 57)"

definition is_space :: "char \<Rightarrow> bool" where
  "is_space c = (let n = (of_char c :: int) in (9 \<le> n \<and> n \<le> 13) \<or> n = 32)"

definition lower :: "char \<Rightarrow> char" where
  "lower c = (let n = (of_char c :: int) in if 65 \<le> n \<and> n \<le> 90 then char_of (n + 32) else c)"

definition strip :: "string \<Rightarrow> string" where
  "strip s = rev (dropWhile is_space (rev (dropWhile is_space s)))"

fun digits_value :: "int \<Rightarrow> string \<Rightarrow> int" where
  "digits_value acc [] = acc"
| "digits_value acc (c # cs) = digits_value (10 * acc + (of_char c - 48)) cs"

fun drop_underscores :: "char \<Rightarrow> string \<Rightarrow> string option" where
  "drop_underscores prev [] = (if prev = CHR ''_'' then None else Some [])"
| "drop_underscores prev (c # cs) =
     (if c = CHR ''_'' then (if is_digit prev then drop_underscores c cs else None)
      else if prev = CHR ''_'' \<and> \<not> is_digit c then None
      else map_option ((#) c) (drop_underscores c cs))"

definition split_sign :: "string \<Rightarrow> bool \<times> string" where
  "split_sign s =
     (case s of
        c # cs \<Rightarrow> if c = CHR ''-'' then (True, cs) else if c = CHR ''+'' then (False, cs)
                  else (False, s)
      | [] \<Rightarrow> (False, s))"

definition parse_exponent :: "string \<Rightarrow> int option" where
  "parse_exponent s =
     (case s of
        [] \<Rightarrow> Some 0
      | c # cs \<Rightarrow>
          if lower c = CHR ''e'' then
            (case split_sign cs of (neg, ds) \<Rightarrow>
               if ds \<noteq> [] \<and> list_all is_digit ds
               then Some (if neg then - digits_value 0 ds else digits_value 0 ds)
               else None)
          else None)"

text \<open>\<^verbatim>\<open>float(s)\<close> for a string.\<close>

definition python_float :: "string \<Rightarrow> error + pyfloat" where
  "python_float s =
     (case drop_underscores (CHR 0x00) (strip s) of
        None \<Rightarrow> Inl ValueError
      | Some u \<Rightarrow>
          (case split_sign u of (neg, r) \<Rightarrow>
             if map lower r = ''inf'' \<or> map lower r = ''infinity''
             then Inr (if neg then NInf else PInf)
             else if map lower r = ''nan'' then Inr NaN
             else
               let ip = takeWhile is_digit r;
                   r1 = dropWhile is_digit r;
                   fp = (case r1 of c # r' \<Rightarrow> if c = CHR ''.'' then takeWhile is_digit r' else []
                         | [] \<Rightarrow> []);
                   r2 = (case r1 of c # r' \<Rightarrow> if c = CHR ''.'' then dropWhile is_digit r' else r1
                         | [] \<Rightarrow> [])
               in if ip = [] \<and> fp = [] then Inl ValueError
                  else (case parse_exponent r2 of
                          None \<Rightarrow> Inl ValueError
                        | Some x \<Rightarrow>
                            let d = digits_value 0 (ip @ fp)
                            in Inr (decimal_to_double (if neg then - d else d)
                                      (x - int (length fp))))))"

text \<open>\<^verbatim>\<open>int(s)\<close> for a string, base ten.\<close>

definition python_int :: "string \<Rightarrow> error + int" where
  "python_int s =
     (case drop_underscores (CHR 0x00) (strip s) of
        None \<Rightarrow> Inl ValueError
      | Some u \<Rightarrow>
          (case split_sign u of (neg, ds) \<Rightarrow>
             if ds \<noteq> [] \<and> list_all is_digit ds
             then Inr (if neg then - digits_value 0 ds else digits_value 0 ds)
             else Inl ValueError))"

text \<open>
  A timestamp, and the one shape of timestamp that Garmin and Strava write,
  \<^verbatim>\<open>YYYY-MM-DDTHH:MM:SSZ\<close>: a fragment of what \<^verbatim>\<open>dateutil\<close> accepts, standing in for it when a
  document is run.
\<close>

datatype datetime = Datetime int int int int int int

definition days_in_month :: "int \<Rightarrow> int \<Rightarrow> int" where
  "days_in_month y m =
     (if m = 2 then (if y mod 4 = 0 \<and> (y mod 100 \<noteq> 0 \<or> y mod 400 = 0) then 29 else 28)
      else if m = 4 \<or> m = 6 \<or> m = 9 \<or> m = 11 then 30 else 31)"

definition iso_utc :: "string \<Rightarrow> error + datetime" where
  "iso_utc s =
     (if length s = 20 \<and> list_all is_digit (take 4 s) \<and> s ! 4 = CHR ''-'' \<and>
         list_all is_digit (take 2 (drop 5 s)) \<and> s ! 7 = CHR ''-'' \<and>
         list_all is_digit (take 2 (drop 8 s)) \<and> s ! 10 = CHR ''T'' \<and>
         list_all is_digit (take 2 (drop 11 s)) \<and> s ! 13 = CHR '':'' \<and>
         list_all is_digit (take 2 (drop 14 s)) \<and> s ! 16 = CHR '':'' \<and>
         list_all is_digit (take 2 (drop 17 s)) \<and> s ! 19 = CHR ''Z''
      then
        let y = digits_value 0 (take 4 s);
            mo = digits_value 0 (take 2 (drop 5 s));
            d = digits_value 0 (take 2 (drop 8 s));
            h = digits_value 0 (take 2 (drop 11 s));
            mi = digits_value 0 (take 2 (drop 14 s));
            sec = digits_value 0 (take 2 (drop 17 s))
        in if 1000 \<le> y \<and> 1 \<le> mo \<and> mo \<le> 12 \<and> 1 \<le> d \<and> d \<le> days_in_month y mo \<and>
              h \<le> 23 \<and> mi \<le> 59 \<and> sec \<le> 59
           then Inr (Datetime y mo d h mi sec)
           else Inl ValueError
      else Inl ValueError)"

text \<open>
  The library with these parsers, over a file system given by what \<^verbatim>\<open>lxml.etree.parse\<close>,
  \<^verbatim>\<open>open\<close> and \<^verbatim>\<open>gpxpy.parse\<close> return.
\<close>

definition python_lib ::
  "(string \<Rightarrow> error + xml) \<Rightarrow> (string \<Rightarrow> error + 'f) \<Rightarrow> ('f \<Rightarrow> error + datetime gpx) \<Rightarrow>
   (datetime, 'f) pylib" where
  "python_lib tcx_files files gpx_of =
     \<lparr>dp_parse = iso_utc, float_str = python_float, int_str = python_int,
      etree_parse = tcx_files, open_file = files, gpxpy_parse = gpx_of\<rparr>"

section \<open>Files, and what \<^verbatim>\<open>gpxpy.parse\<close> does with their text\<close>

text \<open>
  The failures of \<^verbatim>\<open>get_dataframe_from_gpx\<close> come from \<^verbatim>\<open>open\<close> and from \<^verbatim>\<open>gpxpy.parse\<close>, which
  are not code of the repository.  This section models them as far as the failures depend on
  them: which files can be opened, whether the text of a file is well-formed XML, and how
  gpxpy builds the tracks and segments of its result from the elements of the document.
\<close>

text \<open>
  The text of a file as \<^verbatim>\<open>gpxpy.parse\<close> reads it from the open file: either it is not
  well-formed XML, or it is a document, given by its root element.  gpxpy removes the
  declaration of the default namespace from the text before it parses it, so the elements
  of the GPX schema of a GPX file have tags without a namespace.  (A file whose bytes are
  no text at all in the encoding of \<^verbatim>\<open>open\<close> makes the reading raise a \<^verbatim>\<open>UnicodeDecodeError\<close>;
  such files are left out.)
\<close>

datatype file_text = NotXML | Document xml

text \<open>
  \<^verbatim>\<open>open(fname)\<close> over a file system, which maps the paths that can be opened to the text of
  their files.  Any other path raises an \<^verbatim>\<open>OSError\<close> (a \<^verbatim>\<open>FileNotFoundError\<close>, a
  \<^verbatim>\<open>PermissionError\<close>, ...), the \<open>IOError\<close> of this model.  The open file is modelled by the
  text that reading it gives.
\<close>

definition py_open :: "(string \<Rightarrow> file_text option) \<Rightarrow> string \<Rightarrow> error + file_text" where
  "py_open fs fname = (case fs fname of None \<Rightarrow> Inl IOError | Some t \<Rightarrow> Inr t)"

text \<open>The tag of an element of the GPX schema, as gpxpy compares it.\<close>

definition gpx_tag :: "string \<Rightarrow> qname" where
  "gpx_tag name = ([], name)"

text \<open>
  What gpxpy reads from a document beyond the nesting of tracks, segments and points, as
  parameters: the other fields of the GPX object (version, creator, metadata, waypoints,
  routes) and of a track (name, number, ...), which gpxpy reads before the tracks of the
  document and before the segments of the track and which raise when a value cannot be
  converted, and the point that it makes of a \<^verbatim>\<open>trkpt\<close> element, which raises when the element
  lacks a coordinate or holds a value that cannot be converted.
\<close>

record 'dt gpx_reader =
  gpx_fields :: "xml \<Rightarrow> error + unit"
  track_fields :: "xml \<Rightarrow> error + unit"
  point_of :: "xml \<Rightarrow> error + 'dt gpx_point"

text \<open>A list built element by element by a function that may raise.\<close>

fun collect :: "('a \<Rightarrow> error + 'b) \<Rightarrow> 'a list \<Rightarrow> error + 'b list" where
  "collect f [] = Inr []"
| "collect f (x # xs) =
     (case f x of
        Inl e \<Rightarrow> Inl e
      | Inr y \<Rightarrow>
          (case collect f xs of
             Inl e \<Rightarrow> Inl e
           | Inr ys \<Rightarrow> Inr (y # ys)))"

text \<open>
  gpxpy fills a list field from the children of the node that have the field's tag, in
  document order: the points of a segment are its \<^verbatim>\<open>trkpt\<close> children, the segments of a track
  its \<^verbatim>\<open>trkseg\<close> children, and the tracks of the document the \<^verbatim>\<open>trk\<close> children of the root.  The
  tag of the root itself is not looked at.
\<close>

definition gpx_segment_from_xml :: "'dt gpx_reader \<Rightarrow> xml \<Rightarrow> error + 'dt gpx_segment" where
  "gpx_segment_from_xml R node =
     and_then (collect (point_of R) (findall node (gpx_tag ''trkpt''))) (\<lambda>ps.
       Inr \<lparr>points = ps\<rparr>)"

definition gpx_track_from_xml :: "'dt gpx_reader \<Rightarrow> xml \<Rightarrow> error + 'dt gpx_track" where
  "gpx_track_from_xml R node =
     and_then (track_fields R node) (\<lambda>u.
     and_then (collect (gpx_segment_from_xml R) (findall node (gpx_tag ''trkseg''))) (\<lambda>ss.
       Inr \<lparr>segments = ss\<rparr>))"

definition gpx_from_xml :: "'dt gpx_reader \<Rightarrow> xml \<Rightarrow> error + 'dt gpx" where
  "gpx_from_xml R root =
     and_then (gpx_fields R root) (\<lambda>u.
     and_then (collect (gpx_track_from_xml R) (findall root (gpx_tag ''trk''))) (\<lambda>ts.
       Inr \<lparr>tracks = ts\<rparr>))"

text \<open>
  \<^verbatim>\<open>gpxpy.parse(f)\<close>: text that is not well-formed XML raises gpxpy's
  \<^verbatim>\<open>GPXXMLSyntaxException\<close>, the \<open>ParseError\<close> of this model; a well-formed document is read as
  above, whatever its root element is.
\<close>

definition gpxpy_parse_text :: "'dt gpx_reader \<Rightarrow> file_text \<Rightarrow> error + 'dt gpx" where
  "gpxpy_parse_text R t =
     (case t of NotXML \<Rightarrow> Inl ParseError | Document root \<Rightarrow> gpx_from_xml R root)"

text \<open>A library whose \<^verbatim>\<open>open\<close> and \<^verbatim>\<open>gpxpy.parse\<close> are the two functions above.\<close>

definition file_lib ::
  "('dt, 'f) pylib \<Rightarrow> (string \<Rightarrow> file_text option) \<Rightarrow> 'dt gpx_reader \<Rightarrow>
   ('dt, file_text) pylib" where
  "file_lib L fs R =
     \<lparr>dp_parse = dp_parse L, float_str = float_str L, int_str = int_str L,
      etree_parse = etree_parse L, open_file = py_open fs, gpxpy_parse = gpxpy_parse_text R\<rparr>"

section \<open>Sample documents\<close>

text \<open>
  Elements of a small TCX file: a lap of one mile with two track points, the second without
  a position, and a second lap that has only its start time and one track point.
\<close>

definition tcx_el :: "string \<Rightarrow> string \<Rightarrow> string option \<Rightarrow> xml list \<Rightarrow> xml" where
  "tcx_el p name txt cs = Element (qn NAMESPACES p name) [] txt cs"

definition full_point :: xml where
  "full_point =
     tcx_el ''ns'' ''Trackpoint'' None
       [tcx_el ''ns'' ''Time'' (Some ''2021-05-01T10:00:05Z'') [],
        tcx_el ''ns'' ''Position'' None
          [tcx_el ''ns'' ''LatitudeDegrees'' (Some ''53.3498'') [],
           tcx_el ''ns'' ''LongitudeDegrees'' (Some ''-6.2603'') []],
        tcx_el ''ns'' ''AltitudeMeters'' (Some ''12.5'') [],
        tcx_el ''ns'' ''HeartRateBpm'' None [tcx_el ''ns'' ''Value'' (Some ''142'') []],
        tcx_el ''ns'' ''Cadence'' (Some ''85'') [],
        tcx_el ''ns'' ''Extensions'' None
          [tcx_el ''ns3'' ''TPX'' None [tcx_el ''ns3'' ''Speed'' (Some ''3.25'') []]]]"

definition plain_point :: xml where
  "plain_point =
     tcx_el ''ns'' ''Trackpoint'' None
       [tcx_el ''ns'' ''Time'' (Some ''2021-05-01T10:01:10Z'') [],
        tcx_el ''ns'' ''Position'' None
          [tcx_el ''ns'' ''LatitudeDegrees'' (Some ''53.35'') [],
           tcx_el ''ns'' ''LongitudeDegrees'' (Some ''-6.26'') []]]"

definition bare_point :: xml where
  "bare_point =
     tcx_el ''ns'' ''Trackpoint'' None
       [tcx_el ''ns'' ''Time'' (Some ''2021-05-01T10:00:06Z'') [],
        tcx_el ''ns'' ''HeartRateBpm'' None [tcx_el ''ns'' ''Value'' (Some ''143'') []]]"

text \<open>A track point with a position and no \<^verbatim>\<open>Time\<close>.\<close>

definition timeless_point :: xml where
  "timeless_point =
     tcx_el ''ns'' ''Trackpoint'' None
       [tcx_el ''ns'' ''Position'' None
          [tcx_el ''ns'' ''LatitudeDegrees'' (Some ''53.3498'') [],
           tcx_el ''ns'' ''LongitudeDegrees'' (Some ''-6.2603'') []]]"

text \<open>A track point whose \<^verbatim>\<open>HeartRateBpm\<close> has no \<^verbatim>\<open>Value\<close> child.\<close>

definition valueless_hr_point :: xml where
  "valueless_hr_point =
     tcx_el ''ns'' ''Trackpoint'' None
       [tcx_el ''ns'' ''Time'' (Some ''2021-05-01T10:00:05Z'') [],
        tcx_el ''ns'' ''Position'' None
          [tcx_el ''ns'' ''LatitudeDegrees'' (Some ''53.3498'') [],
           tcx_el ''ns'' ''LongitudeDegrees'' (Some ''-6.2603'') []],
        tcx_el ''ns'' ''HeartRateBpm'' None []]"

definition mile_lap :: xml where
  "mile_lap =
     Element (qn NAMESPACES ''ns'' ''Lap'') [(''StartTime'', ''2021-05-01T10:00:00Z'')] None
       [tcx_el ''ns'' ''TotalTimeSeconds'' (Some ''65.0'') [],
        tcx_el ''ns'' ''DistanceMeters'' (Some ''1609.34'') [],
        tcx_el ''ns'' ''MaximumSpeed'' (Some ''4.5'') [],
        tcx_el ''ns'' ''AverageHeartRateBpm'' None [tcx_el ''ns'' ''Value'' (Some ''140'') []],
        tcx_el ''ns'' ''MaximumHeartRateBpm'' None [tcx_el ''ns'' ''Value'' (Some ''155'') []],
        tcx_el ''ns'' ''Track'' None [full_point, bare_point]]"

definition plain_lap :: xml where
  "plain_lap =
     Element (qn NAMESPACES ''ns'' ''Lap'') [(''StartTime'', ''2021-05-01T10:01:05Z'')] None
       [tcx_el ''ns'' ''Track'' None [plain_point]]"

text \<open>A lap whose two heart-rate elements have no \<^verbatim>\<open>Value\<close> child.\<close>

definition valueless_hr_lap :: xml where
  "valueless_hr_lap =
     Element (qn NAMESPACES ''ns'' ''Lap'') [(''StartTime'', ''2021-05-01T10:00:00Z'')] None
       [tcx_el ''ns'' ''AverageHeartRateBpm'' None [],
        tcx_el ''ns'' ''MaximumHeartRateBpm'' None [],
        tcx_el ''ns'' ''Track'' None [full_point]]"

text \<open>A lap without a \<^verbatim>\<open>Track\<close>.\<close>

definition trackless_lap :: xml where
  "trackless_lap =
     Element (qn NAMESPACES ''ns'' ''Lap'') [(''StartTime'', ''2021-05-01T10:02:00Z'')] None
       [tcx_el ''ns'' ''DistanceMeters'' (Some ''0.0'') []]"

definition tcx_activity :: "xml list \<Rightarrow> xml" where
  "tcx_activity laps =
     Element (qn NAMESPACES ''ns'' ''Activity'') [(''Sport'', ''Running'')] None
       (tcx_el ''ns'' ''Id'' (Some ''2021-05-01T10:00:00Z'') [] # laps)"

definition tcx_root :: "xml list \<Rightarrow> xml" where
  "tcx_root laps =
     tcx_el ''ns'' ''TrainingCenterDatabase'' None
       [tcx_el ''ns'' ''Activities'' None [tcx_activity laps]]"

text \<open>
  Points of a small GPX file: one with heart rate and cadence in its extension block, one
  whose block has neither, and one whose \<^verbatim>\<open>cad\<close> element is empty.
\<close>

definition gpx_el :: "string \<Rightarrow> string option \<Rightarrow> xml list \<Rightarrow> xml" where
  "gpx_el name txt cs = Element (qn GPX_NAMESPACES ''garmin_tpe'' name) [] txt cs"

definition gpx_full_point :: "datetime gpx_point" where
  "gpx_full_point =
     \<lparr>latitude = VFloat (Fin 3754158428129539 (- 46)),
      longitude = VFloat (Fin (- 7048471186806879) (- 50)),
      elevation = VFloat (Fin 25 (- 1)),
      time = VDatetime (Datetime 2021 5 1 10 0 5),
      extensions =
        [gpx_el ''TrackPointExtension'' None
           [gpx_el ''hr'' (Some ''142'') [], gpx_el ''cad'' (Some ''85'') []]]\<rparr>"

definition gpx_plain_point :: "datetime gpx_point" where
  "gpx_plain_point =
     \<lparr>latitude = VFloat (Fin 3754158428129539 (- 46)),
      longitude = VFloat (Fin (- 7048471186806879) (- 50)),
      elevation = VNone,
      time = VDatetime (Datetime 2021 5 1 10 0 6),
      extensions = [gpx_el ''TrackPointExtension'' None []]\<rparr>"

definition gpx_empty_cad_point :: "datetime gpx_point" where
  "gpx_empty_cad_point =
     \<lparr>latitude = VFloat (Fin 3754158428129539 (- 46)),
      longitude = VFloat (Fin (- 7048471186806879) (- 50)),
      elevation = VFloat (Fin 25 (- 1)),
      time = VDatetime (Datetime 2021 5 1 10 0 7),
      extensions = [gpx_el ''TrackPointExtension'' None [gpx_el ''cad'' None []]]\<rparr>"

text \<open>
  A file system with one TCX file and three GPX files (an open GPX file is its text, here
  just its name): a good one, one without tracks and one whose track has no segment.
\<close>

definition sample_lib :: "(datetime, string) pylib" where
  "sample_lib =
     python_lib
       (\<lambda>fname. if fname = ''run.tcx'' then Inr (tcx_root [mile_lap, plain_lap])
                else if fname = ''stop.tcx'' then Inr (tcx_root [plain_lap, trackless_lap])
                else Inl IOError)
       (\<lambda>fname. if fname \<in> set [''run.gpx'', ''empty.gpx'', ''segmentless.gpx'', ''broken.gpx'']
                then Inr fname else Inl IOError)
       (\<lambda>f. if f = ''run.gpx''
              then Inr \<lparr>tracks = [\<lparr>segments = [\<lparr>points = [gpx_full_point, gpx_plain_point]\<rparr>]\<rparr>]\<rparr>
            else if f = ''empty.gpx'' then Inr \<lparr>tracks = []\<rparr>
            else if f = ''segmentless.gpx'' then Inr \<lparr>tracks = [\<lparr>segments = []\<rparr>]\<rparr>
            else Inl ParseError)"

text \<open>What the extractors and assemblers return on the sample documents.\<close>

definition full_point_record :: "datetime pydict" where
  "full_point_record =
     [(''latitude'', VFloat (Fin 3754158428129539 (- 46))),
      (''longitude'', VFloat (Fin (- 7048471186806879) (- 50))),
      (''time'', VDatetime (Datetime 2021 5 1 10 0 5)),
      (''elevation'', VFloat (Fin 25 (- 1))),
      (''heart_rate'', VInt 142),
      (''cadence'', VInt 85),
      (''speed'', VFloat (Fin 13 (- 2)))]"

definition plain_point_record :: "datetime pydict" where
  "plain_point_record =
     [(''latitude'', VFloat (Fin 7508345003756749 (- 47))),
      (''longitude'', VFloat (Fin (- 3524066708417413) (- 49))),
      (''time'', VDatetime (Datetime 2021 5 1 10 1 10))]"

definition mile_lap_record :: "datetime pydict" where
  "mile_lap_record =
     [(''start_time'', VDatetime (Datetime 2021 5 1 10 0 0)),
      (''distance'', VFloat (Fin 7077952172180111 (- 42))),
      (''total_time'', VTimedelta 65000000),
      (''max_speed'', VFloat (Fin 9 (- 1))),
      (''max_hr'', VFloat (Fin 155 0)),
      (''avg_hr'', VFloat (Fin 35 2))]"

definition run_laps_table :: "datetime dataframe" where
  "run_laps_table =
     \<lparr>index_name = Some ''number'',
      index = [Some (VInt 1), Some (VInt 2)],
      columns = [''start_time'', ''distance'', ''total_time'', ''max_speed'', ''max_hr'',
                 ''avg_hr''],
      rows =
        [[Some (VDatetime (Datetime 2021 5 1 10 0 0)),
          Some (VFloat (Fin 7077952172180111 (- 42))),
          Some (VTimedelta 65000000),
          Some (VFloat (Fin 9 (- 1))),
          Some (VFloat (Fin 155 0)),
          Some (VFloat (Fin 35 2))],
         [Some (VDatetime (Datetime 2021 5 1 10 1 5)), None, None, None, None, None]]\<rparr>"

definition run_points_table :: "datetime dataframe" where
  "run_points_table =
     \<lparr>index_name = None,
      index = [Some (VInt 0), Some (VInt 1)],
      columns = [''latitude'', ''longitude'', ''elevation'', ''time'', ''heart_rate'',
                 ''cadence'', ''speed'', ''lap''],
      rows =
        [[Some (VFloat (Fin 3754158428129539 (- 46))),
          Some (VFloat (Fin (- 7048471186806879) (- 50))),
          Some (VFloat (Fin 25 (- 1))),
          Some (VDatetime (Datetime 2021 5 1 10 0 5)),
          Some (VInt 142),
          Some (VInt 85),
          Some (VFloat (Fin 13 (- 2))),
          Some (VInt 1)],
         [Some (VFloat (Fin 7508345003756749 (- 47))),
          Some (VFloat (Fin (- 3524066708417413) (- 49))),
          None,
          Some (VDatetime (Datetime 2021 5 1 10 1 10)),
          None, None, None,
          Some (VInt 2)]]\<rparr>"

definition run_gpx_table :: "datetime dataframe" where
  "run_gpx_table =
     \<lparr>index_name = None,
      index = [Some (VInt 0), Some (VInt 1)],
      columns = [''latitude'', ''longitude'', ''elevation'', ''time'', ''heart_rate'',
                 ''cadence''],
      rows =
        [[Some (VFloat (Fin 3754158428129539 (- 46))),
          Some (VFloat (Fin (- 7048471186806879) (- 50))),
          Some (VFloat (Fin 25 (- 1))),
          Some (VDatetime (Datetime 2021 5 1 10 0 5)),
          Some (VInt 142),
          Some (VInt 85)],
         [Some (VFloat (Fin 3754158428129539 (- 46))),
          Some (VFloat (Fin (- 7048471186806879) (- 50))),
          None,
          Some (VDatetime (Datetime 2021 5 1 10 0 6)),
          None, None]]\<rparr>"

text \<open>
  A file system for the failures of format 1.  \<^verbatim>\<open>page.gpx\<close> holds the text
  \<^verbatim>\<open><html><body/></html>\<close>, which is well-formed XML but no GPX document; \<^verbatim>\<open>torn.gpx\<close> holds
  text that is not well-formed; \<^verbatim>\<open>no_tracks.gpx\<close> holds \<^verbatim>\<open><gpx><metadata/></gpx>\<close> and
  \<^verbatim>\<open>no_segments.gpx\<close> holds \<^verbatim>\<open><gpx><trk><name>run</name></trk></gpx>\<close>; there is no other file.
  The reader accepts the other fields of every document and of every track; the sample
  documents have no track point, and it makes a point of no element.
\<close>

definition html_page :: xml where
  "html_page = Element ([], ''html'') [] None [Element ([], ''body'') [] None []]"

definition no_tracks_document :: xml where
  "no_tracks_document = Element ([], ''gpx'') [] None [Element ([], ''metadata'') [] None []]"

definition nameless_track :: xml where
  "nameless_track = Element ([], ''trk'') [] None [Element ([], ''name'') [] (Some ''run'') []]"

definition no_segments_document :: xml where
  "no_segments_document = Element ([], ''gpx'') [] None [nameless_track]"

definition sample_files :: "string \<Rightarrow> file_text option" where
  "sample_files fname =
     (if fname = ''page.gpx'' then Some (Document html_page)
      else if fname = ''torn.gpx'' then Some NotXML
      else if fname = ''no_tracks.gpx'' then Some (Document no_tracks_document)
      else if fname = ''no_segments.gpx'' then Some (Document no_segments_document)
      else None)"

definition sample_reader :: "datetime gpx_reader" where
  "sample_reader =
     \<lparr>gpx_fields = (\<lambda>root. Inr ()), track_fields = (\<lambda>node. Inr ()),
      point_of = (\<lambda>node. Inl ValueError)\<rparr>"

section \<open>Properties of dicts and results\<close>

text \<open>The keys of a dict.\<close>

definition keys :: "'dt pydict \<Rightarrow> string set" where
  "keys d = fst ` set d"

text \<open>A statement that leaves a dict alone or sets the one key \<open>k\<close>.\<close>

definition sets_only :: "string \<Rightarrow> 'dt pydict \<Rightarrow> 'dt pydict \<Rightarrow> bool" where
  "sets_only k data data' \<longleftrightarrow> data' = data \<or> (\<exists>v. data' = AList.update k v data)"

text \<open>A call that returned.\<close>

definition ok :: "error + 'a \<Rightarrow> bool" where
  "ok r = (case r of Inl e \<Rightarrow> False | Inr x \<Rightarrow> True)"

text \<open>A track point that has a \<^verbatim>\<open>Position\<close> child.\<close>

definition has_position :: "xml \<Rightarrow> bool" where
  "has_position point \<longleftrightarrow> find_child point (qn NAMESPACES ''ns'' ''Position'') \<noteq> None"

text \<open>
  A track point that can be read: when it has a position, the position has both coordinates
  and \<^verbatim>\<open>float\<close> accepts their text, there is a \<^verbatim>\<open>Time\<close> whose text the timestamp parser
  accepts, and each optional element that is present holds text its converter accepts (for
  the heart rate, in a \<^verbatim>\<open>Value\<close> child).
\<close>

definition tcx_point_readable :: "('dt, 'f) pylib \<Rightarrow> xml \<Rightarrow> bool" where
  "tcx_point_readable L point =
     (case find_child point (qn NAMESPACES ''ns'' ''Position'') of
        None \<Rightarrow> True
      | Some position \<Rightarrow>
          ok (and_then (dot_text (find_child position (qn NAMESPACES ''ns'' ''LatitudeDegrees'')))
                (py_float L)) \<and>
          ok (and_then (dot_text (find_child position (qn NAMESPACES ''ns'' ''LongitudeDegrees'')))
                (py_float L)) \<and>
          ok (and_then (dot_text (find_child point (qn NAMESPACES ''ns'' ''Time'')))
                (dp_parse_text L)) \<and>
          (case find_child point (qn NAMESPACES ''ns'' ''AltitudeMeters'') of
             None \<Rightarrow> True
           | Some e \<Rightarrow> ok (py_float L (text_of e))) \<and>
          (case find_child point (qn NAMESPACES ''ns'' ''HeartRateBpm'') of
             None \<Rightarrow> True
           | Some h \<Rightarrow>
               ok (and_then (dot_text (find_child h (qn NAMESPACES ''ns'' ''Value''))) (py_int L))) \<and>
          (case find_child point (qn NAMESPACES ''ns'' ''Cadence'') of
             None \<Rightarrow> True
           | Some e \<Rightarrow> ok (py_int L (text_of e))) \<and>
          (case find_descendant point (qn NAMESPACES ''ns3'' ''Speed'') of
             None \<Rightarrow> True
           | Some e \<Rightarrow> ok (py_float L (text_of e))))"

text \<open>The dicts that \<^verbatim>\<open>get_tcx_point_data\<close> returns on a list of points, in order.\<close>

definition records_of :: "('dt, 'f) pylib \<Rightarrow> xml list \<Rightarrow> 'dt pydict list" where
  "records_of L ps =
     List.map_filter
       (\<lambda>p. case get_tcx_point_data L p of Inr (Some d) \<Rightarrow> Some d | _ \<Rightarrow> None) ps"

text \<open>
  The track points that \<^verbatim>\<open>get_dataframes\<close> hands to the point extractor: for each lap, the
  \<^verbatim>\<open>Trackpoint\<close> children of its first \<^verbatim>\<open>Track\<close>.
\<close>

definition lap_points :: "xml \<Rightarrow> xml list" where
  "lap_points lap =
     (case find_child lap (qn NAMESPACES ''ns'' ''Track'') of
        None \<Rightarrow> []
      | Some track \<Rightarrow> findall track (qn NAMESPACES ''ns'' ''Trackpoint''))"

definition input_points :: "xml list \<Rightarrow> xml list" where
  "input_points laps = concat (map lap_points laps)"

text \<open>
  The point records that \<^verbatim>\<open>get_dataframes\<close> collects over a list of laps, the first of which
  is given the number \<open>n\<close>: lap after lap, the dicts that the point extractor returns on the
  lap's points, each with the lap's number under \<^verbatim>\<open>lap\<close>.
\<close>

fun tcx_point_records :: "('dt, 'f) pylib \<Rightarrow> int \<Rightarrow> xml list \<Rightarrow> 'dt pydict list" where
  "tcx_point_records L n [] = []"
| "tcx_point_records L n (lap # laps) =
     map (AList.update ''lap'' (VInt n)) (records_of L (lap_points lap)) @
     tcx_point_records L (n + 1) laps"

text \<open>A dict none of whose values is \<^verbatim>\<open>None\<close>.\<close>

definition holds_no_None :: "'dt pydict \<Rightarrow> bool" where
  "holds_no_None d \<longleftrightarrow> VNone \<notin> snd ` set d"

text \<open>
  The first extension block of a GPX point can be read: each of the two tags is absent or
  holds text that \<^verbatim>\<open>int\<close> accepts.
\<close>

definition gpx_tag_readable :: "('dt, 'f) pylib \<Rightarrow> xml \<Rightarrow> string \<Rightarrow> bool" where
  "gpx_tag_readable L elem name =
     (case find_child elem (qn GPX_NAMESPACES ''garmin_tpe'' name) of
        None \<Rightarrow> True
      | Some e \<Rightarrow> ok (py_int L (text_of e)))"

section \<open>Basic facts\<close>

lemma and_then_simps [simp]:
  "and_then (Inl e) f = Inl e"
  "and_then (Inr x) f = f x"
  by (simp_all add: and_then_def)

lemma and_then_eq_Inr:
  "and_then m f = Inr y \<longleftrightarrow> (\<exists>x. m = Inr x \<and> f x = Inr y)"
  by (cases m) simp_all

lemma ok_simps [simp]: "ok (Inr x)" "\<not> ok (Inl e)"
  by (simp_all add: ok_def)

lemma ok_iff: "ok r \<longleftrightarrow> (\<exists>x. r = Inr x)"
  by (cases r) simp_all

lemma not_ok_iff: "\<not> ok r \<longleftrightarrow> (\<exists>e. r = Inl e)"
  by (cases r) simp_all

lemma ok_and_then: "ok (and_then m f) \<longleftrightarrow> (\<exists>x. m = Inr x \<and> ok (f x))"
  by (cases m) simp_all

lemma keys_update [simp]: "keys (AList.update k v d) = insert k (keys d)"
  by (simp add: keys_def dom_update)

lemma keys_Nil [simp]: "keys [] = {}"
  by (simp add: keys_def)

lemma keys_Cons [simp]: "keys (p # d) = insert (fst p) (keys d)"
  by (simp add: keys_def)

lemma map_of_None_keys: "map_of d k = None \<longleftrightarrow> k \<notin> keys d"
  by (simp add: keys_def map_of_eq_None_iff)

lemma cell_absent: "c \<notin> keys d \<Longrightarrow> cell d c = None"
  by (simp add: cell_def map_of_None_keys [symmetric])

lemma cell_update_other: "c \<noteq> k \<Longrightarrow> cell (AList.update k v d) c = cell d c"
  by (simp add: cell_def update_conv')

lemma cell_update_same:
  "cell (AList.update k v d) k = (if v = VNone then None else Some v)"
  by (simp add: cell_def update_conv')

lemma row_null_cells:
  "r = map (cell d) cols \<Longrightarrow> \<forall>j < length cols. cols ! j \<notin> keys d \<longrightarrow> r ! j = None"
  by (simp add: cell_absent)

lemma holds_no_None_Nil [simp]: "holds_no_None []"
  by (simp add: holds_no_None_def)

lemma holds_no_None_update [simp]:
  "v \<noteq> VNone \<Longrightarrow> holds_no_None d \<Longrightarrow> holds_no_None (AList.update k v d)"
  unfolding holds_no_None_def by (induction d) auto

lemma cell_map_of: "holds_no_None d \<Longrightarrow> cell d c = map_of d c"
proof (cases "map_of d c")
  case None
  then show ?thesis
    by (simp add: cell_def)
next
  case (Some v)
  assume "holds_no_None d"
  moreover from Some have "(c, v) \<in> set d"
    by (rule map_of_SomeD)
  ultimately have "v \<noteq> VNone"
    by (force simp: holds_no_None_def)
  with Some show ?thesis
    by (simp add: cell_def)
qed

lemma sets_only_keys_upper: "sets_only k data data' \<Longrightarrow> keys data' \<subseteq> insert k (keys data)"
  by (auto simp: sets_only_def)

lemma sets_only_keys_lower: "sets_only k data data' \<Longrightarrow> keys data \<subseteq> keys data'"
  by (auto simp: sets_only_def)

lemma sets_only_map_of:
  "sets_only k data data' \<Longrightarrow> k' \<noteq> k \<Longrightarrow> map_of data' k' = map_of data k'"
  by (auto simp: sets_only_def update_conv')

lemma sets_only_notin:
  "sets_only k data data' \<Longrightarrow> k' \<noteq> k \<Longrightarrow> k' \<notin> keys data \<Longrightarrow> k' \<notin> keys data'"
  by (auto simp: sets_only_def)

lemma sets_only_refl [simp]: "sets_only k data data"
  by (simp add: sets_only_def)

lemma sets_only_update [simp]: "sets_only k data (AList.update k v data)"
  by (auto simp: sets_only_def)

section \<open>The statements of \<^verbatim>\<open>get_tcx_point_data\<close>\<close>

lemma point_position_effect:
  "point_position L position data = Inr data' \<Longrightarrow>
   \<exists>lat lon. data' = AList.update ''longitude'' (VFloat lon)
                       (AList.update ''latitude'' (VFloat lat) data)"
  unfolding point_position_def by (auto simp: and_then_eq_Inr)

lemma point_time_effect:
  "point_time L point data = Inr data' \<Longrightarrow>
   \<exists>t. data' = AList.update ''time'' (VDatetime t) data"
  unfolding point_time_def by (auto simp: and_then_eq_Inr)

lemma point_elevation_effect:
  "point_elevation L point data = Inr data' \<Longrightarrow> sets_only ''elevation'' data data'"
  unfolding point_elevation_def by (auto simp: and_then_eq_Inr split: option.splits)

lemma point_heart_rate_effect:
  "point_heart_rate L point data = Inr data' \<Longrightarrow> sets_only ''heart_rate'' data data'"
  unfolding point_heart_rate_def by (auto simp: and_then_eq_Inr split: option.splits)

lemma point_cadence_effect:
  "point_cadence L point data = Inr data' \<Longrightarrow> sets_only ''cadence'' data data'"
  unfolding point_cadence_def by (auto simp: and_then_eq_Inr split: option.splits)

lemma point_speed_effect:
  "point_speed L point data = Inr data' \<Longrightarrow> sets_only ''speed'' data data'"
  unfolding point_speed_def by (auto simp: and_then_eq_Inr split: option.splits)

text \<open>Whether a statement raises does not depend on the dict it is given.\<close>

lemma point_position_ok:
  "ok (point_position L position data) \<longleftrightarrow>
   ok (and_then (dot_text (find_child position (qn NAMESPACES ''ns'' ''LatitudeDegrees'')))
         (py_float L)) \<and>
   ok (and_then (dot_text (find_child position (qn NAMESPACES ''ns'' ''LongitudeDegrees'')))
         (py_float L))"
  unfolding point_position_def by (auto simp: ok_iff and_then_eq_Inr)

lemma point_time_ok:
  "ok (point_time L point data) \<longleftrightarrow>
   ok (and_then (dot_text (find_child point (qn NAMESPACES ''ns'' ''Time''))) (dp_parse_text L))"
  unfolding point_time_def by (auto simp: ok_iff and_then_eq_Inr)

lemma point_elevation_ok:
  "ok (point_elevation L point data) \<longleftrightarrow>
   (case find_child point (qn NAMESPACES ''ns'' ''AltitudeMeters'') of
      None \<Rightarrow> True
    | Some e \<Rightarrow> ok (py_float L (text_of e)))"
  unfolding point_elevation_def by (auto simp: ok_iff and_then_eq_Inr split: option.splits)

lemma point_heart_rate_ok:
  "ok (point_heart_rate L point data) \<longleftrightarrow>
   (case find_child point (qn NAMESPACES ''ns'' ''HeartRateBpm'') of
      None \<Rightarrow> True
    | Some h \<Rightarrow>
        ok (and_then (dot_text (find_child h (qn NAMESPACES ''ns'' ''Value''))) (py_int L)))"
  unfolding point_heart_rate_def by (auto simp: ok_iff and_then_eq_Inr split: option.splits)

lemma point_cadence_ok:
  "ok (point_cadence L point data) \<longleftrightarrow>
   (case find_child point (qn NAMESPACES ''ns'' ''Cadence'') of
      None \<Rightarrow> True
    | Some e \<Rightarrow> ok (py_int L (text_of e)))"
  unfolding point_cadence_def by (auto simp: ok_iff and_then_eq_Inr split: option.splits)

lemma point_speed_ok:
  "ok (point_speed L point data) \<longleftrightarrow>
   (case find_descendant point (qn NAMESPACES ''ns3'' ''Speed'') of
      None \<Rightarrow> True
    | Some e \<Rightarrow> ok (py_float L (text_of e)))"
  unfolding point_speed_def by (auto simp: ok_iff and_then_eq_Inr split: option.splits)

text \<open>The run of \<^verbatim>\<open>get_tcx_point_data\<close> on a point with a position, laid out.\<close>

lemma get_tcx_point_data_Some:
  assumes "get_tcx_point_data L point = Inr (Some d)"
  obtains position d1 d2 d3 d4 d5 where
    "find_child point (qn NAMESPACES ''ns'' ''Position'') = Some position"
    "point_position L position [] = Inr d1"
    "point_time L point d1 = Inr d2"
    "point_elevation L point d2 = Inr d3"
    "point_heart_rate L point d3 = Inr d4"
    "point_cadence L point d4 = Inr d5"
    "point_speed L point d5 = Inr d"
  using assms unfolding get_tcx_point_data_def
  by (auto simp: and_then_eq_Inr split: option.splits)

lemma get_tcx_point_data_None_iff:
  "get_tcx_point_data L point = Inr None \<longleftrightarrow> \<not> has_position point"
  unfolding get_tcx_point_data_def has_position_def
  by (auto simp: and_then_eq_Inr split: option.splits)

lemma get_tcx_point_data_ok_iff:
  "ok (get_tcx_point_data L point) \<longleftrightarrow> tcx_point_readable L point"
proof (cases "find_child point (qn NAMESPACES ''ns'' ''Position'')")
  case None
  then show ?thesis
    by (simp add: get_tcx_point_data_def tcx_point_readable_def)
next
  case (Some position)
  have "ok (get_tcx_point_data L point) \<longleftrightarrow>
        (\<exists>d1 d2 d3 d4 d5 d6.
           point_position L position [] = Inr d1 \<and> point_time L point d1 = Inr d2 \<and>
           point_elevation L point d2 = Inr d3 \<and> point_heart_rate L point d3 = Inr d4 \<and>
           point_cadence L point d4 = Inr d5 \<and> point_speed L point d5 = Inr d6)"
    unfolding get_tcx_point_data_def Some by (auto simp: ok_iff and_then_eq_Inr)
  also have "\<dots> \<longleftrightarrow>
        ok (point_position L position []) \<and> ok (point_time L point []) \<and>
        ok (point_elevation L point []) \<and> ok (point_heart_rate L point []) \<and>
        ok (point_cadence L point []) \<and> ok (point_speed L point [])"
    (is "?lhs \<longleftrightarrow> ?rhs")
  proof
    assume ?lhs
    then obtain d1 d2 d3 d4 d5 d6 where eqs:
      "point_position L position [] = Inr d1" "point_time L point d1 = Inr d2"
      "point_elevation L point d2 = Inr d3" "point_heart_rate L point d3 = Inr d4"
      "point_cadence L point d4 = Inr d5" "point_speed L point d5 = Inr d6"
      by blast
    have "ok (point_position L position [])" "ok (point_time L point d1)"
      "ok (point_elevation L point d2)" "ok (point_heart_rate L point d3)"
      "ok (point_cadence L point d4)" "ok (point_speed L point d5)"
      by (simp_all add: eqs)
    then show ?rhs
      unfolding point_time_ok point_elevation_ok point_heart_rate_ok point_cadence_ok
        point_speed_ok by simp
  next
    assume r: ?rhs
    from r obtain d1 where 1: "point_position L position [] = Inr d1"
      by (auto simp: ok_iff)
    from r have "ok (point_time L point d1)" unfolding point_time_ok by simp
    then obtain d2 where 2: "point_time L point d1 = Inr d2" by (auto simp: ok_iff)
    from r have "ok (point_elevation L point d2)" unfolding point_elevation_ok by simp
    then obtain d3 where 3: "point_elevation L point d2 = Inr d3" by (auto simp: ok_iff)
    from r have "ok (point_heart_rate L point d3)" unfolding point_heart_rate_ok by simp
    then obtain d4 where 4: "point_heart_rate L point d3 = Inr d4" by (auto simp: ok_iff)
    from r have "ok (point_cadence L point d4)" unfolding point_cadence_ok by simp
    then obtain d5 where 5: "point_cadence L point d4 = Inr d5" by (auto simp: ok_iff)
    from r have "ok (point_speed L point d5)" unfolding point_speed_ok by simp
    then obtain d6 where 6: "point_speed L point d5 = Inr d6" by (auto simp: ok_iff)
    from 1 2 3 4 5 6 show ?lhs by blast
  qed
  also have "\<dots> \<longleftrightarrow> tcx_point_readable L point"
    unfolding tcx_point_readable_def Some point_position_ok point_time_ok point_elevation_ok
      point_heart_rate_ok point_cadence_ok point_speed_ok
    by simp
  finally show ?thesis .
qed

lemma get_tcx_point_data_keys:
  assumes "get_tcx_point_data L point = Inr (Some d)"
  shows "{''latitude'', ''longitude'', ''time''} \<subseteq> keys d"
    and "keys d \<subseteq> {''latitude'', ''longitude'', ''time'', ''elevation'', ''heart_rate'',
                     ''cadence'', ''speed''}"
proof -
  from assms obtain position d1 d2 d3 d4 d5 where
    p: "point_position L position [] = Inr d1" and
    t: "point_time L point d1 = Inr d2" and
    e: "point_elevation L point d2 = Inr d3" and
    h: "point_heart_rate L point d3 = Inr d4" and
    c: "point_cadence L point d4 = Inr d5" and
    s: "point_speed L point d5 = Inr d"
    by (rule get_tcx_point_data_Some)
  have k2: "keys d2 = {''latitude'', ''longitude'', ''time''}"
    using point_position_effect [OF p] point_time_effect [OF t] by auto
  have lo: "keys d2 \<subseteq> keys d"
    using sets_only_keys_lower [OF point_elevation_effect [OF e]]
      sets_only_keys_lower [OF point_heart_rate_effect [OF h]]
      sets_only_keys_lower [OF point_cadence_effect [OF c]]
      sets_only_keys_lower [OF point_speed_effect [OF s]]
    by (meson order.trans)
  have up: "keys d \<subseteq> insert ''speed'' (insert ''cadence'' (insert ''heart_rate''
              (insert ''elevation'' (keys d2))))"
    using sets_only_keys_upper [OF point_elevation_effect [OF e]]
      sets_only_keys_upper [OF point_heart_rate_effect [OF h]]
      sets_only_keys_upper [OF point_cadence_effect [OF c]]
      sets_only_keys_upper [OF point_speed_effect [OF s]]
    by (meson insert_mono order.trans)
  show "{''latitude'', ''longitude'', ''time''} \<subseteq> keys d"
    using lo unfolding k2 .
  have "insert ''speed'' (insert ''cadence'' (insert ''heart_rate''
              (insert ''elevation'' {''latitude'', ''longitude'', ''time''})))
        = {''latitude'', ''longitude'', ''time'', ''elevation'', ''heart_rate'',
                     ''cadence'', ''speed''}"
    by auto
  then show "keys d \<subseteq> {''latitude'', ''longitude'', ''time'', ''elevation'', ''heart_rate'',
                     ''cadence'', ''speed''}"
    using up unfolding k2 by simp
qed

lemma get_tcx_point_data_nonempty:
  "get_tcx_point_data L point = Inr (Some d) \<Longrightarrow> d \<noteq> []"
  using get_tcx_point_data_keys(1) [of L point d] by auto

lemma get_tcx_point_data_truthy:
  "get_tcx_point_data L point = Inr r \<Longrightarrow> truthy r \<longleftrightarrow> r \<noteq> None"
  by (cases r) (auto simp: truthy_def dest: get_tcx_point_data_nonempty)

section \<open>The inner loop\<close>

lemma length_filter_full: "length (filter P xs) = length xs \<longleftrightarrow> (\<forall>x \<in> set xs. P x)"
proof (induction xs)
  case Nil
  then show ?case by simp
next
  case (Cons x xs)
  show ?case
  proof (cases "P x")
    case True
    with Cons show ?thesis by simp
  next
    case False
    have "length (filter P xs) \<le> length xs"
      by (rule length_filter_le)
    then have "length (filter P xs) \<noteq> Suc (length xs)"
      by arith
    with False show ?thesis by simp
  qed
qed

lemma records_of_simps [simp]:
  "records_of L [] = []"
  "get_tcx_point_data L p = Inr (Some d) \<Longrightarrow> records_of L (p # ps) = d # records_of L ps"
  "get_tcx_point_data L p = Inr None \<Longrightarrow> records_of L (p # ps) = records_of L ps"
  by (simp_all add: records_of_def)

lemma points_loop_result:
  "points_loop L lap_no ps acc = Inr out \<Longrightarrow>
   out = acc @ map (AList.update ''lap'' (VInt lap_no)) (records_of L ps) \<and>
   length (records_of L ps) = length (filter has_position ps) \<and>
   (\<forall>p \<in> set ps. ok (get_tcx_point_data L p))"
proof (induction ps arbitrary: acc)
  case Nil
  then show ?case by simp
next
  case (Cons p ps)
  from Cons.prems obtain r where r: "get_tcx_point_data L p = Inr r"
    by (auto split: sum.splits)
  show ?case
  proof (cases r)
    case None
    with r have np: "\<not> has_position p"
      by (simp add: get_tcx_point_data_None_iff)
    from Cons.prems r None have "points_loop L lap_no ps acc = Inr out"
      by (simp add: truthy_def)
    from Cons.IH [OF this] r None np show ?thesis by simp
  next
    case (Some d)
    with r have hp: "has_position p"
      using get_tcx_point_data_None_iff [of L p] by auto
    from r Some have "truthy r"
      using get_tcx_point_data_truthy by blast
    with Cons.prems r Some
    have "points_loop L lap_no ps (acc @ [AList.update ''lap'' (VInt lap_no) d]) = Inr out"
      by simp
    from Cons.IH [OF this] r Some hp show ?thesis by simp
  qed
qed

section \<open>The statements of \<^verbatim>\<open>get_tcx_lap_data\<close>\<close>

lemma lap_start_time_effect:
  "lap_start_time L lap data = Inr data' \<Longrightarrow>
   \<exists>s t. attrib_getitem lap ''StartTime'' = Inr s \<and> dp_parse L s = Inr t \<and>
         data' = AList.update ''start_time'' (VDatetime t) data"
  unfolding lap_start_time_def by (auto simp: and_then_eq_Inr)

lemma lap_distance_effect:
  "lap_distance L lap data = Inr data' \<Longrightarrow> sets_only ''distance'' data data'"
  unfolding lap_distance_def by (auto simp: and_then_eq_Inr split: option.splits)

lemma lap_total_time_effect:
  "lap_total_time L lap data = Inr data' \<Longrightarrow> sets_only ''total_time'' data data'"
  unfolding lap_total_time_def by (auto simp: and_then_eq_Inr split: option.splits)

lemma lap_max_speed_effect:
  "lap_max_speed L lap data = Inr data' \<Longrightarrow> sets_only ''max_speed'' data data'"
  unfolding lap_max_speed_def by (auto simp: and_then_eq_Inr split: option.splits)

lemma lap_max_hr_effect:
  "lap_max_hr L lap data = Inr data' \<Longrightarrow> sets_only ''max_hr'' data data'"
  unfolding lap_max_hr_def by (auto simp: and_then_eq_Inr split: option.splits)

lemma lap_avg_hr_effect:
  "lap_avg_hr L lap data = Inr data' \<Longrightarrow> sets_only ''avg_hr'' data data'"
  unfolding lap_avg_hr_def by (auto simp: and_then_eq_Inr split: option.splits)

lemma get_tcx_lap_data_Inr:
  assumes "get_tcx_lap_data L lap = Inr d"
  obtains d1 d2 d3 d4 d5 where
    "lap_start_time L lap [] = Inr d1"
    "lap_distance L lap d1 = Inr d2"
    "lap_total_time L lap d2 = Inr d3"
    "lap_max_speed L lap d3 = Inr d4"
    "lap_max_hr L lap d4 = Inr d5"
    "lap_avg_hr L lap d5 = Inr d"
  using assms unfolding get_tcx_lap_data_def
  by (auto simp: and_then_eq_Inr)

lemma get_tcx_lap_data_no_number:
  assumes "get_tcx_lap_data L lap = Inr d"
  shows "''number'' \<notin> keys d"
proof -
  from assms obtain d1 d2 d3 d4 d5 where
    s: "lap_start_time L lap [] = Inr d1" and
    a: "lap_distance L lap d1 = Inr d2" and
    b: "lap_total_time L lap d2 = Inr d3" and
    c: "lap_max_speed L lap d3 = Inr d4" and
    e: "lap_max_hr L lap d4 = Inr d5" and
    f: "lap_avg_hr L lap d5 = Inr d"
    by (rule get_tcx_lap_data_Inr)
  have "''number'' \<notin> keys d1"
    using lap_start_time_effect [OF s] by auto
  then have "''number'' \<notin> keys d2"
    by (rule sets_only_notin [OF lap_distance_effect [OF a], rotated]) simp
  then have "''number'' \<notin> keys d3"
    by (rule sets_only_notin [OF lap_total_time_effect [OF b], rotated]) simp
  then have "''number'' \<notin> keys d4"
    by (rule sets_only_notin [OF lap_max_speed_effect [OF c], rotated]) simp
  then have "''number'' \<notin> keys d5"
    by (rule sets_only_notin [OF lap_max_hr_effect [OF e], rotated]) simp
  then show "''number'' \<notin> keys d"
    by (rule sets_only_notin [OF lap_avg_hr_effect [OF f], rotated]) simp
qed

text \<open>No statement of the lap extractor stores \<^verbatim>\<open>None\<close>.\<close>

lemma get_tcx_lap_data_no_None:
  assumes "get_tcx_lap_data L lap = Inr d"
  shows "holds_no_None d"
proof -
  from assms obtain d1 d2 d3 d4 d5 where
    s: "lap_start_time L lap [] = Inr d1" and
    a: "lap_distance L lap d1 = Inr d2" and
    b: "lap_total_time L lap d2 = Inr d3" and
    c: "lap_max_speed L lap d3 = Inr d4" and
    e: "lap_max_hr L lap d4 = Inr d5" and
    f: "lap_avg_hr L lap d5 = Inr d"
    by (rule get_tcx_lap_data_Inr)
  from s have "holds_no_None d1"
    unfolding lap_start_time_def by (auto simp: and_then_eq_Inr holds_no_None_def)
  with a have "holds_no_None d2"
    unfolding lap_distance_def by (auto simp: and_then_eq_Inr split: option.splits)
  with b have "holds_no_None d3"
    unfolding lap_total_time_def by (auto simp: and_then_eq_Inr split: option.splits)
  with c have "holds_no_None d4"
    unfolding lap_max_speed_def by (auto simp: and_then_eq_Inr split: option.splits)
  with e have "holds_no_None d5"
    unfolding lap_max_hr_def by (auto simp: and_then_eq_Inr split: option.splits)
  with f show ?thesis
    unfolding lap_avg_hr_def by (auto simp: and_then_eq_Inr split: option.splits)
qed

section \<open>The outer loop\<close>

lemma input_points_simps [simp]:
  "input_points [] = []"
  "input_points (lap # laps) = lap_points lap @ input_points laps"
  by (simp_all add: input_points_def)

text \<open>
  What a run of the outer loop that returns has done: one numbered record per lap, after
  the records it started with, and the point records of every lap, after the ones it
  started with.
\<close>

lemma laps_loop_result:
  "laps_loop L n laps ld pd = Inr (ld', pd') \<Longrightarrow>
   length ld' = length ld + length laps \<and>
   take (length ld) ld' = ld \<and>
   (\<forall>i < length laps. \<exists>d. get_tcx_lap_data L (laps ! i) = Inr d \<and>
        ld' ! (length ld + i) = AList.update ''number'' (VInt (n + int i)) d) \<and>
   (\<forall>lap \<in> set laps. find_child lap (qn NAMESPACES ''ns'' ''Track'') \<noteq> None) \<and>
   (\<forall>p \<in> set (input_points laps). ok (get_tcx_point_data L p)) \<and>
   length pd' = length pd + length (filter has_position (input_points laps))"
proof (induction laps arbitrary: n ld pd)
  case Nil
  then show ?case by simp
next
  case (Cons lap laps)
  from Cons.prems obtain d track pd1 where
    d: "get_tcx_lap_data L lap = Inr d" and
    tr: "find_child lap (qn NAMESPACES ''ns'' ''Track'') = Some track" and
    pl: "points_loop L n (findall track (qn NAMESPACES ''ns'' ''Trackpoint'')) pd = Inr pd1" and
    rest: "laps_loop L (n + 1) laps (ld @ [AList.update ''number'' (VInt n) d]) pd1
             = Inr (ld', pd')"
    by (auto split: sum.splits option.splits)
  have lp: "lap_points lap = findall track (qn NAMESPACES ''ns'' ''Trackpoint'')"
    by (simp add: lap_points_def tr)
  note pr = points_loop_result [OF pl, folded lp]
  note ih = Cons.IH [OF rest]
  from ih have len: "length ld' = length ld + length (lap # laps)"
    by simp
  from ih have tk: "take (Suc (length ld)) ld' = ld @ [AList.update ''number'' (VInt n) d]"
    by simp
  have tk0: "take (length ld) ld' = ld"
  proof -
    have "take (length ld) ld' = take (length ld) (take (Suc (length ld)) ld')"
      by (simp add: min_def)
    then show ?thesis
      by (simp add: tk)
  qed
  have first: "ld' ! length ld = AList.update ''number'' (VInt n) d"
  proof -
    have "ld' ! length ld = take (Suc (length ld)) ld' ! length ld"
      by simp
    then show ?thesis
      by (simp add: tk)
  qed
  have recs: "\<exists>d'. get_tcx_lap_data L ((lap # laps) ! i) = Inr d' \<and>
        ld' ! (length ld + i) = AList.update ''number'' (VInt (n + int i)) d'"
    if "i < length (lap # laps)" for i
  proof (cases i)
    case 0
    with d first show ?thesis by simp
  next
    case (Suc j)
    with that have "j < length laps" by simp
    with ih obtain d' where "get_tcx_lap_data L (laps ! j) = Inr d'"
      "ld' ! (length (ld @ [AList.update ''number'' (VInt n) d]) + j) =
         AList.update ''number'' (VInt (n + 1 + int j)) d'"
      by blast
    moreover have "n + 1 + int j = n + int (Suc j)" "length (ld @ [x]) + j = length ld + Suc j" for x :: "'a pydict"
      by simp_all
    ultimately show ?thesis
      unfolding Suc by (simp del: of_nat_Suc)
  qed
  have tracks: "\<forall>l \<in> set (lap # laps). find_child l (qn NAMESPACES ''ns'' ''Track'') \<noteq> None"
    using ih tr by simp
  have oks: "\<forall>p \<in> set (input_points (lap # laps)). ok (get_tcx_point_data L p)"
    using ih pr by auto
  have "length pd1 = length pd + length (filter has_position (lap_points lap))"
    using pr by simp
  with ih have cnt: "length pd' =
      length pd + length (filter has_position (input_points (lap # laps)))"
    by simp
  from len tk0 recs tracks oks cnt show ?case
    by blast
qed

text \<open>The point records that a run of the outer loop adds.\<close>

lemma laps_loop_points:
  "laps_loop L n laps ld pd = Inr (ld', pd') \<Longrightarrow> pd' = pd @ tcx_point_records L n laps"
proof (induction laps arbitrary: n ld pd)
  case Nil
  then show ?case by simp
next
  case (Cons lap laps)
  from Cons.prems obtain d track pd1 where
    tr: "find_child lap (qn NAMESPACES ''ns'' ''Track'') = Some track" and
    pl: "points_loop L n (findall track (qn NAMESPACES ''ns'' ''Trackpoint'')) pd = Inr pd1" and
    rest: "laps_loop L (n + 1) laps (ld @ [AList.update ''number'' (VInt n) d]) pd1
             = Inr (ld', pd')"
    by (auto split: sum.splits option.splits)
  have lp: "lap_points lap = findall track (qn NAMESPACES ''ns'' ''Trackpoint'')"
    by (simp add: lap_points_def tr)
  from points_loop_result [OF pl, folded lp]
  have "pd1 = pd @ map (AList.update ''lap'' (VInt n)) (records_of L (lap_points lap))"
    by simp
  with Cons.IH [OF rest] show ?case
    by simp
qed

section \<open>The tables\<close>

lemma set_index_laps:
  "set_index ''number'' (DataFrame data LAPS_COLUMN_NAMES) =
   Inr \<lparr>index_name = Some ''number'',
        index = map (\<lambda>d. cell d ''number'') data,
        columns = tl LAPS_COLUMN_NAMES,
        rows = map (\<lambda>d. map (cell d) (tl LAPS_COLUMN_NAMES)) data\<rparr>"
  by (simp add: set_index_def DataFrame_def LAPS_COLUMN_NAMES_def)

lemma get_dataframes_Inr:
  assumes "get_dataframes L fname = Inr (laps_df, points_df)"
  obtains root activity laps_data points_data where
    "etree_parse L fname = Inr root"
    "first_activity root = Inr activity"
    "laps_loop L 1 (findall activity (qn NAMESPACES ''ns'' ''Lap'')) [] [] =
       Inr (laps_data, points_data)"
    "laps_df =
       \<lparr>index_name = Some ''number'',
        index = map (\<lambda>d. cell d ''number'') laps_data,
        columns = tl LAPS_COLUMN_NAMES,
        rows = map (\<lambda>d. map (cell d) (tl LAPS_COLUMN_NAMES)) laps_data\<rparr>"
    "points_df = DataFrame points_data POINTS_COLUMN_NAMES"
  using assms unfolding get_dataframes_def set_index_laps
  by (auto simp: and_then_eq_Inr)

section \<open>The sample documents, run\<close>

lemma run_tcx: "get_dataframes sample_lib ''run.tcx'' = Inr (run_laps_table, run_points_table)"
  by code_simp

lemma run_tcx_root: "etree_parse sample_lib ''run.tcx'' = Inr (tcx_root [mile_lap, plain_lap])"
  by code_simp

lemma run_tcx_activity:
  "first_activity (tcx_root [mile_lap, plain_lap]) = Inr (tcx_activity [mile_lap, plain_lap])"
  by code_simp

lemma run_tcx_laps:
  "findall (tcx_activity [mile_lap, plain_lap]) (qn NAMESPACES ''ns'' ''Lap'') =
   [mile_lap, plain_lap]"
  by code_simp

lemma run_tcx_points:
  "input_points (findall (tcx_activity [mile_lap, plain_lap]) (qn NAMESPACES ''ns'' ''Lap'')) =
   [full_point, bare_point, plain_point]"
  by code_simp

lemma full_point_run: "get_tcx_point_data sample_lib full_point = Inr (Some full_point_record)"
  by code_simp

section \<open>Claims about the point extractor of format 2\<close>

text \<open>
  C10.  Every dict that \<^verbatim>\<open>get_tcx_point_data\<close> returns is non-empty: it holds at least
  \<^verbatim>\<open>latitude\<close> and \<^verbatim>\<open>longitude\<close>.  So on whatever the extractor returns, the truth-value
  test of \<^verbatim>\<open>get_dataframes\<close> is the test for not being \<^verbatim>\<open>None\<close>, and the inner loop appends
  every dict the extractor returned: none is dropped by the test.
\<close>

theorem point_dict_never_empty:
  "(get_tcx_point_data L point = Inr r \<longrightarrow>
      (truthy r \<longleftrightarrow> r \<noteq> None) \<and>
      (\<forall>d. r = Some d \<longrightarrow> d \<noteq> [] \<and> ''latitude'' \<in> keys d \<and> ''longitude'' \<in> keys d)) \<and>
   (points_loop L lap_no ps acc = Inr out \<longrightarrow>
      out = acc @ map (AList.update ''lap'' (VInt lap_no)) (records_of L ps))"
proof (intro conjI impI allI)
  assume r: "get_tcx_point_data L point = Inr r"
  then show "truthy r \<longleftrightarrow> r \<noteq> None"
    by (rule get_tcx_point_data_truthy)
  fix d
  assume "r = Some d"
  with r have d: "get_tcx_point_data L point = Inr (Some d)"
    by simp
  then show "d \<noteq> []"
    by (rule get_tcx_point_data_nonempty)
  from get_tcx_point_data_keys(1) [OF d]
  show "''latitude'' \<in> keys d" and "''longitude'' \<in> keys d"
    by simp_all
next
  assume "points_loop L lap_no ps acc = Inr out"
  then show "out = acc @ map (AList.update ''lap'' (VInt lap_no)) (records_of L ps)"
    using points_loop_result by blast
qed

theorem point_dict_never_empty_witness:
  "get_tcx_point_data sample_lib full_point = Inr (Some full_point_record) \<and>
   truthy (Some full_point_record) \<and> full_point_record \<noteq> [] \<and>
   ''latitude'' \<in> keys full_point_record \<and> ''longitude'' \<in> keys full_point_record \<and>
   points_loop sample_lib 1 [full_point, bare_point] [] =
     Inr [AList.update ''lap'' (VInt 1) full_point_record] \<and>
   [AList.update ''lap'' (VInt 1) full_point_record] =
     [] @ map (AList.update ''lap'' (VInt 1)) (records_of sample_lib [full_point, bare_point])"
proof -
  have h1: "get_tcx_point_data sample_lib full_point = Inr (Some full_point_record)"
    by (rule full_point_run)
  have h2: "points_loop sample_lib 1 [full_point, bare_point] [] =
     Inr [AList.update ''lap'' (VInt 1) full_point_record]"
    by code_simp
  from point_dict_never_empty [where L = sample_lib and point = full_point
      and r = "Some full_point_record" and lap_no = 1 and ps = "[full_point, bare_point]"
      and acc = "[]" and out = "[AList.update ''lap'' (VInt 1) full_point_record]"]
  show ?thesis
    using h1 h2 by simp
qed

text \<open>
  C6.  A track point with a \<^verbatim>\<open>Position\<close> and no \<^verbatim>\<open>Time\<close>: \<^verbatim>\<open>get_tcx_point_data\<close> neither
  returns a record nor skips the point, it raises; and when the two coordinates can be read,
  what it raises is the \<^verbatim>\<open>AttributeError\<close> of \<^verbatim>\<open>.text\<close> on the \<^verbatim>\<open>None\<close> that the lookup of
  \<^verbatim>\<open>Time\<close> gave.
\<close>

theorem missing_time_raises:
  assumes "find_child point (qn NAMESPACES ''ns'' ''Position'') = Some position"
    and "find_child point (qn NAMESPACES ''ns'' ''Time'') = None"
  shows "(\<exists>e. get_tcx_point_data L point = Inl e) \<and>
         (ok (point_position L position []) \<longrightarrow>
            get_tcx_point_data L point = Inl AttributeError)"
proof -
  have t: "point_time L point data = Inl AttributeError" for data
    by (simp add: point_time_def dot_text_def assms(2))
  show ?thesis
  proof (cases "point_position L position []")
    case (Inl e)
    then show ?thesis
      by (simp add: get_tcx_point_data_def assms(1))
  next
    case (Inr d1)
    then show ?thesis
      by (simp add: get_tcx_point_data_def assms(1) t)
  qed
qed

theorem missing_time_raises_witness:
  "find_child timeless_point (qn NAMESPACES ''ns'' ''Position'') =
     Some (tcx_el ''ns'' ''Position'' None
          [tcx_el ''ns'' ''LatitudeDegrees'' (Some ''53.3498'') [],
           tcx_el ''ns'' ''LongitudeDegrees'' (Some ''-6.2603'') []]) \<and>
   find_child timeless_point (qn NAMESPACES ''ns'' ''Time'') = None \<and>
   ok (point_position sample_lib (tcx_el ''ns'' ''Position'' None
          [tcx_el ''ns'' ''LatitudeDegrees'' (Some ''53.3498'') [],
           tcx_el ''ns'' ''LongitudeDegrees'' (Some ''-6.2603'') []]) []) \<and>
   get_tcx_point_data sample_lib timeless_point = Inl AttributeError"
proof -
  let ?pos = "tcx_el ''ns'' ''Position'' None
          [tcx_el ''ns'' ''LatitudeDegrees'' (Some ''53.3498'') [],
           tcx_el ''ns'' ''LongitudeDegrees'' (Some ''-6.2603'') []]"
  have h1: "find_child timeless_point (qn NAMESPACES ''ns'' ''Position'') = Some ?pos"
    by code_simp
  have h2: "find_child timeless_point (qn NAMESPACES ''ns'' ''Time'') = None"
    by code_simp
  have h3: "ok (point_position sample_lib ?pos [])"
    by code_simp
  from missing_time_raises [OF h1 h2, of sample_lib] h1 h2 h3 show ?thesis
    by simp
qed

text \<open>
  C1, as the claim states it, fails: a track point with a \<^verbatim>\<open>Position\<close> and no \<^verbatim>\<open>Time\<close> has
  a position, and the extractor yields no record for it but raises.
\<close>

theorem position_without_record_counterexample:
  "has_position timeless_point \<and>
   get_tcx_point_data sample_lib timeless_point = Inl AttributeError"
  by code_simp

text \<open>
  C1, amended.  For every track point that has a \<^verbatim>\<open>Position\<close> and can be read (see
  \<open>tcx_point_readable\<close>; on any other point with a \<^verbatim>\<open>Position\<close> the extractor raises),
  \<^verbatim>\<open>get_tcx_point_data\<close> yields exactly one record, with \<^verbatim>\<open>latitude\<close>, \<^verbatim>\<open>longitude\<close> and
  \<^verbatim>\<open>time\<close> present; for every track point without a \<^verbatim>\<open>Position\<close> it yields no record.  So
  whenever \<^verbatim>\<open>get_dataframes\<close> returns, the point table has one row for each input point with
  a \<^verbatim>\<open>Position\<close>: at most as many rows as input points (the track points of the first
  \<^verbatim>\<open>Track\<close> of each lap), and as many if and only if every input point has a \<^verbatim>\<open>Position\<close>.
\<close>

theorem point_record_iff_position:
  "(has_position point \<and> tcx_point_readable L point \<longrightarrow>
      (\<exists>d. get_tcx_point_data L point = Inr (Some d) \<and>
           {''latitude'', ''longitude'', ''time''} \<subseteq> keys d)) \<and>
   (has_position point' \<and> \<not> tcx_point_readable L point' \<longrightarrow>
      (\<exists>e. get_tcx_point_data L point' = Inl e)) \<and>
   (\<not> has_position point'' \<longrightarrow> get_tcx_point_data L point'' = Inr None) \<and>
   (get_dataframes L fname = Inr (laps_df, points_df) \<and> etree_parse L fname = Inr root \<and>
    first_activity root = Inr activity \<longrightarrow>
      length (rows points_df) =
        length (filter has_position
          (input_points (findall activity (qn NAMESPACES ''ns'' ''Lap'')))) \<and>
      length (rows points_df) \<le>
        length (input_points (findall activity (qn NAMESPACES ''ns'' ''Lap''))) \<and>
      (length (rows points_df) =
         length (input_points (findall activity (qn NAMESPACES ''ns'' ''Lap''))) \<longleftrightarrow>
       (\<forall>p \<in> set (input_points (findall activity (qn NAMESPACES ''ns'' ''Lap''))).
          has_position p)))"
proof (intro conjI impI)
  assume a: "has_position point \<and> tcx_point_readable L point"
  then have "ok (get_tcx_point_data L point)"
    by (simp add: get_tcx_point_data_ok_iff)
  then obtain r where r: "get_tcx_point_data L point = Inr r"
    by (auto simp: ok_iff)
  with a have "r \<noteq> None"
    using get_tcx_point_data_None_iff [of L point] by auto
  then obtain d where "r = Some d"
    by auto
  with r have "get_tcx_point_data L point = Inr (Some d)"
    by simp
  with get_tcx_point_data_keys(1) [OF this]
  show "\<exists>d. get_tcx_point_data L point = Inr (Some d) \<and>
           {''latitude'', ''longitude'', ''time''} \<subseteq> keys d"
    by blast
next
  assume "has_position point' \<and> \<not> tcx_point_readable L point'"
  then have "\<not> ok (get_tcx_point_data L point')"
    by (simp add: get_tcx_point_data_ok_iff)
  then show "\<exists>e. get_tcx_point_data L point' = Inl e"
    by (simp add: not_ok_iff)
next
  assume "\<not> has_position point''"
  then show "get_tcx_point_data L point'' = Inr None"
    by (simp add: get_tcx_point_data_None_iff)
next
  let ?pts = "input_points (findall activity (qn NAMESPACES ''ns'' ''Lap''))"
  assume a: "get_dataframes L fname = Inr (laps_df, points_df) \<and>
    etree_parse L fname = Inr root \<and> first_activity root = Inr activity"
  then obtain laps_data points_data where
    loop: "laps_loop L 1 (findall activity (qn NAMESPACES ''ns'' ''Lap'')) [] [] =
       Inr (laps_data, points_data)" and
    pdf: "points_df = DataFrame points_data POINTS_COLUMN_NAMES"
    by (auto elim!: get_dataframes_Inr)
  from laps_loop_result [OF loop]
  have "length points_data = length (filter has_position ?pts)"
    by simp
  with pdf have n: "length (rows points_df) = length (filter has_position ?pts)"
    by (simp add: DataFrame_def)
  show "length (rows points_df) = length (filter has_position ?pts)"
    by (rule n)
  show "length (rows points_df) \<le> length ?pts"
    unfolding n by (rule length_filter_le)
  show "length (rows points_df) = length ?pts \<longleftrightarrow> (\<forall>p \<in> set ?pts. has_position p)"
    unfolding n by (rule length_filter_full)
qed

theorem point_record_iff_position_witness:
  "(has_position full_point \<and> tcx_point_readable sample_lib full_point) \<and>
   get_tcx_point_data sample_lib full_point = Inr (Some full_point_record) \<and>
   (has_position timeless_point \<and> \<not> tcx_point_readable sample_lib timeless_point) \<and>
   get_tcx_point_data sample_lib timeless_point = Inl AttributeError \<and>
   \<not> has_position bare_point \<and>
   get_tcx_point_data sample_lib bare_point = Inr None \<and>
   (get_dataframes sample_lib ''run.tcx'' = Inr (run_laps_table, run_points_table) \<and>
    etree_parse sample_lib ''run.tcx'' = Inr (tcx_root [mile_lap, plain_lap]) \<and>
    first_activity (tcx_root [mile_lap, plain_lap]) =
      Inr (tcx_activity [mile_lap, plain_lap])) \<and>
   length (rows run_points_table) =
     length (filter has_position
       (input_points (findall (tcx_activity [mile_lap, plain_lap])
          (qn NAMESPACES ''ns'' ''Lap'')))) \<and>
   length (rows run_points_table) = 2 \<and>
   length (input_points (findall (tcx_activity [mile_lap, plain_lap])
          (qn NAMESPACES ''ns'' ''Lap''))) = 3"
proof -
  have h1: "has_position full_point \<and> tcx_point_readable sample_lib full_point"
    by code_simp
  have h2: "has_position timeless_point \<and> \<not> tcx_point_readable sample_lib timeless_point"
    by code_simp
  have h3: "\<not> has_position bare_point"
    by code_simp
  have h4: "get_dataframes sample_lib ''run.tcx'' = Inr (run_laps_table, run_points_table) \<and>
    etree_parse sample_lib ''run.tcx'' = Inr (tcx_root [mile_lap, plain_lap]) \<and>
    first_activity (tcx_root [mile_lap, plain_lap]) =
      Inr (tcx_activity [mile_lap, plain_lap])"
    by (simp only: run_tcx run_tcx_root run_tcx_activity simp_thms)
  note t = point_record_iff_position [where L = sample_lib and point = full_point
      and point' = timeless_point and point'' = bare_point and fname = "''run.tcx''"
      and laps_df = run_laps_table and points_df = run_points_table
      and root = "tcx_root [mile_lap, plain_lap]"
      and activity = "tcx_activity [mile_lap, plain_lap]"]
  note c3 = mp [OF t [THEN conjunct2, THEN conjunct2, THEN conjunct1] h3]
  note c4 = mp [OF t [THEN conjunct2, THEN conjunct2, THEN conjunct2] h4]
  have e1: "get_tcx_point_data sample_lib timeless_point = Inl AttributeError"
    by code_simp
  have e2: "length (rows run_points_table) = 2"
    by code_simp
  have e3: "length (input_points (findall (tcx_activity [mile_lap, plain_lap])
          (qn NAMESPACES ''ns'' ''Lap''))) = 3"
    by (simp only: run_tcx_points) simp
  show ?thesis
    by (intro conjI h1 h2 h3 h4 c3 c4 [THEN conjunct1] e1 e2 e3 full_point_run)
qed

section \<open>Claims about the optional fields of format 2\<close>

text \<open>A statement of the lap extractor does not add a key whose element is absent.\<close>

lemma lap_distance_absent:
  "k \<notin> keys data \<Longrightarrow> lap_distance L lap data = Inr data' \<Longrightarrow>
   (k = ''distance'' \<longrightarrow> find_child lap (qn NAMESPACES ''ns'' ''DistanceMeters'') = None) \<Longrightarrow>
   k \<notin> keys data'"
  unfolding lap_distance_def by (auto simp: and_then_eq_Inr split: option.splits)

lemma lap_total_time_absent:
  "k \<notin> keys data \<Longrightarrow> lap_total_time L lap data = Inr data' \<Longrightarrow>
   (k = ''total_time'' \<longrightarrow> find_child lap (qn NAMESPACES ''ns'' ''TotalTimeSeconds'') = None) \<Longrightarrow>
   k \<notin> keys data'"
  unfolding lap_total_time_def by (auto simp: and_then_eq_Inr split: option.splits)

lemma lap_max_speed_absent:
  "k \<notin> keys data \<Longrightarrow> lap_max_speed L lap data = Inr data' \<Longrightarrow>
   (k = ''max_speed'' \<longrightarrow> find_child lap (qn NAMESPACES ''ns'' ''MaximumSpeed'') = None) \<Longrightarrow>
   k \<notin> keys data'"
  unfolding lap_max_speed_def by (auto simp: and_then_eq_Inr split: option.splits)

lemma lap_max_hr_absent:
  "k \<notin> keys data \<Longrightarrow> lap_max_hr L lap data = Inr data' \<Longrightarrow>
   (k = ''max_hr'' \<longrightarrow> find_child lap (qn NAMESPACES ''ns'' ''MaximumHeartRateBpm'') = None) \<Longrightarrow>
   k \<notin> keys data'"
  unfolding lap_max_hr_def by (auto simp: and_then_eq_Inr split: option.splits)

lemma lap_avg_hr_absent:
  "k \<notin> keys data \<Longrightarrow> lap_avg_hr L lap data = Inr data' \<Longrightarrow>
   (k = ''avg_hr'' \<longrightarrow> find_child lap (qn NAMESPACES ''ns'' ''AverageHeartRateBpm'') = None) \<Longrightarrow>
   k \<notin> keys data'"
  unfolding lap_avg_hr_def by (auto simp: and_then_eq_Inr split: option.splits)

lemma get_tcx_lap_data_absent:
  assumes "get_tcx_lap_data L lap = Inr d"
    and "k \<noteq> ''start_time''"
    and "k = ''distance'' \<longrightarrow> find_child lap (qn NAMESPACES ''ns'' ''DistanceMeters'') = None"
    and "k = ''total_time'' \<longrightarrow>
           find_child lap (qn NAMESPACES ''ns'' ''TotalTimeSeconds'') = None"
    and "k = ''max_speed'' \<longrightarrow> find_child lap (qn NAMESPACES ''ns'' ''MaximumSpeed'') = None"
    and "k = ''max_hr'' \<longrightarrow>
           find_child lap (qn NAMESPACES ''ns'' ''MaximumHeartRateBpm'') = None"
    and "k = ''avg_hr'' \<longrightarrow>
           find_child lap (qn NAMESPACES ''ns'' ''AverageHeartRateBpm'') = None"
  shows "k \<notin> keys d"
proof -
  from assms(1) obtain d1 d2 d3 d4 d5 where
    s: "lap_start_time L lap [] = Inr d1" and
    a: "lap_distance L lap d1 = Inr d2" and
    b: "lap_total_time L lap d2 = Inr d3" and
    c: "lap_max_speed L lap d3 = Inr d4" and
    e: "lap_max_hr L lap d4 = Inr d5" and
    f: "lap_avg_hr L lap d5 = Inr d"
    by (rule get_tcx_lap_data_Inr)
  have "k \<notin> keys d1"
    using lap_start_time_effect [OF s] assms(2) by auto
  then have "k \<notin> keys d2"
    using a assms(3) by (rule lap_distance_absent)
  then have "k \<notin> keys d3"
    using b assms(4) by (rule lap_total_time_absent)
  then have "k \<notin> keys d4"
    using c assms(5) by (rule lap_max_speed_absent)
  then have "k \<notin> keys d5"
    using e assms(6) by (rule lap_max_hr_absent)
  then show "k \<notin> keys d"
    using f assms(7) by (rule lap_avg_hr_absent)
qed

lemma point_heart_rate_absent:
  assumes "get_tcx_point_data L point = Inr (Some d)"
    and "find_child point (qn NAMESPACES ''ns'' ''HeartRateBpm'') = None"
  shows "''heart_rate'' \<notin> keys d"
proof -
  from assms(1) obtain position d1 d2 d3 d4 d5 where
    p: "point_position L position [] = Inr d1" and
    t: "point_time L point d1 = Inr d2" and
    e: "point_elevation L point d2 = Inr d3" and
    h: "point_heart_rate L point d3 = Inr d4" and
    c: "point_cadence L point d4 = Inr d5" and
    s: "point_speed L point d5 = Inr d"
    by (rule get_tcx_point_data_Some)
  have "''heart_rate'' \<notin> keys d2"
    using point_position_effect [OF p] point_time_effect [OF t] by auto
  then have "''heart_rate'' \<notin> keys d3"
    by (rule sets_only_notin [OF point_elevation_effect [OF e], rotated]) simp
  moreover have "d4 = d3"
    using h by (simp add: point_heart_rate_def assms(2))
  ultimately have "''heart_rate'' \<notin> keys d4"
    by simp
  then have "''heart_rate'' \<notin> keys d5"
    by (rule sets_only_notin [OF point_cadence_effect [OF c], rotated]) simp
  then show ?thesis
    by (rule sets_only_notin [OF point_speed_effect [OF s], rotated]) simp
qed

text \<open>A statement of an extractor that raises makes the extractor raise.\<close>

lemma lap_max_hr_raises:
  assumes "\<And>data. \<not> ok (lap_max_hr L lap data)"
  shows "\<exists>e. get_tcx_lap_data L lap = Inl e"
proof (cases "get_tcx_lap_data L lap")
  case (Inl e)
  then show ?thesis by simp
next
  case (Inr d)
  then obtain d4 d5 where "lap_max_hr L lap d4 = Inr d5"
    by (rule get_tcx_lap_data_Inr)
  with assms [of d4] show ?thesis by simp
qed

lemma lap_avg_hr_raises:
  assumes "\<And>data. \<not> ok (lap_avg_hr L lap data)"
  shows "\<exists>e. get_tcx_lap_data L lap = Inl e"
proof (cases "get_tcx_lap_data L lap")
  case (Inl e)
  then show ?thesis by simp
next
  case (Inr d)
  then obtain d5 where "lap_avg_hr L lap d5 = Inr d"
    by (rule get_tcx_lap_data_Inr)
  with assms [of d5] show ?thesis by simp
qed

lemma point_heart_rate_raises:
  assumes "\<And>data. \<not> ok (point_heart_rate L point data)"
    and "has_position point"
  shows "\<exists>e. get_tcx_point_data L point = Inl e"
proof (cases "get_tcx_point_data L point")
  case (Inl e)
  then show ?thesis by simp
next
  case (Inr r)
  with assms(2) obtain d where d: "get_tcx_point_data L point = Inr (Some d)"
    using get_tcx_point_data_None_iff [of L point] by (cases r) auto
  then obtain d3 d4 where "point_heart_rate L point d3 = Inr d4"
    by (rule get_tcx_point_data_Some)
  with assms(1) [of d3] show ?thesis by simp
qed

text \<open>
  C2, as the claim states it, fails where the wrapper element is present and its \<^verbatim>\<open>Value\<close>
  child is absent: the lap extractor and the point extractor then raise.
\<close>

theorem valueless_wrapper_counterexample:
  "find_child valueless_hr_lap (qn NAMESPACES ''ns'' ''MaximumHeartRateBpm'') =
     Some (tcx_el ''ns'' ''MaximumHeartRateBpm'' None []) \<and>
   find_child (tcx_el ''ns'' ''MaximumHeartRateBpm'' None []) (qn NAMESPACES ''ns'' ''Value'') =
     None \<and>
   get_tcx_lap_data sample_lib valueless_hr_lap = Inl AttributeError \<and>
   find_child valueless_hr_point (qn NAMESPACES ''ns'' ''HeartRateBpm'') =
     Some (tcx_el ''ns'' ''HeartRateBpm'' None []) \<and>
   find_child (tcx_el ''ns'' ''HeartRateBpm'' None []) (qn NAMESPACES ''ns'' ''Value'') = None \<and>
   get_tcx_point_data sample_lib valueless_hr_point = Inl AttributeError"
  by code_simp

text \<open>
  C2, amended.  For every lap node, and every track-point node for the heart rate, the
  \<^verbatim>\<open>max_hr\<close>, \<^verbatim>\<open>avg_hr\<close> and \<^verbatim>\<open>heart_rate\<close> fields are omitted from the record, and their
  statements raise nothing, whenever the wrapper element is absent.  When the wrapper element
  is present and its nested \<^verbatim>\<open>Value\<close> child is absent, the statement raises an
  \<^verbatim>\<open>AttributeError\<close> and the extractor returns no record.
\<close>

theorem hr_wrapper_absent_or_valueless:
  "(find_child lap (qn NAMESPACES ''ns'' ''MaximumHeartRateBpm'') = None \<longrightarrow>
      lap_max_hr L lap data = Inr data \<and>
      (\<forall>d. get_tcx_lap_data L lap = Inr d \<longrightarrow> ''max_hr'' \<notin> keys d)) \<and>
   (find_child lap (qn NAMESPACES ''ns'' ''AverageHeartRateBpm'') = None \<longrightarrow>
      lap_avg_hr L lap data = Inr data \<and>
      (\<forall>d. get_tcx_lap_data L lap = Inr d \<longrightarrow> ''avg_hr'' \<notin> keys d)) \<and>
   (find_child point (qn NAMESPACES ''ns'' ''HeartRateBpm'') = None \<longrightarrow>
      point_heart_rate L point data = Inr data \<and>
      (\<forall>d. get_tcx_point_data L point = Inr (Some d) \<longrightarrow> ''heart_rate'' \<notin> keys d)) \<and>
   (find_child lap' (qn NAMESPACES ''ns'' ''MaximumHeartRateBpm'') = Some w \<and>
    find_child w (qn NAMESPACES ''ns'' ''Value'') = None \<longrightarrow>
      lap_max_hr L lap' data = Inl AttributeError \<and>
      (\<exists>e. get_tcx_lap_data L lap' = Inl e)) \<and>
   (find_child lap' (qn NAMESPACES ''ns'' ''AverageHeartRateBpm'') = Some w' \<and>
    find_child w' (qn NAMESPACES ''ns'' ''Value'') = None \<longrightarrow>
      lap_avg_hr L lap' data = Inl AttributeError \<and>
      (\<exists>e. get_tcx_lap_data L lap' = Inl e)) \<and>
   (has_position point' \<and>
    find_child point' (qn NAMESPACES ''ns'' ''HeartRateBpm'') = Some w'' \<and>
    find_child w'' (qn NAMESPACES ''ns'' ''Value'') = None \<longrightarrow>
      point_heart_rate L point' data = Inl AttributeError \<and>
      (\<exists>e. get_tcx_point_data L point' = Inl e))"
proof (intro conjI impI allI)
  assume a: "find_child lap (qn NAMESPACES ''ns'' ''MaximumHeartRateBpm'') = None"
  then show "lap_max_hr L lap data = Inr data"
    by (simp add: lap_max_hr_def)
  fix d
  assume "get_tcx_lap_data L lap = Inr d"
  then show "''max_hr'' \<notin> keys d"
    by (rule get_tcx_lap_data_absent) (simp_all add: a)
next
  assume a: "find_child lap (qn NAMESPACES ''ns'' ''AverageHeartRateBpm'') = None"
  then show "lap_avg_hr L lap data = Inr data"
    by (simp add: lap_avg_hr_def)
  fix d
  assume "get_tcx_lap_data L lap = Inr d"
  then show "''avg_hr'' \<notin> keys d"
    by (rule get_tcx_lap_data_absent) (simp_all add: a)
next
  assume a: "find_child point (qn NAMESPACES ''ns'' ''HeartRateBpm'') = None"
  then show "point_heart_rate L point data = Inr data"
    by (simp add: point_heart_rate_def)
  fix d
  assume "get_tcx_point_data L point = Inr (Some d)"
  then show "''heart_rate'' \<notin> keys d"
    using a by (rule point_heart_rate_absent)
next
  assume a: "find_child lap' (qn NAMESPACES ''ns'' ''MaximumHeartRateBpm'') = Some w \<and>
    find_child w (qn NAMESPACES ''ns'' ''Value'') = None"
  then have r: "lap_max_hr L lap' x = Inl AttributeError" for x
    by (simp add: lap_max_hr_def dot_text_def)
  show "lap_max_hr L lap' data = Inl AttributeError"
    by (rule r)
  show "\<exists>e. get_tcx_lap_data L lap' = Inl e"
    by (rule lap_max_hr_raises) (simp add: r)
next
  assume a: "find_child lap' (qn NAMESPACES ''ns'' ''AverageHeartRateBpm'') = Some w' \<and>
    find_child w' (qn NAMESPACES ''ns'' ''Value'') = None"
  then have r: "lap_avg_hr L lap' x = Inl AttributeError" for x
    by (simp add: lap_avg_hr_def dot_text_def)
  show "lap_avg_hr L lap' data = Inl AttributeError"
    by (rule r)
  show "\<exists>e. get_tcx_lap_data L lap' = Inl e"
    by (rule lap_avg_hr_raises) (simp add: r)
next
  assume a: "has_position point' \<and>
    find_child point' (qn NAMESPACES ''ns'' ''HeartRateBpm'') = Some w'' \<and>
    find_child w'' (qn NAMESPACES ''ns'' ''Value'') = None"
  then have r: "point_heart_rate L point' x = Inl AttributeError" for x
    by (simp add: point_heart_rate_def dot_text_def)
  show "point_heart_rate L point' data = Inl AttributeError"
    by (rule r)
  show "\<exists>e. get_tcx_point_data L point' = Inl e"
    by (rule point_heart_rate_raises) (simp_all add: r a)
qed

theorem hr_wrapper_absent_or_valueless_witness:
  "find_child plain_lap (qn NAMESPACES ''ns'' ''MaximumHeartRateBpm'') = None \<and>
   find_child plain_lap (qn NAMESPACES ''ns'' ''AverageHeartRateBpm'') = None \<and>
   find_child plain_point (qn NAMESPACES ''ns'' ''HeartRateBpm'') = None \<and>
   lap_max_hr sample_lib plain_lap [] = Inr [] \<and>
   lap_avg_hr sample_lib plain_lap [] = Inr [] \<and>
   point_heart_rate sample_lib plain_point [] = Inr [] \<and>
   get_tcx_lap_data sample_lib plain_lap =
     Inr [(''start_time'', VDatetime (Datetime 2021 5 1 10 1 5))] \<and>
   (find_child valueless_hr_lap (qn NAMESPACES ''ns'' ''MaximumHeartRateBpm'') =
      Some (tcx_el ''ns'' ''MaximumHeartRateBpm'' None []) \<and>
    find_child (tcx_el ''ns'' ''MaximumHeartRateBpm'' None []) (qn NAMESPACES ''ns'' ''Value'') =
      None) \<and>
   (find_child valueless_hr_lap (qn NAMESPACES ''ns'' ''AverageHeartRateBpm'') =
      Some (tcx_el ''ns'' ''AverageHeartRateBpm'' None []) \<and>
    find_child (tcx_el ''ns'' ''AverageHeartRateBpm'' None []) (qn NAMESPACES ''ns'' ''Value'') =
      None) \<and>
   (has_position valueless_hr_point \<and>
    find_child valueless_hr_point (qn NAMESPACES ''ns'' ''HeartRateBpm'') =
      Some (tcx_el ''ns'' ''HeartRateBpm'' None []) \<and>
    find_child (tcx_el ''ns'' ''HeartRateBpm'' None []) (qn NAMESPACES ''ns'' ''Value'') = None) \<and>
   lap_max_hr sample_lib valueless_hr_lap [] = Inl AttributeError \<and>
   lap_avg_hr sample_lib valueless_hr_lap [] = Inl AttributeError \<and>
   point_heart_rate sample_lib valueless_hr_point [] = Inl AttributeError"
proof -
  have h1: "find_child plain_lap (qn NAMESPACES ''ns'' ''MaximumHeartRateBpm'') = None"
    by code_simp
  have h2: "find_child plain_lap (qn NAMESPACES ''ns'' ''AverageHeartRateBpm'') = None"
    by code_simp
  have h3: "find_child plain_point (qn NAMESPACES ''ns'' ''HeartRateBpm'') = None"
    by code_simp
  have h4: "find_child valueless_hr_lap (qn NAMESPACES ''ns'' ''MaximumHeartRateBpm'') =
      Some (tcx_el ''ns'' ''MaximumHeartRateBpm'' None []) \<and>
    find_child (tcx_el ''ns'' ''MaximumHeartRateBpm'' None []) (qn NAMESPACES ''ns'' ''Value'') =
      None"
    by code_simp
  have h5: "find_child valueless_hr_lap (qn NAMESPACES ''ns'' ''AverageHeartRateBpm'') =
      Some (tcx_el ''ns'' ''AverageHeartRateBpm'' None []) \<and>
    find_child (tcx_el ''ns'' ''AverageHeartRateBpm'' None []) (qn NAMESPACES ''ns'' ''Value'') =
      None"
    by code_simp
  have h6: "has_position valueless_hr_point \<and>
    find_child valueless_hr_point (qn NAMESPACES ''ns'' ''HeartRateBpm'') =
      Some (tcx_el ''ns'' ''HeartRateBpm'' None []) \<and>
    find_child (tcx_el ''ns'' ''HeartRateBpm'' None []) (qn NAMESPACES ''ns'' ''Value'') = None"
    by code_simp
  have e: "get_tcx_lap_data sample_lib plain_lap =
     Inr [(''start_time'', VDatetime (Datetime 2021 5 1 10 1 5))]"
    by code_simp
  note t = hr_wrapper_absent_or_valueless [where L = sample_lib and lap = plain_lap
      and point = plain_point and data = "[]" and lap' = valueless_hr_lap
      and w = "tcx_el ''ns'' ''MaximumHeartRateBpm'' None []"
      and w' = "tcx_el ''ns'' ''AverageHeartRateBpm'' None []"
      and point' = valueless_hr_point and w'' = "tcx_el ''ns'' ''HeartRateBpm'' None []"]
  note c1 = mp [OF t [THEN conjunct1] h1]
  note c2 = mp [OF t [THEN conjunct2, THEN conjunct1] h2]
  note c3 = mp [OF t [THEN conjunct2, THEN conjunct2, THEN conjunct1] h3]
  note c4 = mp [OF t [THEN conjunct2, THEN conjunct2, THEN conjunct2, THEN conjunct1] h4]
  note c5 = mp [OF t [THEN conjunct2, THEN conjunct2, THEN conjunct2, THEN conjunct2,
        THEN conjunct1] h5]
  note c6 = mp [OF t [THEN conjunct2, THEN conjunct2, THEN conjunct2, THEN conjunct2,
        THEN conjunct2] h6]
  show ?thesis
    by (intro conjI h1 h2 h3 h4 h5 h6 e c1 [THEN conjunct1] c2 [THEN conjunct1]
        c3 [THEN conjunct1] c4 [THEN conjunct1] c5 [THEN conjunct1] c6 [THEN conjunct1])
qed

section \<open>The claim about numeric fidelity\<close>

lemma get_tcx_lap_data_distance:
  assumes "get_tcx_lap_data L lap = Inr d"
    and "find_child lap (qn NAMESPACES ''ns'' ''DistanceMeters'') = Some e"
  shows "\<exists>x. py_float L (text_of e) = Inr x \<and> map_of d ''distance'' = Some (VFloat x)"
proof -
  from assms(1) obtain d1 d2 d3 d4 d5 where
    a: "lap_distance L lap d1 = Inr d2" and
    b: "lap_total_time L lap d2 = Inr d3" and
    c: "lap_max_speed L lap d3 = Inr d4" and
    h: "lap_max_hr L lap d4 = Inr d5" and
    f: "lap_avg_hr L lap d5 = Inr d"
    by (rule get_tcx_lap_data_Inr)
  from a assms(2) obtain x where x: "py_float L (text_of e) = Inr x"
    and d2: "d2 = AList.update ''distance'' (VFloat x) d1"
    by (auto simp: lap_distance_def and_then_eq_Inr)
  have "map_of d ''distance'' = map_of d5 ''distance''"
    by (rule sets_only_map_of [OF lap_avg_hr_effect [OF f]]) simp
  also have "\<dots> = map_of d4 ''distance''"
    by (rule sets_only_map_of [OF lap_max_hr_effect [OF h]]) simp
  also have "\<dots> = map_of d3 ''distance''"
    by (rule sets_only_map_of [OF lap_max_speed_effect [OF c]]) simp
  also have "\<dots> = map_of d2 ''distance''"
    by (rule sets_only_map_of [OF lap_total_time_effect [OF b]]) simp
  also have "\<dots> = Some (VFloat x)"
    by (simp add: d2 update_conv')
  finally show ?thesis
    using x by blast
qed

lemma get_tcx_lap_data_total_time:
  assumes "get_tcx_lap_data L lap = Inr d"
    and "find_child lap (qn NAMESPACES ''ns'' ''TotalTimeSeconds'') = Some e"
  shows "\<exists>x td. py_float L (text_of e) = Inr x \<and> timedelta_seconds x = Inr td \<and>
           map_of d ''total_time'' = Some (VTimedelta td)"
proof -
  from assms(1) obtain d2 d3 d4 d5 where
    b: "lap_total_time L lap d2 = Inr d3" and
    c: "lap_max_speed L lap d3 = Inr d4" and
    h: "lap_max_hr L lap d4 = Inr d5" and
    f: "lap_avg_hr L lap d5 = Inr d"
    by (rule get_tcx_lap_data_Inr)
  from b assms(2) obtain x td where x: "py_float L (text_of e) = Inr x"
    and td: "timedelta_seconds x = Inr td"
    and d3: "d3 = AList.update ''total_time'' (VTimedelta td) d2"
    by (auto simp: lap_total_time_def and_then_eq_Inr)
  have "map_of d ''total_time'' = map_of d5 ''total_time''"
    by (rule sets_only_map_of [OF lap_avg_hr_effect [OF f]]) simp
  also have "\<dots> = map_of d4 ''total_time''"
    by (rule sets_only_map_of [OF lap_max_hr_effect [OF h]]) simp
  also have "\<dots> = map_of d3 ''total_time''"
    by (rule sets_only_map_of [OF lap_max_speed_effect [OF c]]) simp
  also have "\<dots> = Some (VTimedelta td)"
    by (simp add: d3 update_conv')
  finally show ?thesis
    using x td by blast
qed

lemma python_float_mile: "python_float ''1609.34'' = Inr (decimal_to_double 160934 (- 2))"
  by code_simp

lemma double_mile: "decimal_to_double 160934 (- 2) = Fin 7077952172180111 (- 42)"
  by code_simp

lemma python_float_minute: "python_float ''65.0'' = Inr (Fin 65 0)"
  by code_simp

lemma timedelta_minute: "timedelta_seconds (Fin 65 0) = Inr (65 * 1000000)"
  by code_simp

text \<open>
  C8.  With Python's \<^verbatim>\<open>float\<close>: for every lap node whose \<^verbatim>\<open>DistanceMeters\<close> child has the text
  \<^verbatim>\<open>1609.34\<close>, the statement of \<^verbatim>\<open>get_tcx_lap_data\<close> for the distance stores, and every record
  the extractor returns holds, the float 1609.34 (the double nearest to the decimal 1609.34,
  which is 7077952172180111 / 2^42) as \<^verbatim>\<open>distance\<close>; and for every lap node whose
  \<^verbatim>\<open>TotalTimeSeconds\<close> child has the text \<^verbatim>\<open>65.0\<close>, the statement for the total time stores,
  and every returned record holds, a duration of exactly 65 seconds as \<^verbatim>\<open>total_time\<close>.
\<close>

theorem mile_and_minute_fidelity:
  assumes "float_str L = python_float"
  shows
    "(find_child lap (qn NAMESPACES ''ns'' ''DistanceMeters'') = Some e \<and>
      text_of e = Some ''1609.34'' \<longrightarrow>
        lap_distance L lap data =
          Inr (AList.update ''distance'' (VFloat (decimal_to_double 160934 (- 2))) data) \<and>
        (\<forall>d. get_tcx_lap_data L lap = Inr d \<longrightarrow>
           map_of d ''distance'' = Some (VFloat (decimal_to_double 160934 (- 2))))) \<and>
     decimal_to_double 160934 (- 2) = Fin 7077952172180111 (- 42) \<and>
     (find_child lap' (qn NAMESPACES ''ns'' ''TotalTimeSeconds'') = Some e' \<and>
      text_of e' = Some ''65.0'' \<longrightarrow>
        lap_total_time L lap' data =
          Inr (AList.update ''total_time'' (VTimedelta (65 * 1000000)) data) \<and>
        (\<forall>d. get_tcx_lap_data L lap' = Inr d \<longrightarrow>
           map_of d ''total_time'' = Some (VTimedelta (65 * 1000000))))"
proof (intro conjI impI allI)
  assume a: "find_child lap (qn NAMESPACES ''ns'' ''DistanceMeters'') = Some e \<and>
      text_of e = Some ''1609.34''"
  then have f: "py_float L (text_of e) = Inr (decimal_to_double 160934 (- 2))"
    by (simp add: py_float_def assms python_float_mile)
  with a show "lap_distance L lap data =
      Inr (AList.update ''distance'' (VFloat (decimal_to_double 160934 (- 2))) data)"
    by (simp add: lap_distance_def)
  fix d
  assume "get_tcx_lap_data L lap = Inr d"
  from get_tcx_lap_data_distance [OF this conjunct1 [OF a]] f
  show "map_of d ''distance'' = Some (VFloat (decimal_to_double 160934 (- 2)))"
    by simp
next
  show "decimal_to_double 160934 (- 2) = Fin 7077952172180111 (- 42)"
    by (rule double_mile)
next
  assume a: "find_child lap' (qn NAMESPACES ''ns'' ''TotalTimeSeconds'') = Some e' \<and>
      text_of e' = Some ''65.0''"
  then have f: "py_float L (text_of e') = Inr (Fin 65 0)"
    by (simp add: py_float_def assms python_float_minute)
  with a show "lap_total_time L lap' data =
      Inr (AList.update ''total_time'' (VTimedelta (65 * 1000000)) data)"
    by (simp add: lap_total_time_def timedelta_minute del: mult_numeral_left_semiring_numeral)
  fix d
  assume "get_tcx_lap_data L lap' = Inr d"
  from get_tcx_lap_data_total_time [OF this conjunct1 [OF a]] f
  show "map_of d ''total_time'' = Some (VTimedelta (65 * 1000000))"
    using timedelta_minute by auto
qed

theorem mile_and_minute_fidelity_witness:
  "float_str sample_lib = python_float \<and>
   (find_child mile_lap (qn NAMESPACES ''ns'' ''DistanceMeters'') =
      Some (tcx_el ''ns'' ''DistanceMeters'' (Some ''1609.34'') []) \<and>
    text_of (tcx_el ''ns'' ''DistanceMeters'' (Some ''1609.34'') []) = Some ''1609.34'') \<and>
   (find_child mile_lap (qn NAMESPACES ''ns'' ''TotalTimeSeconds'') =
      Some (tcx_el ''ns'' ''TotalTimeSeconds'' (Some ''65.0'') []) \<and>
    text_of (tcx_el ''ns'' ''TotalTimeSeconds'' (Some ''65.0'') []) = Some ''65.0'') \<and>
   get_tcx_lap_data sample_lib mile_lap = Inr mile_lap_record \<and>
   map_of mile_lap_record ''distance'' = Some (VFloat (decimal_to_double 160934 (- 2))) \<and>
   map_of mile_lap_record ''total_time'' = Some (VTimedelta (65 * 1000000))"
proof -
  have h0: "float_str sample_lib = python_float"
    by (simp add: sample_lib_def python_lib_def)
  have h1: "find_child mile_lap (qn NAMESPACES ''ns'' ''DistanceMeters'') =
      Some (tcx_el ''ns'' ''DistanceMeters'' (Some ''1609.34'') []) \<and>
    text_of (tcx_el ''ns'' ''DistanceMeters'' (Some ''1609.34'') []) = Some ''1609.34''"
    by code_simp
  have h2: "find_child mile_lap (qn NAMESPACES ''ns'' ''TotalTimeSeconds'') =
      Some (tcx_el ''ns'' ''TotalTimeSeconds'' (Some ''65.0'') []) \<and>
    text_of (tcx_el ''ns'' ''TotalTimeSeconds'' (Some ''65.0'') []) = Some ''65.0''"
    by code_simp
  have h3: "get_tcx_lap_data sample_lib mile_lap = Inr mile_lap_record"
    by code_simp
  note t = mile_and_minute_fidelity [OF h0, where lap = mile_lap and lap' = mile_lap
      and e = "tcx_el ''ns'' ''DistanceMeters'' (Some ''1609.34'') []"
      and e' = "tcx_el ''ns'' ''TotalTimeSeconds'' (Some ''65.0'') []" and data = "[]"]
  note c1 = mp [OF t [THEN conjunct1] h1, THEN conjunct2, rule_format, OF h3]
  note c2 = mp [OF t [THEN conjunct2, THEN conjunct2] h2, THEN conjunct2, rule_format, OF h3]
  show ?thesis
    by (intro conjI h0 h1 h2 h3 c1 c2)
qed

section \<open>Claims about the assembler of format 2\<close>

lemma number_not_a_column:
  "map (cell (AList.update ''number'' v d)) (tl LAPS_COLUMN_NAMES) =
   map (cell d) (tl LAPS_COLUMN_NAMES)"
  by (simp add: LAPS_COLUMN_NAMES_def cell_update_other)

lemma number_of_numbered: "cell (AList.update ''number'' (VInt n) d) ''number'' = Some (VInt n)"
  by (simp add: cell_update_same)

text \<open>A lap record holds no \<^verbatim>\<open>None\<close>, so its row has the record's own values.\<close>

lemma lap_row: "get_tcx_lap_data L lap = Inr d \<Longrightarrow> map (cell d) cols = map (map_of d) cols"
  by (simp add: cell_map_of get_tcx_lap_data_no_None)

text \<open>
  C3.  Whenever \<^verbatim>\<open>get_dataframes\<close> returns, the lap table is keyed by \<^verbatim>\<open>number\<close>, it has one
  row for each \<^verbatim>\<open>Lap\<close> element of the activity, the row at position \<open>i\<close> (from 0) comes from
  the lap element at position \<open>i\<close> in document order and its number is \<open>i + 1\<close>: the numbers
  are exactly 1..N, whatever the file holds.  The lap extractor itself never sets
  \<^verbatim>\<open>number\<close>.
\<close>

theorem lap_numbers_sequential:
  "(get_dataframes L fname = Inr (laps_df, points_df) \<and> etree_parse L fname = Inr root \<and>
    first_activity root = Inr activity \<longrightarrow>
      index_name laps_df = Some ''number'' \<and>
      length (index laps_df) = length (findall activity (qn NAMESPACES ''ns'' ''Lap'')) \<and>
      length (rows laps_df) = length (findall activity (qn NAMESPACES ''ns'' ''Lap'')) \<and>
      (\<forall>i < length (findall activity (qn NAMESPACES ''ns'' ''Lap'')).
          index laps_df ! i = Some (VInt (int i + 1)) \<and>
          (\<exists>d. get_tcx_lap_data L (findall activity (qn NAMESPACES ''ns'' ''Lap'') ! i) = Inr d \<and>
               rows laps_df ! i = map (map_of d) (columns laps_df)))) \<and>
   (get_tcx_lap_data L lap = Inr d' \<longrightarrow> ''number'' \<notin> keys d')"
proof (intro conjI impI allI)
  let ?laps = "findall activity (qn NAMESPACES ''ns'' ''Lap'')"
  assume a: "get_dataframes L fname = Inr (laps_df, points_df) \<and>
    etree_parse L fname = Inr root \<and> first_activity root = Inr activity"
  then obtain laps_data points_data where
    loop: "laps_loop L 1 ?laps [] [] = Inr (laps_data, points_data)" and
    ldf: "laps_df =
       \<lparr>index_name = Some ''number'',
        index = map (\<lambda>d. cell d ''number'') laps_data,
        columns = tl LAPS_COLUMN_NAMES,
        rows = map (\<lambda>d. map (cell d) (tl LAPS_COLUMN_NAMES)) laps_data\<rparr>"
    by (auto elim!: get_dataframes_Inr)
  note r = laps_loop_result [OF loop]
  from r have len: "length laps_data = length ?laps"
    by simp
  show "index_name laps_df = Some ''number''"
    by (simp add: ldf)
  show "length (index laps_df) = length ?laps"
    by (simp add: ldf len)
  show "length (rows laps_df) = length ?laps"
    by (simp add: ldf len)
  fix i
  assume i: "i < length ?laps"
  with r obtain d where d: "get_tcx_lap_data L (?laps ! i) = Inr d"
    and di: "laps_data ! i = AList.update ''number'' (VInt (1 + int i)) d"
    by auto
  from i len have "index laps_df ! i = cell (laps_data ! i) ''number''"
    by (simp add: ldf)
  then show "index laps_df ! i = Some (VInt (int i + 1))"
    by (simp add: di number_of_numbered add.commute)
  from i len have "rows laps_df ! i = map (cell (laps_data ! i)) (columns laps_df)"
    by (simp add: ldf)
  then have "rows laps_df ! i = map (cell d) (columns laps_df)"
    by (simp add: di ldf number_not_a_column)
  then have "rows laps_df ! i = map (map_of d) (columns laps_df)"
    by (simp add: lap_row [OF d])
  with d show "\<exists>d. get_tcx_lap_data L (?laps ! i) = Inr d \<and>
      rows laps_df ! i = map (map_of d) (columns laps_df)"
    by blast
next
  assume "get_tcx_lap_data L lap = Inr d'"
  then show "''number'' \<notin> keys d'"
    by (rule get_tcx_lap_data_no_number)
qed

theorem lap_numbers_sequential_witness:
  "(get_dataframes sample_lib ''run.tcx'' = Inr (run_laps_table, run_points_table) \<and>
    etree_parse sample_lib ''run.tcx'' = Inr (tcx_root [mile_lap, plain_lap]) \<and>
    first_activity (tcx_root [mile_lap, plain_lap]) =
      Inr (tcx_activity [mile_lap, plain_lap])) \<and>
   findall (tcx_activity [mile_lap, plain_lap]) (qn NAMESPACES ''ns'' ''Lap'') =
     [mile_lap, plain_lap] \<and>
   index_name run_laps_table = Some ''number'' \<and>
   length (index run_laps_table) =
     length (findall (tcx_activity [mile_lap, plain_lap]) (qn NAMESPACES ''ns'' ''Lap'')) \<and>
   index run_laps_table = [Some (VInt 1), Some (VInt 2)] \<and>
   get_tcx_lap_data sample_lib mile_lap = Inr mile_lap_record \<and>
   ''number'' \<notin> keys mile_lap_record"
proof -
  have h1: "get_dataframes sample_lib ''run.tcx'' = Inr (run_laps_table, run_points_table) \<and>
    etree_parse sample_lib ''run.tcx'' = Inr (tcx_root [mile_lap, plain_lap]) \<and>
    first_activity (tcx_root [mile_lap, plain_lap]) =
      Inr (tcx_activity [mile_lap, plain_lap])"
    by (simp only: run_tcx run_tcx_root run_tcx_activity simp_thms)
  have h2: "get_tcx_lap_data sample_lib mile_lap = Inr mile_lap_record"
    by code_simp
  have e: "index run_laps_table = [Some (VInt 1), Some (VInt 2)]"
    by code_simp
  note t = lap_numbers_sequential [where L = sample_lib and fname = "''run.tcx''"
      and laps_df = run_laps_table and points_df = run_points_table
      and root = "tcx_root [mile_lap, plain_lap]"
      and activity = "tcx_activity [mile_lap, plain_lap]" and lap = mile_lap
      and d' = mile_lap_record]
  note c1 = mp [OF t [THEN conjunct1] h1]
  note c2 = mp [OF t [THEN conjunct2] h2]
  show ?thesis
    by (intro conjI h1 h2 e run_tcx_laps c1 [THEN conjunct1]
        c1 [THEN conjunct2, THEN conjunct1] c2)
qed

lemma run_gpx: "get_dataframe_from_gpx sample_lib ''run.gpx'' = Inr run_gpx_table"
  by code_simp

text \<open>A run of the outer loop over two stretches of laps is the run over the first, then the
  run over the second from where the first ended.\<close>

lemma laps_loop_append:
  "laps_loop L n (pre @ rest) ld pd =
   (case laps_loop L n pre ld pd of
      Inl e \<Rightarrow> Inl e
    | Inr (ld', pd') \<Rightarrow> laps_loop L (n + int (length pre)) rest ld' pd')"
proof (induction pre arbitrary: n ld pd)
  case Nil
  then show ?case by simp
next
  case (Cons lap pre)
  then show ?case
    by (simp add: ac_simps split: sum.splits option.splits)
qed

lemma laps_loop_trackless:
  "get_tcx_lap_data L lap = Inr d \<Longrightarrow>
   find_child lap (qn NAMESPACES ''ns'' ''Track'') = None \<Longrightarrow>
   laps_loop L n (lap # rest) ld pd = Inl AttributeError"
  by simp

text \<open>
  C9.  When some \<^verbatim>\<open>Lap\<close> element of the activity has no \<^verbatim>\<open>Track\<close> child,
  \<^verbatim>\<open>get_dataframes\<close> raises and returns no tables.  When the laps before that one were
  processed and the lap's own record was extracted, what it raises is the \<^verbatim>\<open>AttributeError\<close>
  of \<^verbatim>\<open>findall\<close> on the \<^verbatim>\<open>None\<close> that the lookup of \<^verbatim>\<open>Track\<close> gave: the lap is not emitted with
  zero points.
\<close>

theorem trackless_lap_aborts:
  "(etree_parse L fname = Inr root \<and> first_activity root = Inr activity \<and>
    lap \<in> set (findall activity (qn NAMESPACES ''ns'' ''Lap'')) \<and>
    find_child lap (qn NAMESPACES ''ns'' ''Track'') = None \<longrightarrow>
      (\<exists>e. get_dataframes L fname = Inl e)) \<and>
   (etree_parse L fname' = Inr root' \<and> first_activity root' = Inr activity' \<and>
    findall activity' (qn NAMESPACES ''ns'' ''Lap'') = pre @ lap' # post \<and>
    laps_loop L 1 pre [] [] = Inr (ld, pd) \<and>
    get_tcx_lap_data L lap' = Inr d \<and>
    find_child lap' (qn NAMESPACES ''ns'' ''Track'') = None \<longrightarrow>
      get_dataframes L fname' = Inl AttributeError)"
proof (intro conjI impI)
  let ?laps = "findall activity (qn NAMESPACES ''ns'' ''Lap'')"
  assume a: "etree_parse L fname = Inr root \<and> first_activity root = Inr activity \<and>
    lap \<in> set ?laps \<and> find_child lap (qn NAMESPACES ''ns'' ''Track'') = None"
  have "\<not> ok (laps_loop L 1 ?laps [] [])"
  proof
    assume "ok (laps_loop L 1 ?laps [] [])"
    then obtain ld' pd' where "laps_loop L 1 ?laps [] [] = Inr (ld', pd')"
      by (auto simp: ok_iff)
    from laps_loop_result [OF this] a show False
      by blast
  qed
  then obtain e where "laps_loop L 1 ?laps [] [] = Inl e"
    by (auto simp: not_ok_iff)
  with a show "\<exists>e. get_dataframes L fname = Inl e"
    by (simp add: get_dataframes_def)
next
  assume a: "etree_parse L fname' = Inr root' \<and> first_activity root' = Inr activity' \<and>
    findall activity' (qn NAMESPACES ''ns'' ''Lap'') = pre @ lap' # post \<and>
    laps_loop L 1 pre [] [] = Inr (ld, pd) \<and>
    get_tcx_lap_data L lap' = Inr d \<and>
    find_child lap' (qn NAMESPACES ''ns'' ''Track'') = None"
  then have "laps_loop L (1 + int (length pre)) (lap' # post) ld pd = Inl AttributeError"
    by (intro laps_loop_trackless) simp_all
  with a have "laps_loop L 1 (findall activity' (qn NAMESPACES ''ns'' ''Lap'')) [] [] =
      Inl AttributeError"
    by (simp add: laps_loop_append)
  with a show "get_dataframes L fname' = Inl AttributeError"
    by (simp add: get_dataframes_def)
qed

theorem trackless_lap_aborts_witness:
  "(etree_parse sample_lib ''stop.tcx'' = Inr (tcx_root [plain_lap, trackless_lap]) \<and>
    first_activity (tcx_root [plain_lap, trackless_lap]) =
      Inr (tcx_activity [plain_lap, trackless_lap]) \<and>
    trackless_lap \<in>
      set (findall (tcx_activity [plain_lap, trackless_lap]) (qn NAMESPACES ''ns'' ''Lap'')) \<and>
    find_child trackless_lap (qn NAMESPACES ''ns'' ''Track'') = None) \<and>
   (etree_parse sample_lib ''stop.tcx'' = Inr (tcx_root [plain_lap, trackless_lap]) \<and>
    first_activity (tcx_root [plain_lap, trackless_lap]) =
      Inr (tcx_activity [plain_lap, trackless_lap]) \<and>
    findall (tcx_activity [plain_lap, trackless_lap]) (qn NAMESPACES ''ns'' ''Lap'') =
      [plain_lap] @ trackless_lap # [] \<and>
    laps_loop sample_lib 1 [plain_lap] [] [] =
      Inr ([[(''start_time'', VDatetime (Datetime 2021 5 1 10 1 5)), (''number'', VInt 1)]],
           [plain_point_record @ [(''lap'', VInt 1)]]) \<and>
    get_tcx_lap_data sample_lib trackless_lap =
      Inr [(''start_time'', VDatetime (Datetime 2021 5 1 10 2 0)),
           (''distance'', VFloat (Fin 0 0))] \<and>
    find_child trackless_lap (qn NAMESPACES ''ns'' ''Track'') = None) \<and>
   get_dataframes sample_lib ''stop.tcx'' = Inl AttributeError"
proof -
  have h1: "etree_parse sample_lib ''stop.tcx'' = Inr (tcx_root [plain_lap, trackless_lap]) \<and>
    first_activity (tcx_root [plain_lap, trackless_lap]) =
      Inr (tcx_activity [plain_lap, trackless_lap]) \<and>
    trackless_lap \<in>
      set (findall (tcx_activity [plain_lap, trackless_lap]) (qn NAMESPACES ''ns'' ''Lap'')) \<and>
    find_child trackless_lap (qn NAMESPACES ''ns'' ''Track'') = None"
    by code_simp
  have h2: "etree_parse sample_lib ''stop.tcx'' = Inr (tcx_root [plain_lap, trackless_lap]) \<and>
    first_activity (tcx_root [plain_lap, trackless_lap]) =
      Inr (tcx_activity [plain_lap, trackless_lap]) \<and>
    findall (tcx_activity [plain_lap, trackless_lap]) (qn NAMESPACES ''ns'' ''Lap'') =
      [plain_lap] @ trackless_lap # [] \<and>
    laps_loop sample_lib 1 [plain_lap] [] [] =
      Inr ([[(''start_time'', VDatetime (Datetime 2021 5 1 10 1 5)), (''number'', VInt 1)]],
           [plain_point_record @ [(''lap'', VInt 1)]]) \<and>
    get_tcx_lap_data sample_lib trackless_lap =
      Inr [(''start_time'', VDatetime (Datetime 2021 5 1 10 2 0)),
           (''distance'', VFloat (Fin 0 0))] \<and>
    find_child trackless_lap (qn NAMESPACES ''ns'' ''Track'') = None"
    by code_simp
  note t = trackless_lap_aborts [where L = sample_lib and fname = "''stop.tcx''"
      and root = "tcx_root [plain_lap, trackless_lap]"
      and activity = "tcx_activity [plain_lap, trackless_lap]" and lap = trackless_lap
      and fname' = "''stop.tcx''" and root' = "tcx_root [plain_lap, trackless_lap]"
      and activity' = "tcx_activity [plain_lap, trackless_lap]" and pre = "[plain_lap]"
      and lap' = trackless_lap and post = "[]"
      and ld = "[[(''start_time'', VDatetime (Datetime 2021 5 1 10 1 5)), (''number'', VInt 1)]]"
      and pd = "[plain_point_record @ [(''lap'', VInt 1)]]"
      and d = "[(''start_time'', VDatetime (Datetime 2021 5 1 10 2 0)),
           (''distance'', VFloat (Fin 0 0))]"]
  note c2 = mp [OF t [THEN conjunct2] h2]
  show ?thesis
    by (intro conjI h1 h2 c2)
qed

section \<open>Claims about format 1\<close>

lemma gpx_heart_rate_absent:
  "find_child elem (qn GPX_NAMESPACES ''garmin_tpe'' ''hr'') = None \<Longrightarrow>
   gpx_heart_rate L elem data = Inr data"
  by (simp add: gpx_heart_rate_def dot_text_def except_AttributeError_pass_def)

lemma gpx_heart_rate_present:
  "find_child elem (qn GPX_NAMESPACES ''garmin_tpe'' ''hr'') = Some e \<Longrightarrow>
   py_int L (text_of e) = Inr n \<Longrightarrow>
   gpx_heart_rate L elem data = Inr (AList.update ''heart_rate'' (VInt n) data)"
  by (simp add: gpx_heart_rate_def dot_text_def except_AttributeError_pass_def)

lemma gpx_cadence_absent:
  "find_child elem (qn GPX_NAMESPACES ''garmin_tpe'' ''cad'') = None \<Longrightarrow>
   gpx_cadence L elem data = Inr data"
  by (simp add: gpx_cadence_def dot_text_def except_AttributeError_pass_def)

lemma gpx_cadence_present:
  "find_child elem (qn GPX_NAMESPACES ''garmin_tpe'' ''cad'') = Some e \<Longrightarrow>
   py_int L (text_of e) = Inr n \<Longrightarrow>
   gpx_cadence L elem data = Inr (AList.update ''cadence'' (VInt n) data)"
  by (simp add: gpx_cadence_def dot_text_def except_AttributeError_pass_def)

text \<open>With a readable tag, the statement returns and sets its key exactly when the tag is there.\<close>

lemma gpx_heart_rate_readable:
  assumes "gpx_tag_readable L elem ''hr''"
  shows "\<exists>data'. gpx_heart_rate L elem data = Inr data' \<and> sets_only ''heart_rate'' data data' \<and>
           (find_child elem (qn GPX_NAMESPACES ''garmin_tpe'' ''hr'') = None \<longrightarrow> data' = data) \<and>
           (find_child elem (qn GPX_NAMESPACES ''garmin_tpe'' ''hr'') \<noteq> None \<longrightarrow>
              ''heart_rate'' \<in> keys data')"
proof (cases "find_child elem (qn GPX_NAMESPACES ''garmin_tpe'' ''hr'')")
  case None
  then show ?thesis
    by (simp add: gpx_heart_rate_absent)
next
  case (Some e)
  with assms obtain n where "py_int L (text_of e) = Inr n"
    by (auto simp: gpx_tag_readable_def ok_iff)
  with Some show ?thesis
    by (simp add: gpx_heart_rate_present)
qed

lemma gpx_cadence_readable:
  assumes "gpx_tag_readable L elem ''cad''"
  shows "\<exists>data'. gpx_cadence L elem data = Inr data' \<and> sets_only ''cadence'' data data' \<and>
           (find_child elem (qn GPX_NAMESPACES ''garmin_tpe'' ''cad'') = None \<longrightarrow> data' = data) \<and>
           (find_child elem (qn GPX_NAMESPACES ''garmin_tpe'' ''cad'') \<noteq> None \<longrightarrow>
              ''cadence'' \<in> keys data')"
proof (cases "find_child elem (qn GPX_NAMESPACES ''garmin_tpe'' ''cad'')")
  case None
  then show ?thesis
    by (simp add: gpx_cadence_absent)
next
  case (Some e)
  with assms obtain n where "py_int L (text_of e) = Inr n"
    by (auto simp: gpx_tag_readable_def ok_iff)
  with Some show ?thesis
    by (simp add: gpx_cadence_present)
qed

lemma gpx_points_loop_length:
  "gpx_points_loop L ps = Inr ds \<Longrightarrow> length ds = length ps"
  by (induction ps arbitrary: ds) (auto split: sum.splits)

text \<open>
  C5, as the claim states it, fails: a track point with one extension block that lacks the
  heart-rate tag and whose cadence element is empty does not give a record; \<^verbatim>\<open>int(None)\<close>
  raises a \<^verbatim>\<open>TypeError\<close>, which the \<^verbatim>\<open>except AttributeError\<close> clause lets through.
\<close>

theorem empty_tag_counterexample:
  "extensions gpx_empty_cad_point =
     [gpx_el ''TrackPointExtension'' None [gpx_el ''cad'' None []]] \<and>
   find_child (gpx_el ''TrackPointExtension'' None [gpx_el ''cad'' None []])
     (qn GPX_NAMESPACES ''garmin_tpe'' ''hr'') = None \<and>
   get_gpx_point_data sample_lib gpx_empty_cad_point = Inl TypeError"
  by code_simp

text \<open>
  C5, amended.  For every format-1 track point in whose first extension block each of the
  heart-rate and cadence tags is absent or holds text that \<^verbatim>\<open>int\<close> accepts,
  \<^verbatim>\<open>get_gpx_point_data\<close> returns exactly one record; \<^verbatim>\<open>latitude\<close>, \<^verbatim>\<open>longitude\<close>, \<^verbatim>\<open>elevation\<close>
  and \<^verbatim>\<open>time\<close> are populated from the point, \<^verbatim>\<open>heart_rate\<close> and \<^verbatim>\<open>cadence\<close> are present
  exactly when their tag is, and a field whose tag is absent is omitted: its statement raises
  nothing and stores no default value.  Whenever the assembler returns, its table has one
  row for each point of the segment.
\<close>

theorem gpx_point_one_record:
  "(extensions point = elem # others \<and> gpx_tag_readable L elem ''hr'' \<and>
    gpx_tag_readable L elem ''cad'' \<longrightarrow>
      (\<exists>d. get_gpx_point_data L point = Inr d \<and>
           map_of d ''latitude'' = Some (latitude point) \<and>
           map_of d ''longitude'' = Some (longitude point) \<and>
           map_of d ''elevation'' = Some (elevation point) \<and>
           map_of d ''time'' = Some (time point) \<and>
           (''heart_rate'' \<in> keys d \<longleftrightarrow>
              find_child elem (qn GPX_NAMESPACES ''garmin_tpe'' ''hr'') \<noteq> None) \<and>
           (''cadence'' \<in> keys d \<longleftrightarrow>
              find_child elem (qn GPX_NAMESPACES ''garmin_tpe'' ''cad'') \<noteq> None))) \<and>
   (find_child elem' (qn GPX_NAMESPACES ''garmin_tpe'' ''hr'') = None \<longrightarrow>
      gpx_heart_rate L elem' data = Inr data) \<and>
   (find_child elem' (qn GPX_NAMESPACES ''garmin_tpe'' ''cad'') = None \<longrightarrow>
      gpx_cadence L elem' data = Inr data) \<and>
   (get_dataframe_from_gpx L fname = Inr df \<and> open_file L fname = Inr f \<and>
    gpxpy_parse L f = Inr g \<and> tracks g = track # ts \<and> segments track = segment # ss \<longrightarrow>
      length (rows df) = length (points segment))"
proof (intro conjI impI)
  let ?data = "[(''latitude'', latitude point), (''longitude'', longitude point),
                  (''elevation'', elevation point), (''time'', time point)]"
  assume a: "extensions point = elem # others \<and> gpx_tag_readable L elem ''hr'' \<and>
    gpx_tag_readable L elem ''cad''"
  from a have "gpx_tag_readable L elem ''hr''"
    by simp
  from gpx_heart_rate_readable [OF this, of ?data] obtain d1 where
    h: "gpx_heart_rate L elem ?data = Inr d1" and
    h1: "sets_only ''heart_rate'' ?data d1" and
    h2: "find_child elem (qn GPX_NAMESPACES ''garmin_tpe'' ''hr'') = None \<longrightarrow> d1 = ?data" and
    h3: "find_child elem (qn GPX_NAMESPACES ''garmin_tpe'' ''hr'') \<noteq> None \<longrightarrow>
           ''heart_rate'' \<in> keys d1"
    by (elim exE conjE) (rule that)
  from a have "gpx_tag_readable L elem ''cad''"
    by simp
  from gpx_cadence_readable [OF this, of d1] obtain d where
    c: "gpx_cadence L elem d1 = Inr d" and
    c1: "sets_only ''cadence'' d1 d" and
    c2: "find_child elem (qn GPX_NAMESPACES ''garmin_tpe'' ''cad'') = None \<longrightarrow> d = d1" and
    c3: "find_child elem (qn GPX_NAMESPACES ''garmin_tpe'' ''cad'') \<noteq> None \<longrightarrow>
           ''cadence'' \<in> keys d"
    by (elim exE conjE) (rule that)
  have r: "get_gpx_point_data L point = Inr d"
    using a h c by (simp add: get_gpx_point_data_def getitem0_def)
  have m: "map_of d k = map_of ?data k" if "k \<noteq> ''heart_rate''" "k \<noteq> ''cadence''" for k
    using sets_only_map_of [OF c1 that(2)] sets_only_map_of [OF h1 that(1)] by simp
  have f1: "map_of d ''latitude'' = Some (latitude point)"
    by (simp add: m)
  have f2: "map_of d ''longitude'' = Some (longitude point)"
    by (simp add: m)
  have f3: "map_of d ''elevation'' = Some (elevation point)"
    by (simp add: m)
  have f4: "map_of d ''time'' = Some (time point)"
    by (simp add: m)
  have k1: "''heart_rate'' \<in> keys d \<longleftrightarrow>
      find_child elem (qn GPX_NAMESPACES ''garmin_tpe'' ''hr'') \<noteq> None"
  proof (cases "find_child elem (qn GPX_NAMESPACES ''garmin_tpe'' ''hr'')")
    case None
    with h2 have "''heart_rate'' \<notin> keys d1"
      by simp
    then have "''heart_rate'' \<notin> keys d"
      by (rule sets_only_notin [OF c1, rotated]) simp
    with None show ?thesis by simp
  next
    case (Some e)
    with h3 sets_only_keys_lower [OF c1] show ?thesis by auto
  qed
  have k2: "''cadence'' \<in> keys d \<longleftrightarrow>
      find_child elem (qn GPX_NAMESPACES ''garmin_tpe'' ''cad'') \<noteq> None"
  proof (cases "find_child elem (qn GPX_NAMESPACES ''garmin_tpe'' ''cad'')")
    case None
    have "''cadence'' \<notin> keys d1"
      by (rule sets_only_notin [OF h1]) simp_all
    with None c2 show ?thesis by simp
  next
    case (Some e)
    with c3 show ?thesis by simp
  qed
  from r f1 f2 f3 f4 k1 k2
  show "\<exists>d. get_gpx_point_data L point = Inr d \<and>
           map_of d ''latitude'' = Some (latitude point) \<and>
           map_of d ''longitude'' = Some (longitude point) \<and>
           map_of d ''elevation'' = Some (elevation point) \<and>
           map_of d ''time'' = Some (time point) \<and>
           (''heart_rate'' \<in> keys d \<longleftrightarrow>
              find_child elem (qn GPX_NAMESPACES ''garmin_tpe'' ''hr'') \<noteq> None) \<and>
           (''cadence'' \<in> keys d \<longleftrightarrow>
              find_child elem (qn GPX_NAMESPACES ''garmin_tpe'' ''cad'') \<noteq> None)"
    by (intro exI [of _ d] conjI)
next
  assume "find_child elem' (qn GPX_NAMESPACES ''garmin_tpe'' ''hr'') = None"
  then show "gpx_heart_rate L elem' data = Inr data"
    by (rule gpx_heart_rate_absent)
next
  assume "find_child elem' (qn GPX_NAMESPACES ''garmin_tpe'' ''cad'') = None"
  then show "gpx_cadence L elem' data = Inr data"
    by (rule gpx_cadence_absent)
next
  assume a: "get_dataframe_from_gpx L fname = Inr df \<and> open_file L fname = Inr f \<and>
    gpxpy_parse L f = Inr g \<and> tracks g = track # ts \<and> segments track = segment # ss"
  then obtain data where "gpx_points_loop L (points segment) = Inr data"
    and "df = DataFrame data COLUMN_NAMES"
    by (auto simp: get_dataframe_from_gpx_def getitem0_def and_then_eq_Inr)
  then show "length (rows df) = length (points segment)"
    by (simp add: DataFrame_def gpx_points_loop_length)
qed

lemma run_gpx_parts:
  "open_file sample_lib ''run.gpx'' = Inr ''run.gpx'' \<and>
   gpxpy_parse sample_lib ''run.gpx'' =
     Inr \<lparr>tracks = [\<lparr>segments = [\<lparr>points = [gpx_full_point, gpx_plain_point]\<rparr>]\<rparr>]\<rparr> \<and>
   tracks \<lparr>tracks = [\<lparr>segments = [\<lparr>points = [gpx_full_point, gpx_plain_point]\<rparr>]\<rparr>]\<rparr> =
     \<lparr>segments = [\<lparr>points = [gpx_full_point, gpx_plain_point]\<rparr>]\<rparr> # [] \<and>
   segments \<lparr>segments = [\<lparr>points = [gpx_full_point, gpx_plain_point]\<rparr>]\<rparr> =
     \<lparr>points = [gpx_full_point, gpx_plain_point]\<rparr> # []"
  by code_simp

theorem gpx_point_one_record_witness:
  "(extensions gpx_plain_point = gpx_el ''TrackPointExtension'' None [] # [] \<and>
    gpx_tag_readable sample_lib (gpx_el ''TrackPointExtension'' None []) ''hr'' \<and>
    gpx_tag_readable sample_lib (gpx_el ''TrackPointExtension'' None []) ''cad'') \<and>
   find_child (gpx_el ''TrackPointExtension'' None [])
     (qn GPX_NAMESPACES ''garmin_tpe'' ''hr'') = None \<and>
   find_child (gpx_el ''TrackPointExtension'' None [])
     (qn GPX_NAMESPACES ''garmin_tpe'' ''cad'') = None \<and>
   gpx_heart_rate sample_lib (gpx_el ''TrackPointExtension'' None []) [] = Inr [] \<and>
   gpx_cadence sample_lib (gpx_el ''TrackPointExtension'' None []) [] = Inr [] \<and>
   get_gpx_point_data sample_lib gpx_plain_point =
     Inr [(''latitude'', latitude gpx_plain_point), (''longitude'', longitude gpx_plain_point),
          (''elevation'', elevation gpx_plain_point), (''time'', time gpx_plain_point)] \<and>
   (get_dataframe_from_gpx sample_lib ''run.gpx'' = Inr run_gpx_table \<and>
    open_file sample_lib ''run.gpx'' = Inr ''run.gpx'' \<and>
    gpxpy_parse sample_lib ''run.gpx'' =
      Inr \<lparr>tracks = [\<lparr>segments = [\<lparr>points = [gpx_full_point, gpx_plain_point]\<rparr>]\<rparr>]\<rparr> \<and>
    tracks \<lparr>tracks = [\<lparr>segments = [\<lparr>points = [gpx_full_point, gpx_plain_point]\<rparr>]\<rparr>]\<rparr> =
      \<lparr>segments = [\<lparr>points = [gpx_full_point, gpx_plain_point]\<rparr>]\<rparr> # [] \<and>
    segments \<lparr>segments = [\<lparr>points = [gpx_full_point, gpx_plain_point]\<rparr>]\<rparr> =
      \<lparr>points = [gpx_full_point, gpx_plain_point]\<rparr> # []) \<and>
   length (rows run_gpx_table) = length (points \<lparr>points = [gpx_full_point, gpx_plain_point]\<rparr>)"
proof -
  let ?block = "gpx_el ''TrackPointExtension'' None []"
  have h1: "extensions gpx_plain_point = ?block # [] \<and>
    gpx_tag_readable sample_lib ?block ''hr'' \<and> gpx_tag_readable sample_lib ?block ''cad''"
    by code_simp
  have h2: "find_child ?block (qn GPX_NAMESPACES ''garmin_tpe'' ''hr'') = None"
    by code_simp
  have h3: "find_child ?block (qn GPX_NAMESPACES ''garmin_tpe'' ''cad'') = None"
    by code_simp
  have h4: "get_dataframe_from_gpx sample_lib ''run.gpx'' = Inr run_gpx_table \<and>
    open_file sample_lib ''run.gpx'' = Inr ''run.gpx'' \<and>
    gpxpy_parse sample_lib ''run.gpx'' =
      Inr \<lparr>tracks = [\<lparr>segments = [\<lparr>points = [gpx_full_point, gpx_plain_point]\<rparr>]\<rparr>]\<rparr> \<and>
    tracks \<lparr>tracks = [\<lparr>segments = [\<lparr>points = [gpx_full_point, gpx_plain_point]\<rparr>]\<rparr>]\<rparr> =
      \<lparr>segments = [\<lparr>points = [gpx_full_point, gpx_plain_point]\<rparr>]\<rparr> # [] \<and>
    segments \<lparr>segments = [\<lparr>points = [gpx_full_point, gpx_plain_point]\<rparr>]\<rparr> =
      \<lparr>points = [gpx_full_point, gpx_plain_point]\<rparr> # []"
    by (intro conjI run_gpx run_gpx_parts [THEN conjunct1]
        run_gpx_parts [THEN conjunct2, THEN conjunct1]
        run_gpx_parts [THEN conjunct2, THEN conjunct2, THEN conjunct1]
        run_gpx_parts [THEN conjunct2, THEN conjunct2, THEN conjunct2])
  have e: "get_gpx_point_data sample_lib gpx_plain_point =
     Inr [(''latitude'', latitude gpx_plain_point), (''longitude'', longitude gpx_plain_point),
          (''elevation'', elevation gpx_plain_point), (''time'', time gpx_plain_point)]"
    by code_simp
  note t = gpx_point_one_record [where L = sample_lib and point = gpx_plain_point
      and elem = ?block and others = "[]" and elem' = ?block and data = "[]"
      and fname = "''run.gpx''" and df = run_gpx_table and f = "''run.gpx''"
      and g = "\<lparr>tracks = [\<lparr>segments = [\<lparr>points = [gpx_full_point, gpx_plain_point]\<rparr>]\<rparr>]\<rparr>"
      and track = "\<lparr>segments = [\<lparr>points = [gpx_full_point, gpx_plain_point]\<rparr>]\<rparr>"
      and ts = "[]" and segment = "\<lparr>points = [gpx_full_point, gpx_plain_point]\<rparr>"
      and ss = "[]"]
  note c2 = mp [OF t [THEN conjunct2, THEN conjunct1] h2]
  note c3 = mp [OF t [THEN conjunct2, THEN conjunct2, THEN conjunct1] h3]
  note c4 = mp [OF t [THEN conjunct2, THEN conjunct2, THEN conjunct2] h4]
  show ?thesis
    by (intro conjI h1 h2 h3 h4 e c2 c3 c4)
qed

section \<open>The columns and the null cells of the tables\<close>

lemma gpx_points_loop_nth:
  "gpx_points_loop L ps = Inr ds \<Longrightarrow> i < length ps \<Longrightarrow>
   get_gpx_point_data L (ps ! i) = Inr (ds ! i)"
proof (induction ps arbitrary: ds i)
  case Nil
  then show ?case by simp
next
  case (Cons p ps)
  from Cons.prems(1) obtain d ds' where
    d: "get_gpx_point_data L p = Inr d" and
    r: "gpx_points_loop L ps = Inr ds'" and
    ds: "ds = d # ds'"
    by (auto split: sum.splits)
  show ?case
  proof (cases i)
    case 0
    with d ds show ?thesis by simp
  next
    case (Suc k)
    with Cons.prems(2) have "k < length ps"
      by simp
    from Cons.IH [OF r this] Suc ds show ?thesis
      by simp
  qed
qed

lemma tcx_tables:
  assumes "get_dataframes L fname = Inr (laps_df, points_df)"
    and "etree_parse L fname = Inr root"
    and "first_activity root = Inr activity"
  shows "index_name laps_df = Some ''number'' \<and>
      ''number'' # columns laps_df = LAPS_COLUMN_NAMES \<and>
      columns points_df = POINTS_COLUMN_NAMES \<and>
      length (rows laps_df) = length (findall activity (qn NAMESPACES ''ns'' ''Lap'')) \<and>
      (\<forall>i < length (findall activity (qn NAMESPACES ''ns'' ''Lap'')).
          \<exists>d. get_tcx_lap_data L (findall activity (qn NAMESPACES ''ns'' ''Lap'') ! i) = Inr d \<and>
              rows laps_df ! i = map (cell d) (columns laps_df) \<and>
              (\<forall>j < length (columns laps_df).
                  columns laps_df ! j \<notin> keys d \<longrightarrow> rows laps_df ! i ! j = None)) \<and>
      rows points_df =
        map (\<lambda>d. map (cell d) (columns points_df))
          (tcx_point_records L 1 (findall activity (qn NAMESPACES ''ns'' ''Lap''))) \<and>
      (\<forall>i < length (rows points_df). \<forall>j < length (columns points_df).
          columns points_df ! j \<notin>
            keys (tcx_point_records L 1 (findall activity (qn NAMESPACES ''ns'' ''Lap'')) ! i) \<longrightarrow>
          rows points_df ! i ! j = None)"
proof -
  let ?laps = "findall activity (qn NAMESPACES ''ns'' ''Lap'')"
  from assms obtain laps_data points_data where
    loop: "laps_loop L 1 ?laps [] [] = Inr (laps_data, points_data)" and
    ldf: "laps_df =
       \<lparr>index_name = Some ''number'',
        index = map (\<lambda>d. cell d ''number'') laps_data,
        columns = tl LAPS_COLUMN_NAMES,
        rows = map (\<lambda>d. map (cell d) (tl LAPS_COLUMN_NAMES)) laps_data\<rparr>" and
    pdf: "points_df = DataFrame points_data POINTS_COLUMN_NAMES"
    by (auto elim!: get_dataframes_Inr)
  note r = laps_loop_result [OF loop]
  from r have len: "length laps_data = length ?laps"
    by simp
  from laps_loop_points [OF loop] have pts: "points_data = tcx_point_records L 1 ?laps"
    by simp
  have f1: "index_name laps_df = Some ''number''"
    by (simp add: ldf)
  have f2: "''number'' # columns laps_df = LAPS_COLUMN_NAMES"
    by (simp add: ldf LAPS_COLUMN_NAMES_def)
  have f3: "columns points_df = POINTS_COLUMN_NAMES"
    by (simp add: pdf DataFrame_def)
  have f4: "length (rows laps_df) = length ?laps"
    by (simp add: ldf len)
  have f5: "\<forall>i < length ?laps.
      \<exists>d. get_tcx_lap_data L (?laps ! i) = Inr d \<and>
          rows laps_df ! i = map (cell d) (columns laps_df) \<and>
          (\<forall>j < length (columns laps_df).
              columns laps_df ! j \<notin> keys d \<longrightarrow> rows laps_df ! i ! j = None)"
  proof (intro allI impI)
    fix i
    assume i: "i < length ?laps"
    with r obtain d where d: "get_tcx_lap_data L (?laps ! i) = Inr d"
      and di: "laps_data ! i = AList.update ''number'' (VInt (1 + int i)) d"
      by auto
    from i len have "rows laps_df ! i = map (cell (laps_data ! i)) (columns laps_df)"
      by (simp add: ldf)
    then have row: "rows laps_df ! i = map (cell d) (columns laps_df)"
      by (simp add: di ldf number_not_a_column)
    note nul = row_null_cells [OF row]
    show "\<exists>d. get_tcx_lap_data L (?laps ! i) = Inr d \<and>
          rows laps_df ! i = map (cell d) (columns laps_df) \<and>
          (\<forall>j < length (columns laps_df).
              columns laps_df ! j \<notin> keys d \<longrightarrow> rows laps_df ! i ! j = None)"
      by (intro exI [of _ d] conjI d row nul)
  qed
  have f6: "rows points_df =
      map (\<lambda>d. map (cell d) (columns points_df)) (tcx_point_records L 1 ?laps)"
    by (simp add: pdf pts DataFrame_def)
  have f7: "\<forall>i < length (rows points_df). \<forall>j < length (columns points_df).
      columns points_df ! j \<notin> keys (tcx_point_records L 1 ?laps ! i) \<longrightarrow>
      rows points_df ! i ! j = None"
    by (simp add: f6 cell_absent)
  show ?thesis
    by (intro conjI f1 f2 f3 f4 f5 f6 f7)
qed

lemma gpx_table:
  assumes "get_dataframe_from_gpx L fname = Inr df"
    and "open_file L fname = Inr f"
    and "gpxpy_parse L f = Inr g"
    and "tracks g = track # ts"
    and "segments track = segment # ss"
  shows "index_name df = None \<and>
      columns df = COLUMN_NAMES \<and>
      length (rows df) = length (points segment) \<and>
      (\<forall>i < length (points segment).
          \<exists>d. get_gpx_point_data L (points segment ! i) = Inr d \<and>
              rows df ! i = map (cell d) (columns df) \<and>
              (\<forall>j < length (columns df).
                  columns df ! j \<notin> keys d \<longrightarrow> rows df ! i ! j = None))"
proof -
  from assms obtain data where loop: "gpx_points_loop L (points segment) = Inr data"
    and df: "df = DataFrame data COLUMN_NAMES"
    by (auto simp: get_dataframe_from_gpx_def getitem0_def and_then_eq_Inr)
  note len = gpx_points_loop_length [OF loop]
  have f1: "index_name df = None"
    by (simp add: df DataFrame_def)
  have f2: "columns df = COLUMN_NAMES"
    by (simp add: df DataFrame_def)
  have f3: "length (rows df) = length (points segment)"
    by (simp add: df DataFrame_def len)
  have f4: "\<forall>i < length (points segment).
      \<exists>d. get_gpx_point_data L (points segment ! i) = Inr d \<and>
          rows df ! i = map (cell d) (columns df) \<and>
          (\<forall>j < length (columns df). columns df ! j \<notin> keys d \<longrightarrow> rows df ! i ! j = None)"
  proof (intro allI impI)
    fix i
    assume i: "i < length (points segment)"
    note d = gpx_points_loop_nth [OF loop i]
    from i len have row: "rows df ! i = map (cell (data ! i)) (columns df)"
      by (simp add: df DataFrame_def)
    note nul = row_null_cells [OF row]
    show "\<exists>d. get_gpx_point_data L (points segment ! i) = Inr d \<and>
          rows df ! i = map (cell d) (columns df) \<and>
          (\<forall>j < length (columns df). columns df ! j \<notin> keys d \<longrightarrow> rows df ! i ! j = None)"
      by (intro exI [of _ "data ! i"] conjI d row nul)
  qed
  show ?thesis
    by (intro conjI f1 f2 f3 f4)
qed

text \<open>
  C7.  Whenever an assembler returns, its tables have the declared columns in the declared
  order, whatever the records hold, and every row is made from the record of its own lap or
  point of the file.  For format 2: the lap table has \<^verbatim>\<open>number\<close> as its key column followed
  by the other labels of \<^verbatim>\<open>LAPS_COLUMN_NAMES\<close> in order (\<^verbatim>\<open>set_index\<close> makes the first declared
  column the index), and its row \<open>i\<close> is made from the record that \<^verbatim>\<open>get_tcx_lap_data\<close> returns
  on the \<open>i\<close>-th \<^verbatim>\<open>Lap\<close> element of the activity; the point table has exactly
  \<^verbatim>\<open>POINTS_COLUMN_NAMES\<close>, and its rows are made, in order, from the records that
  \<^verbatim>\<open>get_tcx_point_data\<close> returns on the track points of these laps, each with its lap number.
  For format 1: the table has exactly \<^verbatim>\<open>COLUMN_NAMES\<close>, and its row \<open>i\<close> is made from the record
  that \<^verbatim>\<open>get_gpx_point_data\<close> returns on the \<open>i\<close>-th point of the first segment of the first
  track of the parsed file.  In each of the three tables, a row whose record has no key for
  a column has the null cell in that column.
\<close>

theorem tables_have_declared_columns:
  "(get_dataframes L fname = Inr (laps_df, points_df) \<and> etree_parse L fname = Inr root \<and>
    first_activity root = Inr activity \<longrightarrow>
      index_name laps_df = Some ''number'' \<and>
      ''number'' # columns laps_df = LAPS_COLUMN_NAMES \<and>
      columns points_df = POINTS_COLUMN_NAMES \<and>
      length (rows laps_df) = length (findall activity (qn NAMESPACES ''ns'' ''Lap'')) \<and>
      (\<forall>i < length (findall activity (qn NAMESPACES ''ns'' ''Lap'')).
          \<exists>d. get_tcx_lap_data L (findall activity (qn NAMESPACES ''ns'' ''Lap'') ! i) = Inr d \<and>
              rows laps_df ! i = map (cell d) (columns laps_df) \<and>
              (\<forall>j < length (columns laps_df).
                  columns laps_df ! j \<notin> keys d \<longrightarrow> rows laps_df ! i ! j = None)) \<and>
      rows points_df =
        map (\<lambda>d. map (cell d) (columns points_df))
          (tcx_point_records L 1 (findall activity (qn NAMESPACES ''ns'' ''Lap''))) \<and>
      (\<forall>i < length (rows points_df). \<forall>j < length (columns points_df).
          columns points_df ! j \<notin>
            keys (tcx_point_records L 1 (findall activity (qn NAMESPACES ''ns'' ''Lap'')) ! i) \<longrightarrow>
          rows points_df ! i ! j = None)) \<and>
   (get_dataframe_from_gpx L fname' = Inr df \<and> open_file L fname' = Inr f \<and>
    gpxpy_parse L f = Inr g \<and> tracks g = track # ts \<and> segments track = segment # ss \<longrightarrow>
      index_name df = None \<and>
      columns df = COLUMN_NAMES \<and>
      length (rows df) = length (points segment) \<and>
      (\<forall>i < length (points segment).
          \<exists>d. get_gpx_point_data L (points segment ! i) = Inr d \<and>
              rows df ! i = map (cell d) (columns df) \<and>
              (\<forall>j < length (columns df).
                  columns df ! j \<notin> keys d \<longrightarrow> rows df ! i ! j = None)))"
proof (intro conjI impI)
  assume "get_dataframes L fname = Inr (laps_df, points_df) \<and> etree_parse L fname = Inr root \<and>
    first_activity root = Inr activity"
  then have a: "get_dataframes L fname = Inr (laps_df, points_df)"
    "etree_parse L fname = Inr root" "first_activity root = Inr activity"
    by simp_all
  note t = tcx_tables [OF a]
  from t show "index_name laps_df = Some ''number''"
    by (rule conjunct1)
  from t show "''number'' # columns laps_df = LAPS_COLUMN_NAMES"
    by (elim conjE)
  from t show "columns points_df = POINTS_COLUMN_NAMES"
    by (elim conjE)
  from t show "length (rows laps_df) = length (findall activity (qn NAMESPACES ''ns'' ''Lap''))"
    by (elim conjE)
  from t show "\<forall>i < length (findall activity (qn NAMESPACES ''ns'' ''Lap'')).
          \<exists>d. get_tcx_lap_data L (findall activity (qn NAMESPACES ''ns'' ''Lap'') ! i) = Inr d \<and>
              rows laps_df ! i = map (cell d) (columns laps_df) \<and>
              (\<forall>j < length (columns laps_df).
                  columns laps_df ! j \<notin> keys d \<longrightarrow> rows laps_df ! i ! j = None)"
    by (elim conjE)
  from t show "rows points_df =
        map (\<lambda>d. map (cell d) (columns points_df))
          (tcx_point_records L 1 (findall activity (qn NAMESPACES ''ns'' ''Lap'')))"
    by (elim conjE)
  from t show "\<forall>i < length (rows points_df). \<forall>j < length (columns points_df).
          columns points_df ! j \<notin>
            keys (tcx_point_records L 1 (findall activity (qn NAMESPACES ''ns'' ''Lap'')) ! i) \<longrightarrow>
          rows points_df ! i ! j = None"
    by (elim conjE)
next
  assume "get_dataframe_from_gpx L fname' = Inr df \<and> open_file L fname' = Inr f \<and>
    gpxpy_parse L f = Inr g \<and> tracks g = track # ts \<and> segments track = segment # ss"
  then have a: "get_dataframe_from_gpx L fname' = Inr df" "open_file L fname' = Inr f"
    "gpxpy_parse L f = Inr g" "tracks g = track # ts" "segments track = segment # ss"
    by simp_all
  note t = gpx_table [OF a]
  from t show "index_name df = None"
    by (rule conjunct1)
  from t show "columns df = COLUMN_NAMES"
    by (elim conjE)
  from t show "length (rows df) = length (points segment)"
    by (elim conjE)
  from t show "\<forall>i < length (points segment).
          \<exists>d. get_gpx_point_data L (points segment ! i) = Inr d \<and>
              rows df ! i = map (cell d) (columns df) \<and>
              (\<forall>j < length (columns df).
                  columns df ! j \<notin> keys d \<longrightarrow> rows df ! i ! j = None)"
    by (elim conjE)
qed

theorem tables_have_declared_columns_witness:
  "(get_dataframes sample_lib ''run.tcx'' = Inr (run_laps_table, run_points_table) \<and>
    etree_parse sample_lib ''run.tcx'' = Inr (tcx_root [mile_lap, plain_lap]) \<and>
    first_activity (tcx_root [mile_lap, plain_lap]) =
      Inr (tcx_activity [mile_lap, plain_lap])) \<and>
   index_name run_laps_table = Some ''number'' \<and>
   ''number'' # columns run_laps_table = LAPS_COLUMN_NAMES \<and>
   columns run_points_table = POINTS_COLUMN_NAMES \<and>
   (1 :: nat) < length (rows run_points_table) \<and>
   (2 :: nat) < length (columns run_points_table) \<and>
   columns run_points_table ! 2 = ''elevation'' \<and>
   tcx_point_records sample_lib 1
     (findall (tcx_activity [mile_lap, plain_lap]) (qn NAMESPACES ''ns'' ''Lap'')) ! 1 =
     AList.update ''lap'' (VInt 2) plain_point_record \<and>
   rows run_points_table ! 1 ! 2 = None \<and>
   (get_dataframe_from_gpx sample_lib ''run.gpx'' = Inr run_gpx_table \<and>
    open_file sample_lib ''run.gpx'' = Inr ''run.gpx'' \<and>
    gpxpy_parse sample_lib ''run.gpx'' =
      Inr \<lparr>tracks = [\<lparr>segments = [\<lparr>points = [gpx_full_point, gpx_plain_point]\<rparr>]\<rparr>]\<rparr> \<and>
    tracks \<lparr>tracks = [\<lparr>segments = [\<lparr>points = [gpx_full_point, gpx_plain_point]\<rparr>]\<rparr>]\<rparr> =
      \<lparr>segments = [\<lparr>points = [gpx_full_point, gpx_plain_point]\<rparr>]\<rparr> # [] \<and>
    segments \<lparr>segments = [\<lparr>points = [gpx_full_point, gpx_plain_point]\<rparr>]\<rparr> =
      \<lparr>points = [gpx_full_point, gpx_plain_point]\<rparr> # []) \<and>
   index_name run_gpx_table = None \<and>
   columns run_gpx_table = COLUMN_NAMES \<and>
   get_gpx_point_data sample_lib gpx_plain_point =
     Inr [(''latitude'', latitude gpx_plain_point), (''longitude'', longitude gpx_plain_point),
          (''elevation'', elevation gpx_plain_point), (''time'', time gpx_plain_point)] \<and>
   columns run_gpx_table ! 4 = ''heart_rate'' \<and>
   rows run_gpx_table ! 1 ! 4 = None"
proof -
  let ?laps = "findall (tcx_activity [mile_lap, plain_lap]) (qn NAMESPACES ''ns'' ''Lap'')"
  let ?segment = "\<lparr>points = [gpx_full_point, gpx_plain_point]\<rparr>"
  let ?plain = "[(''latitude'', latitude gpx_plain_point),
    (''longitude'', longitude gpx_plain_point), (''elevation'', elevation gpx_plain_point),
    (''time'', time gpx_plain_point)]"
  have h1: "get_dataframes sample_lib ''run.tcx'' = Inr (run_laps_table, run_points_table) \<and>
    etree_parse sample_lib ''run.tcx'' = Inr (tcx_root [mile_lap, plain_lap]) \<and>
    first_activity (tcx_root [mile_lap, plain_lap]) =
      Inr (tcx_activity [mile_lap, plain_lap])"
    by (simp only: run_tcx run_tcx_root run_tcx_activity simp_thms)
  have h2: "get_dataframe_from_gpx sample_lib ''run.gpx'' = Inr run_gpx_table \<and>
    open_file sample_lib ''run.gpx'' = Inr ''run.gpx'' \<and>
    gpxpy_parse sample_lib ''run.gpx'' =
      Inr \<lparr>tracks = [\<lparr>segments = [\<lparr>points = [gpx_full_point, gpx_plain_point]\<rparr>]\<rparr>]\<rparr> \<and>
    tracks \<lparr>tracks = [\<lparr>segments = [\<lparr>points = [gpx_full_point, gpx_plain_point]\<rparr>]\<rparr>]\<rparr> =
      \<lparr>segments = [\<lparr>points = [gpx_full_point, gpx_plain_point]\<rparr>]\<rparr> # [] \<and>
    segments \<lparr>segments = [\<lparr>points = [gpx_full_point, gpx_plain_point]\<rparr>]\<rparr> =
      \<lparr>points = [gpx_full_point, gpx_plain_point]\<rparr> # []"
    by (intro conjI run_gpx run_gpx_parts [THEN conjunct1]
        run_gpx_parts [THEN conjunct2, THEN conjunct1]
        run_gpx_parts [THEN conjunct2, THEN conjunct2, THEN conjunct1]
        run_gpx_parts [THEN conjunct2, THEN conjunct2, THEN conjunct2])
  have i1: "(1 :: nat) < length (rows run_points_table)"
    by code_simp
  have j1: "(2 :: nat) < length (columns run_points_table)"
    by code_simp
  have k1: "columns run_points_table ! 2 = ''elevation''"
    by code_simp
  have r1: "tcx_point_records sample_lib 1 ?laps ! 1 =
      AList.update ''lap'' (VInt 2) plain_point_record"
    by code_simp
  have n1: "columns run_points_table ! 2 \<notin> keys (tcx_point_records sample_lib 1 ?laps ! 1)"
    unfolding k1 r1 by (simp add: plain_point_record_def)
  have e: "get_gpx_point_data sample_lib gpx_plain_point = Inr ?plain"
    by code_simp
  have i2: "(1 :: nat) < length (points ?segment)"
    by simp
  have j2: "(4 :: nat) < length (columns run_gpx_table)"
    by code_simp
  have k2: "columns run_gpx_table ! 4 = ''heart_rate''"
    by code_simp
  have n2: "columns run_gpx_table ! 4 \<notin> keys ?plain"
    unfolding k2 by simp
  note t = tables_have_declared_columns [where L = sample_lib and fname = "''run.tcx''"
      and laps_df = run_laps_table and points_df = run_points_table
      and root = "tcx_root [mile_lap, plain_lap]"
      and activity = "tcx_activity [mile_lap, plain_lap]"
      and fname' = "''run.gpx''" and df = run_gpx_table and f = "''run.gpx''"
      and g = "\<lparr>tracks = [\<lparr>segments = [\<lparr>points = [gpx_full_point, gpx_plain_point]\<rparr>]\<rparr>]\<rparr>"
      and track = "\<lparr>segments = [\<lparr>points = [gpx_full_point, gpx_plain_point]\<rparr>]\<rparr>"
      and ts = "[]" and segment = ?segment and ss = "[]"]
  note c1 = mp [OF t [THEN conjunct1] h1]
  note c2 = mp [OF t [THEN conjunct2] h2]
  note c1n = c1 [THEN conjunct2, THEN conjunct2, THEN conjunct2, THEN conjunct2,
      THEN conjunct2, THEN conjunct2, rule_format, OF i1 j1 n1]
  from c2 [THEN conjunct2, THEN conjunct2, THEN conjunct2, rule_format, OF i2]
  obtain d where d: "get_gpx_point_data sample_lib (points ?segment ! 1) = Inr d"
    and nul: "\<forall>j < length (columns run_gpx_table).
        columns run_gpx_table ! j \<notin> keys d \<longrightarrow> rows run_gpx_table ! 1 ! j = None"
    by (elim exE conjE) (rule that)
  from d e have "d = ?plain"
    by simp
  with nul [rule_format, OF j2] n2 have c2n: "rows run_gpx_table ! 1 ! 4 = None"
    by simp
  show ?thesis
    by (intro conjI h1 [THEN conjunct1] h1 [THEN conjunct2, THEN conjunct1]
        h1 [THEN conjunct2, THEN conjunct2] h2 [THEN conjunct1]
        h2 [THEN conjunct2, THEN conjunct1]
        h2 [THEN conjunct2, THEN conjunct2, THEN conjunct1]
        h2 [THEN conjunct2, THEN conjunct2, THEN conjunct2, THEN conjunct1]
        h2 [THEN conjunct2, THEN conjunct2, THEN conjunct2, THEN conjunct2]
        i1 j1 k1 r1 e k2 c1n c2n c1 [THEN conjunct1]
        c1 [THEN conjunct2, THEN conjunct1]
        c1 [THEN conjunct2, THEN conjunct2, THEN conjunct1]
        c2 [THEN conjunct1] c2 [THEN conjunct2, THEN conjunct1])
qed

section \<open>The failures of format 1\<close>

text \<open>
  C4, as the claim states it, fails: a file that is well-formed XML but not in the expected
  schema does not make \<^verbatim>\<open>get_dataframe_from_gpx\<close> fail with a \<^verbatim>\<open>ParseError\<close>.  gpxpy accepts the
  text \<^verbatim>\<open><html><body/></html>\<close> and returns a document without tracks, and the failure is the
  \<^verbatim>\<open>IndexError\<close> of \<^verbatim>\<open>gpx.tracks[0]\<close>.
\<close>

theorem foreign_document_counterexample:
  "sample_files ''page.gpx'' = Some (Document html_page) \<and>
   gpxpy_parse_text sample_reader (Document html_page) = Inr \<lparr>tracks = []\<rparr> \<and>
   get_dataframe_from_gpx (file_lib sample_lib sample_files sample_reader) ''page.gpx'' =
     Inl IndexError"
  by code_simp

text \<open>
  C4, amended.  \<^verbatim>\<open>get_dataframe_from_gpx\<close> fails with an \<^verbatim>\<open>IOError\<close> when the file cannot be
  opened, with the parser's syntax error (\<open>ParseError\<close>, gpxpy's \<^verbatim>\<open>GPXXMLSyntaxException\<close>) when
  the text of the file is not well-formed XML, and with an \<^verbatim>\<open>IndexError\<close> when the document
  has no track or its first track has no segment: when the root element has no \<^verbatim>\<open>trk\<close> child
  (whatever the root element is, gpxpy having accepted the other fields), and when the
  document was read and the first \<^verbatim>\<open>trk\<close> child of the root has no \<^verbatim>\<open>trkseg\<close> child.  The
  function has no handler: with any library, whatever \<^verbatim>\<open>open\<close> or \<^verbatim>\<open>gpxpy.parse\<close> raises leaves
  it unchanged, and a parsed document with no track, or whose first track has no segment,
  makes it raise an \<^verbatim>\<open>IndexError\<close>.  In none of these cases does it return a table.
\<close>

theorem gpx_failure_classes:
  "(fs missing = None \<longrightarrow>
      get_dataframe_from_gpx (file_lib L fs R) missing = Inl IOError) \<and>
   (fs torn = Some NotXML \<longrightarrow>
      get_dataframe_from_gpx (file_lib L fs R) torn = Inl ParseError) \<and>
   (fs trackless = Some (Document root) \<and> gpx_fields R root = Inr () \<and>
    findall root (gpx_tag ''trk'') = [] \<longrightarrow>
      get_dataframe_from_gpx (file_lib L fs R) trackless = Inl IndexError) \<and>
   (fs segmentless = Some (Document root') \<and> gpx_from_xml R root' = Inr g \<and>
    findall root' (gpx_tag ''trk'') = node # nodes \<and>
    findall node (gpx_tag ''trkseg'') = [] \<longrightarrow>
      get_dataframe_from_gpx (file_lib L fs R) segmentless = Inl IndexError) \<and>
   (open_file M fname = Inl e \<longrightarrow> get_dataframe_from_gpx M fname = Inl e) \<and>
   (open_file M fname' = Inr f' \<and> gpxpy_parse M f' = Inl e' \<longrightarrow>
      get_dataframe_from_gpx M fname' = Inl e') \<and>
   (open_file M fname'' = Inr f'' \<and> gpxpy_parse M f'' = Inr g'' \<and> tracks g'' = [] \<longrightarrow>
      get_dataframe_from_gpx M fname'' = Inl IndexError) \<and>
   (open_file M fname''' = Inr f''' \<and> gpxpy_parse M f''' = Inr g''' \<and> tracks g''' = track # ts \<and>
    segments track = [] \<longrightarrow>
      get_dataframe_from_gpx M fname''' = Inl IndexError)"
proof (intro conjI impI)
  assume "fs missing = None"
  then show "get_dataframe_from_gpx (file_lib L fs R) missing = Inl IOError"
    by (simp add: get_dataframe_from_gpx_def file_lib_def py_open_def)
next
  assume "fs torn = Some NotXML"
  then show "get_dataframe_from_gpx (file_lib L fs R) torn = Inl ParseError"
    by (simp add: get_dataframe_from_gpx_def file_lib_def py_open_def gpxpy_parse_text_def)
next
  assume "fs trackless = Some (Document root) \<and> gpx_fields R root = Inr () \<and>
    findall root (gpx_tag ''trk'') = []"
  then show "get_dataframe_from_gpx (file_lib L fs R) trackless = Inl IndexError"
    by (simp add: get_dataframe_from_gpx_def file_lib_def py_open_def gpxpy_parse_text_def
        gpx_from_xml_def getitem0_def)
next
  assume a: "fs segmentless = Some (Document root') \<and> gpx_from_xml R root' = Inr g \<and>
    findall root' (gpx_tag ''trk'') = node # nodes \<and>
    findall node (gpx_tag ''trkseg'') = []"
  then obtain t others where g: "tracks g = t # others"
    and t: "gpx_track_from_xml R node = Inr t"
    by (auto simp: gpx_from_xml_def and_then_eq_Inr split: sum.splits)
  from a t have "segments t = []"
    by (auto simp: gpx_track_from_xml_def and_then_eq_Inr)
  with a g show "get_dataframe_from_gpx (file_lib L fs R) segmentless = Inl IndexError"
    by (simp add: get_dataframe_from_gpx_def file_lib_def py_open_def gpxpy_parse_text_def
        getitem0_def)
next
  assume "open_file M fname = Inl e"
  then show "get_dataframe_from_gpx M fname = Inl e"
    by (simp add: get_dataframe_from_gpx_def)
next
  assume "open_file M fname' = Inr f' \<and> gpxpy_parse M f' = Inl e'"
  then show "get_dataframe_from_gpx M fname' = Inl e'"
    by (simp add: get_dataframe_from_gpx_def)
next
  assume "open_file M fname'' = Inr f'' \<and> gpxpy_parse M f'' = Inr g'' \<and> tracks g'' = []"
  then show "get_dataframe_from_gpx M fname'' = Inl IndexError"
    by (simp add: get_dataframe_from_gpx_def getitem0_def)
next
  assume "open_file M fname''' = Inr f''' \<and> gpxpy_parse M f''' = Inr g''' \<and>
    tracks g''' = track # ts \<and> segments track = []"
  then show "get_dataframe_from_gpx M fname''' = Inl IndexError"
    by (simp add: get_dataframe_from_gpx_def getitem0_def)
qed

theorem gpx_failure_classes_witness:
  "sample_files ''gone.gpx'' = None \<and>
   get_dataframe_from_gpx (file_lib sample_lib sample_files sample_reader) ''gone.gpx'' =
     Inl IOError \<and>
   sample_files ''torn.gpx'' = Some NotXML \<and>
   get_dataframe_from_gpx (file_lib sample_lib sample_files sample_reader) ''torn.gpx'' =
     Inl ParseError \<and>
   (sample_files ''no_tracks.gpx'' = Some (Document no_tracks_document) \<and>
    gpx_fields sample_reader no_tracks_document = Inr () \<and>
    findall no_tracks_document (gpx_tag ''trk'') = []) \<and>
   get_dataframe_from_gpx (file_lib sample_lib sample_files sample_reader) ''no_tracks.gpx'' =
     Inl IndexError \<and>
   (sample_files ''no_segments.gpx'' = Some (Document no_segments_document) \<and>
    gpx_from_xml sample_reader no_segments_document = Inr \<lparr>tracks = [\<lparr>segments = []\<rparr>]\<rparr> \<and>
    findall no_segments_document (gpx_tag ''trk'') = nameless_track # [] \<and>
    findall nameless_track (gpx_tag ''trkseg'') = []) \<and>
   get_dataframe_from_gpx (file_lib sample_lib sample_files sample_reader)
     ''no_segments.gpx'' = Inl IndexError \<and>
   open_file sample_lib ''none.gpx'' = Inl IOError \<and>
   get_dataframe_from_gpx sample_lib ''none.gpx'' = Inl IOError \<and>
   (open_file sample_lib ''broken.gpx'' = Inr ''broken.gpx'' \<and>
    gpxpy_parse sample_lib ''broken.gpx'' = Inl ParseError) \<and>
   get_dataframe_from_gpx sample_lib ''broken.gpx'' = Inl ParseError \<and>
   (open_file sample_lib ''empty.gpx'' = Inr ''empty.gpx'' \<and>
    gpxpy_parse sample_lib ''empty.gpx'' = Inr \<lparr>tracks = []\<rparr> \<and>
    tracks \<lparr>tracks = [] :: datetime gpx_track list\<rparr> = []) \<and>
   get_dataframe_from_gpx sample_lib ''empty.gpx'' = Inl IndexError \<and>
   (open_file sample_lib ''segmentless.gpx'' = Inr ''segmentless.gpx'' \<and>
    gpxpy_parse sample_lib ''segmentless.gpx'' = Inr \<lparr>tracks = [\<lparr>segments = []\<rparr>]\<rparr> \<and>
    tracks \<lparr>tracks = [\<lparr>segments = [] :: datetime gpx_segment list\<rparr>]\<rparr> =
      \<lparr>segments = []\<rparr> # [] \<and>
    segments \<lparr>segments = [] :: datetime gpx_segment list\<rparr> = []) \<and>
   get_dataframe_from_gpx sample_lib ''segmentless.gpx'' = Inl IndexError"
proof -
  have s1: "sample_files ''gone.gpx'' = None"
    by code_simp
  have s2: "sample_files ''torn.gpx'' = Some NotXML"
    by code_simp
  have s3: "sample_files ''no_tracks.gpx'' = Some (Document no_tracks_document) \<and>
    gpx_fields sample_reader no_tracks_document = Inr () \<and>
    findall no_tracks_document (gpx_tag ''trk'') = []"
    by code_simp
  have s4: "sample_files ''no_segments.gpx'' = Some (Document no_segments_document) \<and>
    gpx_from_xml sample_reader no_segments_document = Inr \<lparr>tracks = [\<lparr>segments = []\<rparr>]\<rparr> \<and>
    findall no_segments_document (gpx_tag ''trk'') = nameless_track # [] \<and>
    findall nameless_track (gpx_tag ''trkseg'') = []"
    by code_simp
  have h1: "open_file sample_lib ''none.gpx'' = Inl IOError"
    by code_simp
  have h2: "open_file sample_lib ''broken.gpx'' = Inr ''broken.gpx'' \<and>
    gpxpy_parse sample_lib ''broken.gpx'' = Inl ParseError"
    by code_simp
  have h3: "open_file sample_lib ''empty.gpx'' = Inr ''empty.gpx'' \<and>
    gpxpy_parse sample_lib ''empty.gpx'' = Inr \<lparr>tracks = []\<rparr> \<and>
    tracks \<lparr>tracks = [] :: datetime gpx_track list\<rparr> = []"
    by code_simp
  have h4: "open_file sample_lib ''segmentless.gpx'' = Inr ''segmentless.gpx'' \<and>
    gpxpy_parse sample_lib ''segmentless.gpx'' = Inr \<lparr>tracks = [\<lparr>segments = []\<rparr>]\<rparr> \<and>
    tracks \<lparr>tracks = [\<lparr>segments = [] :: datetime gpx_segment list\<rparr>]\<rparr> =
      \<lparr>segments = []\<rparr> # [] \<and>
    segments \<lparr>segments = [] :: datetime gpx_segment list\<rparr> = []"
    by code_simp
  note t = gpx_failure_classes [where fs = sample_files and L = sample_lib
      and R = sample_reader and missing = "''gone.gpx''" and torn = "''torn.gpx''"
      and trackless = "''no_tracks.gpx''" and root = no_tracks_document
      and segmentless = "''no_segments.gpx''" and root' = no_segments_document
      and g = "\<lparr>tracks = [\<lparr>segments = []\<rparr>]\<rparr>" and node = nameless_track and nodes = "[]"
      and M = sample_lib and fname = "''none.gpx''"
      and e = IOError and fname' = "''broken.gpx''" and f' = "''broken.gpx''"
      and e' = ParseError and fname'' = "''empty.gpx''" and f'' = "''empty.gpx''"
      and g'' = "\<lparr>tracks = []\<rparr>" and fname''' = "''segmentless.gpx''"
      and f''' = "''segmentless.gpx''" and g''' = "\<lparr>tracks = [\<lparr>segments = []\<rparr>]\<rparr>"
      and track = "\<lparr>segments = []\<rparr>" and ts = "[]"]
  note c1 = mp [OF t [THEN conjunct1] s1]
  note c2 = mp [OF t [THEN conjunct2, THEN conjunct1] s2]
  note c3 = mp [OF t [THEN conjunct2, THEN conjunct2, THEN conjunct1] s3]
  note c4 = mp [OF t [THEN conjunct2, THEN conjunct2, THEN conjunct2, THEN conjunct1] s4]
  note c5 = mp [OF t [THEN conjunct2, THEN conjunct2, THEN conjunct2, THEN conjunct2,
      THEN conjunct1] h1]
  note c6 = mp [OF t [THEN conjunct2, THEN conjunct2, THEN conjunct2, THEN conjunct2,
      THEN conjunct2, THEN conjunct1] h2]
  note c7 = mp [OF t [THEN conjunct2, THEN conjunct2, THEN conjunct2, THEN conjunct2,
      THEN conjunct2, THEN conjunct2, THEN conjunct1] h3]
  note c8 = mp [OF t [THEN conjunct2, THEN conjunct2, THEN conjunct2, THEN conjunct2,
      THEN conjunct2, THEN conjunct2, THEN conjunct2] h4]
  show ?thesis
    by (intro conjI s1 s2 s3 s4 h1 h2 h3 h4 c1 c2 c3 c4 c5 c6 c7 c8)
qed

end
